theory Spec2Isabelle
  imports Complex_Main "HOL-Library.Sublist"
begin

section \<open>Confidence weights\<close>

text \<open>
  The three module-level dictionaries of \<^verbatim>\<open>mlb_inning_analytics_core.py\<close> (lines 229-231)
  that give a numeric weight to a confidence label. Python mixes the integers 1, 2, 3, 4 with
  the float 2.5; the weights and the scores built from them are modelled as reals (all of
  them are exactly representable binary fractions).
\<close>

definition confidence_map :: "string \<rightharpoonup> real" where
  "confidence_map = map_of
     [(''Low'', 1), (''Moderate'', 2), (''High'', 3), (''HIGH OVER'', 4)]"

definition nrfi_yrfi_map :: "string \<rightharpoonup> real" where
  "nrfi_yrfi_map = map_of
     [(''Low'', 1), (''Moderate (leaning NRFI)'', 5 / 2), (''High (NRFI)'', 3),
      (''Moderate (leaning YRFI)'', 5 / 2), (''High (YRFI)'', 3)]"

definition over_under_map :: "string \<rightharpoonup> real" where
  "over_under_map = map_of
     [(''Low'', 1), (''Moderate (leaning Under)'', 5 / 2), (''High (Under)'', 3),
      (''Moderate (leaning Over)'', 5 / 2), (''High (Over)'', 3)]"

text \<open>Python's \<^verbatim>\<open>d.get(key, default)\<close>: the stored value, or the default for a missing key.\<close>

definition dict_get :: "('k \<rightharpoonup> 'v) \<Rightarrow> 'k \<Rightarrow> 'v \<Rightarrow> 'v" where
  "dict_get d k dflt = (case d k of None \<Rightarrow> dflt | Some v \<Rightarrow> v)"

text \<open>Python's \<^verbatim>\<open>d[key]\<close>, which raises \<^verbatim>\<open>KeyError\<close> for a missing key.\<close>

datatype py_error = KeyError


section \<open>Parlay ranker\<close>

text \<open>
  The columns of a report row that \<^verbatim>\<open>generate_ranked_parlays\<close> reads: the game, the pitcher
  and the nine overall confidence labels.
\<close>

record report_row =
  Game :: string
  Pitcher :: string
  Overall_K_CONFIDENCE :: string
  Overall_CONFIDENCE_FOR_NRFI_AND_YRFI :: string
  Overall_HITS_CONFIDENCE :: string
  Overall_WALKS_CONFIDENCE :: string
  Overall_SINGLES_CONFIDENCE :: string
  Overall_DOUBLES_CONFIDENCE :: string
  Overall_TRIPLES_CONFIDENCE :: string
  Overall_HOMERS_CONFIDENCE :: string
  Overall_TOTAL_BASES_CONFIDENCE :: string

record parlay =
  games :: string
  score :: real

text \<open>\<^verbatim>\<open>itertools.combinations(rows, 2)\<close>: all pairs of positions i < j, in lexicographic order.\<close>

fun combinations2 :: "'a list \<Rightarrow> ('a \<times> 'a) list" where
  "combinations2 [] = []"
| "combinations2 (x # xs) = map (Pair x) xs @ combinations2 xs"

text \<open>
  \<^verbatim>\<open>lst.sort(key=lambda x: x['score'], reverse=True)\<close>: Python's sort is stable, also with
  \<^verbatim>\<open>reverse=True\<close>, so candidates of equal score keep their enumeration order. The insertion
  sort \<^const>\<open>sort_key\<close> on the negated score is stable in the same way.
\<close>

definition sort_by_score_desc :: "parlay list \<Rightarrow> parlay list" where
  "sort_by_score_desc ps = sort_key (\<lambda>p. - score p) ps"

text \<open>
  A category of \<^verbatim>\<open>generate_ranked_parlays\<close>: the key of the result dictionary, the confidence
  column it filters on, the labels that qualify a row (\<^verbatim>\<open>== 'High'\<close> is the one-element list),
  the weight dictionary of its score, and the text written for a pair.
\<close>

record category =
  cat_name :: string
  cat_col :: "report_row \<Rightarrow> string"
  cat_labels :: "string list"
  cat_map :: "string \<rightharpoonup> real"
  cat_text :: "report_row \<Rightarrow> report_row \<Rightarrow> string"

definition qualifying :: "category \<Rightarrow> report_row list \<Rightarrow> report_row list" where
  "qualifying c report_df = filter (\<lambda>r. cat_col c r \<in> set (cat_labels c)) report_df"

definition pair_score :: "category \<Rightarrow> report_row \<Rightarrow> report_row \<Rightarrow> real" where
  "pair_score c game1 game2 =
     (dict_get (cat_map c) (cat_col c game1) 0 + dict_get (cat_map c) (cat_col c game2) 0) / 2"

definition candidate :: "category \<Rightarrow> report_row \<times> report_row \<Rightarrow> parlay" where
  "candidate c combo =
     \<lparr>games = cat_text c (fst combo) (snd combo), score = pair_score c (fst combo) (snd combo)\<rparr>"

text \<open>
  One block of \<^verbatim>\<open>generate_ranked_parlays\<close>: filter, and when at least two rows qualify,
  append a candidate for each combination and sort; otherwise the list stays empty.
\<close>

definition category_parlays :: "category \<Rightarrow> report_row list \<Rightarrow> parlay list" where
  "category_parlays c report_df =
     (let high_games = qualifying c report_df
      in if length high_games \<ge> 2
         then sort_by_score_desc (map (candidate c) (combinations2 high_games))
         else [])"

definition strikeout_category :: category where
  "strikeout_category =
     \<lparr>cat_name = ''Strikeout Parlays'', cat_col = Overall_K_CONFIDENCE, cat_labels = [''High''],
      cat_map = confidence_map,
      cat_text = (\<lambda>game1 game2. Game game1 @ '' ('' @ Pitcher game1 @ '') & '' @
                                  Game game2 @ '' ('' @ Pitcher game2 @ '')'')\<rparr>"

definition nrfi_category :: category where
  "nrfi_category =
     \<lparr>cat_name = ''NRFI Parlays'', cat_col = Overall_CONFIDENCE_FOR_NRFI_AND_YRFI,
      cat_labels = [''High (NRFI)''], cat_map = nrfi_yrfi_map,
      cat_text = (\<lambda>game1 game2. Game game1 @ '' (NRFI) & '' @ Game game2 @ '' (NRFI)'')\<rparr>"

definition yrfi_category :: category where
  "yrfi_category =
     \<lparr>cat_name = ''YRFI Parlays'', cat_col = Overall_CONFIDENCE_FOR_NRFI_AND_YRFI,
      cat_labels = [''High (YRFI)'', ''Moderate (leaning YRFI)''], cat_map = nrfi_yrfi_map,
      cat_text = (\<lambda>game1 game2. Game game1 @ '' (YRFI) & '' @ Game game2 @ '' (YRFI)'')\<rparr>"

text \<open>The \<^verbatim>\<open>over_under_metrics_config\<close> list local to \<^verbatim>\<open>generate_ranked_parlays\<close>.\<close>

definition over_under_metrics_config :: "(string \<times> (report_row \<Rightarrow> string)) list" where
  "over_under_metrics_config =
     [(''Hits'', Overall_HITS_CONFIDENCE),
      (''Walks'', Overall_WALKS_CONFIDENCE),
      (''Singles'', Overall_SINGLES_CONFIDENCE),
      (''Doubles'', Overall_DOUBLES_CONFIDENCE),
      (''Triples'', Overall_TRIPLES_CONFIDENCE),
      (''Homers'', Overall_HOMERS_CONFIDENCE),
      (''Total Bases'', Overall_TOTAL_BASES_CONFIDENCE)]"

definition under_category :: "string \<Rightarrow> (report_row \<Rightarrow> string) \<Rightarrow> category" where
  "under_category metric_name overall_col =
     \<lparr>cat_name = metric_name @ '' Under Parlays'', cat_col = overall_col,
      cat_labels = [''High (Under)''], cat_map = over_under_map,
      cat_text = (\<lambda>game1 game2. Game game1 @ '' ('' @ metric_name @ '' Under) & '' @
                                  Game game2 @ '' ('' @ metric_name @ '' Under)'')\<rparr>"

definition over_category :: "string \<Rightarrow> (report_row \<Rightarrow> string) \<Rightarrow> category" where
  "over_category metric_name overall_col =
     \<lparr>cat_name = metric_name @ '' Over Parlays'', cat_col = overall_col,
      cat_labels = [''High (Over)''], cat_map = over_under_map,
      cat_text = (\<lambda>game1 game2. Game game1 @ '' ('' @ metric_name @ '' Over) & '' @
                                  Game game2 @ '' ('' @ metric_name @ '' Over)'')\<rparr>"

text \<open>
  The categories whose rows all carry one qualifying label, and all seventeen categories in
  the order of the result dictionary.
\<close>

definition single_label_categories :: "category list" where
  "single_label_categories =
     [strikeout_category, nrfi_category] @
     concat (map (\<lambda>(metric_name, overall_col).
                    [under_category metric_name overall_col, over_category metric_name overall_col])
                 over_under_metrics_config)"

definition parlay_categories :: "category list" where
  "parlay_categories =
     [strikeout_category, nrfi_category, yrfi_category] @
     concat (map (\<lambda>(metric_name, overall_col).
                    [under_category metric_name overall_col, over_category metric_name overall_col])
                 over_under_metrics_config)"

text \<open>The result dictionary of \<^verbatim>\<open>generate_ranked_parlays\<close>, as an association list.\<close>

definition generate_ranked_parlays :: "report_row list \<Rightarrow> (string \<times> parlay list) list" where
  "generate_ranked_parlays report_df =
     map (\<lambda>c. (cat_name c, category_parlays c report_df)) parlay_categories"

section \<open>Confidence classifier and recommendation deriver\<close>

text \<open>
  Percentages, averages and thresholds are Python floats; they are modelled as reals, so the
  comparisons below are the source's comparisons on the exact values (float rounding, for
  instance in \<^verbatim>\<open>100 - pitcher_nrfi_pct\<close>, is not modelled).
\<close>

text \<open>\<^verbatim>\<open>calculate_overall_nrfi_yrfi_confidence\<close> (lines 2000-2025).\<close>

definition calculate_overall_nrfi_yrfi_confidence :: "real \<Rightarrow> real \<Rightarrow> string \<Rightarrow> string" where
  "calculate_overall_nrfi_yrfi_confidence pitcher_nrfi_pct opponent_nrfi_pct
       overall_run_prevention_conf =
     (let run_prevention_score = dict_get confidence_map overall_run_prevention_conf 0
      in if pitcher_nrfi_pct \<ge> 70 \<and> opponent_nrfi_pct \<ge> 70 \<and> run_prevention_score \<ge> 2
         then ''High (NRFI)''
         else if pitcher_nrfi_pct \<ge> 60 \<and> opponent_nrfi_pct \<ge> 60 \<and> run_prevention_score \<ge> 1
         then ''Moderate (leaning NRFI)''
         else (let pitcher_yrfi_pct = 100 - pitcher_nrfi_pct;
                   opponent_yrfi_pct = 100 - opponent_nrfi_pct
               in if pitcher_yrfi_pct \<ge> 70 \<and> opponent_yrfi_pct \<ge> 70
                  then ''High (YRFI)''
                  else if pitcher_yrfi_pct \<ge> 60 \<and> opponent_yrfi_pct \<ge> 60
                  then ''Moderate (leaning YRFI)''
                  else ''Low''))"

text \<open>
  The row-wise lambda of \<^verbatim>\<open>generate_report_data_and_pdfs\<close> that computes
  \<^verbatim>\<open>'Overall Run Prevention Confidence'\<close> (lines 2212-2216) from
  \<^verbatim>\<open>'PITCH RUNS ALLOWED PER GAME %'\<close>, \<^verbatim>\<open>'PITCH NRFI % INNING n'\<close> and \<^verbatim>\<open>'OPP R/G'\<close>.
\<close>

definition overall_run_prevention_confidence :: "real \<Rightarrow> real \<Rightarrow> real \<Rightarrow> string" where
  "overall_run_prevention_confidence pitch_runs_allowed_per_game_pct pitch_nrfi_pct opp_r_g =
     (if pitch_runs_allowed_per_game_pct < 50 \<and> pitch_nrfi_pct > 70 \<and> opp_r_g < 4 / 10
      then ''High''
      else if pitch_runs_allowed_per_game_pct > 100 \<and> pitch_nrfi_pct < 50 \<and> opp_r_g > 7 / 10
      then ''Low''
      else ''Moderate'')"

text \<open>
  The row-wise lambda that fills \<^verbatim>\<open>'Overall CONFIDENCE FOR NRFI AND YRFI'\<close> (lines 2225-2231):
  the classifier on the row's two venue NRFI percentages and its run prevention label.
\<close>

definition overall_confidence_for_nrfi_and_yrfi ::
    "real \<Rightarrow> real \<Rightarrow> real \<Rightarrow> real \<Rightarrow> real \<Rightarrow> string" where
  "overall_confidence_for_nrfi_and_yrfi pitcher_venue_nrfi_pct opponent_venue_nrfi_pct
       pitch_runs_allowed_per_game_pct pitch_nrfi_pct opp_r_g =
     calculate_overall_nrfi_yrfi_confidence pitcher_venue_nrfi_pct opponent_venue_nrfi_pct
       (overall_run_prevention_confidence pitch_runs_allowed_per_game_pct pitch_nrfi_pct opp_r_g)"

text \<open>
  \<^verbatim>\<open>calculate_confidence_level\<close> (lines 3400-3419). The \<^verbatim>\<open>thresholds\<close> dictionary is
  always a literal with the two keys \<^verbatim>\<open>'high'\<close> and \<^verbatim>\<open>'moderate'\<close>.
\<close>

record thresholds =
  high :: real
  moderate :: real

definition calculate_confidence_level :: "real \<Rightarrow> thresholds \<Rightarrow> string \<Rightarrow> string" where
  "calculate_confidence_level val ths comparison_type =
     (if comparison_type = ''greater''
      then (if val \<ge> high ths then ''High''
            else if val \<ge> moderate ths then ''Moderate''
            else ''Low'')
      else if comparison_type = ''less''
      then (if val \<le> high ths then ''High''
            else if val \<le> moderate ths then ''Moderate''
            else ''Low'')
      else ''Low'')"

text \<open>
  The single-value classifiers that \<^verbatim>\<open>generate_report_data_and_pdfs\<close> writes in line, one
  lambda per confidence column. \<^verbatim>\<open>PITCH K CONF\<close> and \<^verbatim>\<open>OPP K CONF\<close> (lines 2181-2182) read the
  overall strikeout rates; they are the only classifiers with the thresholds 25 and 15, and
  they differ at 15.
\<close>

definition pitch_k_conf :: "real \<Rightarrow> string" where
  "pitch_k_conf x = (if x \<ge> 25 then ''High'' else if x \<ge> 15 then ''Moderate'' else ''Low'')"

definition opp_k_conf :: "real \<Rightarrow> string" where
  "opp_k_conf x = (if x \<ge> 25 then ''High'' else if x \<le> 15 then ''Low'' else ''Moderate'')"

text \<open>
  \<^verbatim>\<open>PITCH NRFI CONF\<close> (lines 2193-2197), \<^verbatim>\<open>OPP R/G CONF\<close> (lines 2200-2204) and
  \<^verbatim>\<open>PITCH RUNS ALLOWED CONF\<close> (lines 2206-2210). The middle test of the first two is a closed
  interval, \<^verbatim>\<open>50 <= x <= 74\<close> and \<^verbatim>\<open>0.36 <= x <= 0.65\<close>, so a value strictly between 74 and 75,
  or strictly between 0.35 and 0.36, falls through to the last branch.
\<close>

definition pitch_nrfi_conf :: "real \<Rightarrow> string" where
  "pitch_nrfi_conf x =
     (if x \<ge> 75 then ''High'' else if 50 \<le> x \<and> x \<le> 74 then ''Moderate'' else ''Low'')"

definition opp_r_g_conf :: "real \<Rightarrow> string" where
  "opp_r_g_conf x =
     (if x \<le> 35 / 100 then ''Low''
      else if 36 / 100 \<le> x \<and> x \<le> 65 / 100 then ''Moderate''
      else ''High'')"

definition pitch_runs_allowed_conf :: "real \<Rightarrow> string" where
  "pitch_runs_allowed_conf x =
     (if x \<le> 25 then ''High'' else if x \<le> 50 then ''Moderate'' else ''Low'')"

text \<open>The four no-hit percentage classifiers (lines 2242-2254), each the same lambda.\<close>

definition pitch_nrhi_conf :: "real \<Rightarrow> string" where
  "pitch_nrhi_conf x =
     (if x \<ge> 75 then ''High'' else if 50 \<le> x \<and> x \<le> 74 then ''Moderate'' else ''Low'')"

definition pitcher_venue_nrhi_conf :: "real \<Rightarrow> string" where
  "pitcher_venue_nrhi_conf x =
     (if x \<ge> 75 then ''High'' else if 50 \<le> x \<and> x \<le> 74 then ''Moderate'' else ''Low'')"

definition bat_nrhi_conf :: "real \<Rightarrow> string" where
  "bat_nrhi_conf x =
     (if x \<ge> 75 then ''High'' else if 50 \<le> x \<and> x \<le> 74 then ''Moderate'' else ''Low'')"

definition batter_venue_nrhi_conf :: "real \<Rightarrow> string" where
  "batter_venue_nrhi_conf x =
     (if x \<ge> 75 then ''High'' else if 50 \<le> x \<and> x \<le> 74 then ''Moderate'' else ''Low'')"

text \<open>\<^verbatim>\<open>PITCH HITS ALLOWED CONF\<close> and \<^verbatim>\<open>OPP HITS BATTING CONF\<close> (lines 2265-2266).\<close>

definition pitch_hits_allowed_conf :: "real \<Rightarrow> string" where
  "pitch_hits_allowed_conf x =
     (if x \<le> 5 / 10 then ''High'' else if x \<le> 1 then ''Moderate'' else ''Low'')"

definition opp_hits_batting_conf :: "real \<Rightarrow> string" where
  "opp_hits_batting_conf x =
     (if x \<le> 5 / 10 then ''Low'' else if x \<le> 1 then ''Moderate'' else ''High'')"

text \<open>
  The twelve classifiers that call \<^verbatim>\<open>calculate_confidence_level\<close> (lines 2269-2314), each with
  the literal thresholds and comparison type of its line.
\<close>

definition pitch_walks_allowed_conf :: "real \<Rightarrow> string" where
  "pitch_walks_allowed_conf x =
     calculate_confidence_level x \<lparr>high = 8, moderate = 12\<rparr> ''less''"

definition opp_walks_batting_conf :: "real \<Rightarrow> string" where
  "opp_walks_batting_conf x =
     calculate_confidence_level x \<lparr>high = 5 / 10, moderate = 3 / 10\<rparr> ''greater''"

definition pitch_singles_allowed_conf :: "real \<Rightarrow> string" where
  "pitch_singles_allowed_conf x =
     calculate_confidence_level x \<lparr>high = 3 / 10, moderate = 6 / 10\<rparr> ''less''"

definition opp_singles_batting_conf :: "real \<Rightarrow> string" where
  "opp_singles_batting_conf x =
     calculate_confidence_level x \<lparr>high = 6 / 10, moderate = 3 / 10\<rparr> ''greater''"

definition pitch_doubles_allowed_conf :: "real \<Rightarrow> string" where
  "pitch_doubles_allowed_conf x =
     calculate_confidence_level x \<lparr>high = 5 / 100, moderate = 15 / 100\<rparr> ''less''"

definition opp_doubles_batting_conf :: "real \<Rightarrow> string" where
  "opp_doubles_batting_conf x =
     calculate_confidence_level x \<lparr>high = 15 / 100, moderate = 5 / 100\<rparr> ''greater''"

definition pitch_triples_allowed_conf :: "real \<Rightarrow> string" where
  "pitch_triples_allowed_conf x =
     calculate_confidence_level x \<lparr>high = 1 / 100, moderate = 3 / 100\<rparr> ''less''"

definition opp_triples_batting_conf :: "real \<Rightarrow> string" where
  "opp_triples_batting_conf x =
     calculate_confidence_level x \<lparr>high = 3 / 100, moderate = 1 / 100\<rparr> ''greater''"

definition pitch_homers_allowed_conf :: "real \<Rightarrow> string" where
  "pitch_homers_allowed_conf x =
     calculate_confidence_level x \<lparr>high = 5 / 100, moderate = 15 / 100\<rparr> ''less''"

definition opp_homers_batting_conf :: "real \<Rightarrow> string" where
  "opp_homers_batting_conf x =
     calculate_confidence_level x \<lparr>high = 15 / 100, moderate = 5 / 100\<rparr> ''greater''"

definition pitch_total_bases_allowed_conf :: "real \<Rightarrow> string" where
  "pitch_total_bases_allowed_conf x =
     calculate_confidence_level x \<lparr>high = 1, moderate = 2\<rparr> ''less''"

definition opp_total_bases_batting_conf :: "real \<Rightarrow> string" where
  "opp_total_bases_batting_conf x =
     calculate_confidence_level x \<lparr>high = 2, moderate = 1\<rparr> ''greater''"

text \<open>The ordinal of a single-value label, read from \<^const>\<open>confidence_map\<close>.\<close>

definition confidence_rank :: "string \<Rightarrow> real" where
  "confidence_rank label = dict_get confidence_map label 0"

text \<open>
  The bet columns of the Over/Under metrics (lines 2324-2365). The source writes one pair of
  lambdas per metric, identical up to the metric's name inside the bet text; the name is the
  parameter here. \<^verbatim>\<open>PITCHER X BET\<close> tests \<^verbatim>\<open>"High (Under)"\<close> first, \<^verbatim>\<open>OPPONENT X BET\<close> tests
  \<^verbatim>\<open>"High (Over)"\<close> first.
\<close>

definition over_under_metric_names :: "string list" where
  "over_under_metric_names =
     [''Hits'', ''Walks'', ''Singles'', ''Doubles'', ''Triples'', ''Homers'', ''Total Bases'']"

definition pitcher_bet :: "string \<Rightarrow> string \<Rightarrow> string" where
  "pitcher_bet metric_name x =
     (if x = ''High (Under)'' then ''Under '' @ metric_name @ '' Bet''
      else if x = ''High (Over)'' then ''Over '' @ metric_name @ '' Bet''
      else ''Neutral'')"

definition opponent_bet :: "string \<Rightarrow> string \<Rightarrow> string" where
  "opponent_bet metric_name x =
     (if x = ''High (Over)'' then ''Over '' @ metric_name @ '' Bet''
      else if x = ''High (Under)'' then ''Under '' @ metric_name @ '' Bet''
      else ''Neutral'')"

text \<open>\<^verbatim>\<open>calculate_overall_nrhi_confidence\<close> (lines 2028-2041).\<close>

definition calculate_overall_nrhi_confidence :: "real \<Rightarrow> real \<Rightarrow> string" where
  "calculate_overall_nrhi_confidence pitcher_nrhi_pct batting_nrhi_pct =
     (if pitcher_nrhi_pct \<ge> 70 \<and> batting_nrhi_pct \<ge> 70 then ''High (Under)''
      else if pitcher_nrhi_pct \<ge> 60 \<and> batting_nrhi_pct \<ge> 60 then ''Moderate (leaning Under)''
      else if pitcher_nrhi_pct \<le> 30 \<and> batting_nrhi_pct \<le> 30 then ''High (Over)''
      else if pitcher_nrhi_pct \<le> 40 \<and> batting_nrhi_pct \<le> 40 then ''Moderate (leaning Over)''
      else ''Neutral'')"

text \<open>\<^verbatim>\<open>calculate_overall_over_under_confidence\<close> (lines 2044-2064).\<close>

definition calculate_overall_over_under_confidence :: "string \<Rightarrow> string \<Rightarrow> string" where
  "calculate_overall_over_under_confidence pitcher_conf opponent_conf =
     (let pitcher_score = dict_get confidence_map pitcher_conf 0;
          opponent_score = dict_get confidence_map opponent_conf 0
      in if pitcher_score = 3 \<and> opponent_score = 1 then ''High (Under)''
         else if pitcher_score \<ge> 2 \<and> opponent_score \<le> 2 then ''Moderate (leaning Under)''
         else if pitcher_score = 1 \<and> opponent_score = 3 then ''High (Over)''
         else if pitcher_score \<le> 2 \<and> opponent_score \<ge> 2 then ''Moderate (leaning Over)''
         else ''Neutral'')"

text \<open>
  \<^verbatim>\<open>calculate_k_bet_and_confidence\<close> (lines 2128-2178), local to
  \<^verbatim>\<open>generate_report_data_and_pdfs\<close>. Its arguments are the six columns of the row that it
  reads; the result is the triple of the pitcher bet, the opponent bet and the overall
  strikeout confidence.
\<close>

definition calculate_k_bet_and_confidence ::
    "real \<Rightarrow> real \<Rightarrow> real \<Rightarrow> real \<Rightarrow> string \<Rightarrow> string \<Rightarrow> string \<times> string \<times> string" where
  "calculate_k_bet_and_confidence pitch_venue_k_rate pitch_overall_k_rate opp_venue_k_rate
       opp_overall_k_rate row_pitch_k_conf row_opp_k_conf =
     (let pitcher_k_bet =
            (if pitch_venue_k_rate \<ge> 80 \<and> pitch_overall_k_rate \<ge> 80 then ''HIGH OVER''
             else if pitch_venue_k_rate \<ge> 80 \<or> pitch_overall_k_rate \<ge> 80 then ''OVER''
             else if row_pitch_k_conf = ''Low'' then ''Under K Bet''
             else ''Neutral'');
          opponent_k_bet =
            (if opp_venue_k_rate \<ge> 80 \<and> opp_overall_k_rate \<ge> 80 then ''HIGH OVER''
             else if opp_venue_k_rate \<ge> 80 \<or> opp_overall_k_rate \<ge> 80 then ''OVER''
             else if row_opp_k_conf = ''Low'' then ''Under K Bet''
             else ''Neutral'');
          k_rate_high_80_count =
            (if pitch_venue_k_rate \<ge> 80 then 1 else 0) +
            (if pitch_overall_k_rate \<ge> 80 then 1 else 0) +
            (if opp_venue_k_rate \<ge> 80 then 1 else 0) +
            (if opp_overall_k_rate \<ge> 80 then 1 else (0::nat));
          overall_k_confidence =
            (if k_rate_high_80_count = 4 then ''HIGH OVER''
             else if k_rate_high_80_count \<ge> 2 then ''High''
             else if row_pitch_k_conf = ''High'' \<and> row_opp_k_conf = ''High'' then ''High''
             else if row_pitch_k_conf = ''Low'' \<and> row_opp_k_conf = ''Low'' then ''Low''
             else ''Moderate'')
      in (pitcher_k_bet, opponent_k_bet, overall_k_confidence))"

section \<open>Metric catalog\<close>

text \<open>\<^verbatim>\<open>f'{inning_number}'\<close>: the decimal digits of the inning number.\<close>

fun string_of_nat :: "nat \<Rightarrow> string" where
  "string_of_nat n =
     (if n < 10 then [char_of (48 + n)]
      else string_of_nat (n div 10) @ [char_of (48 + n mod 10)])"

declare string_of_nat.simps [simp del]

definition inning_col :: "nat \<Rightarrow> string \<Rightarrow> string" where
  "inning_col inning_number stat = ''inning_'' @ string_of_nat inning_number @ ''_'' @ stat"

definition inning_key :: "string \<Rightarrow> nat \<Rightarrow> string" where
  "inning_key label inning_number = label @ '' INNING '' @ string_of_nat inning_number"

text \<open>
  One dictionary of \<^verbatim>\<open>get_pitcher_metrics_for_inning\<close> or
  \<^verbatim>\<open>get_batting_metrics_for_inning\<close>. A slot that is \<^verbatim>\<open>None\<close> in the source, or absent from
  the dictionary and read with \<^verbatim>\<open>.get\<close>, is \<^const>\<open>None\<close>.
\<close>

record metric =
  col_name :: string
  report_key_avg :: "string option"
  report_key_rate :: "string option"
  report_key_per_game_pct :: "string option"
  total_col :: "string option"
  today_report_key :: "string option"
  last_game_key :: "string option"

definition mk_metric ::
    "string \<Rightarrow> string option \<Rightarrow> string option \<Rightarrow> string option \<Rightarrow> string option \<Rightarrow>
     string option \<Rightarrow> string option \<Rightarrow> metric" where
  "mk_metric c a r p t td lg =
     \<lparr>col_name = c, report_key_avg = a, report_key_rate = r, report_key_per_game_pct = p,
      total_col = t, today_report_key = td, last_game_key = lg\<rparr>"

definition get_pitcher_metrics_for_inning :: "nat \<Rightarrow> metric list" where
  "get_pitcher_metrics_for_inning n =
     [mk_metric (inning_col n ''strikeouts'') None (Some ''PITCH K RATE %'') None None
        (Some (inning_key ''TODAY PITCHER STRIKEOUTS'' n))
        (Some (inning_key ''LAST GAME PITCHER STRIKEOUTS'' n)),
      mk_metric (inning_col n ''runs_allowed'') (Some ''PITCH RUNS ALLOWED/GM'') None
        (Some ''PITCH RUNS ALLOWED PER GAME %'') None
        (Some (inning_key ''TODAY PITCHER RUNS ALLOWED'' n))
        (Some (inning_key ''LAST GAME PITCHER RUNS ALLOWED'' n)),
      mk_metric (inning_col n ''hits_allowed'') (Some ''PITCH HIT AVG #'') None
        (Some ''PITCH NRHI %'') None
        (Some (inning_key ''TODAY PITCHER HITS'' n))
        (Some (inning_key ''LAST GAME PITCHER HITS ALLOWED'' n)),
      mk_metric (inning_col n ''hits_allowed'') (Some ''PITCHER VENUE NRHI %'') None None None
        None None,
      mk_metric (inning_col n ''singles_allowed'') (Some ''PITCH SINGLES ALLOWED/GM'') None
        (Some ''PITCH SINGLES ALLOWED PER GAME %'') None
        (Some (inning_key ''TODAY PITCHER SINGLES'' n))
        (Some (inning_key ''LAST GAME PITCHER SINGLES ALLOWED'' n)),
      mk_metric (inning_col n ''singles_allowed'') (Some ''VENUE PITCH SINGLES ALLOWED/GM'') None
        None None None None,
      mk_metric (inning_col n ''doubles_allowed'') (Some ''PITCH DOUBLES ALLOWED/GM'') None
        (Some ''PITCH DOUBLES ALLOWED PER GAME %'') None
        (Some (inning_key ''TODAY PITCHER DOUBLES'' n))
        (Some (inning_key ''LAST GAME PITCHER DOUBLES ALLOWED'' n)),
      mk_metric (inning_col n ''doubles_allowed'') (Some ''VENUE PITCH DOUBLES ALLOWED/GM'') None
        None None None None,
      mk_metric (inning_col n ''triples_allowed'') (Some ''PITCH TRIPLES ALLOWED/GM'') None
        (Some ''PITCH TRIPLES ALLOWED PER GAME %'') None
        (Some (inning_key ''TODAY PITCHER TRIPLES'' n))
        (Some (inning_key ''LAST GAME PITCHER TRIPLES ALLOWED'' n)),
      mk_metric (inning_col n ''triples_allowed'') (Some ''VENUE PITCH TRIPLES ALLOWED/GM'') None
        None None None None,
      mk_metric (inning_col n ''homers_allowed'') (Some ''PITCH HOMERS ALLOWED/GM'') None
        (Some ''PITCH HOMERS ALLOWED PER GAME %'') None
        (Some (inning_key ''TODAY PITCHER HOMERS'' n))
        (Some (inning_key ''LAST GAME PITCHER HOMERS ALLOWED'' n)),
      mk_metric (inning_col n ''homers_allowed'') (Some ''VENUE PITCH HOMERS ALLOWED/GM'') None
        None None None None,
      mk_metric (inning_col n ''total_bases_allowed'') (Some ''PITCH TOTAL BASES ALLOWED/GM'') None
        (Some ''PITCH TOTAL BASES ALLOWED PER GAME %'') None
        (Some (inning_key ''TODAY PITCHER TOTAL BASES'' n))
        (Some (inning_key ''LAST GAME PITCHER TOTAL BASES ALLOWED'' n)),
      mk_metric (inning_col n ''total_bases_allowed'')
        (Some ''VENUE PITCH TOTAL BASES ALLOWED/GM'') None None None None None,
      mk_metric (inning_col n ''walks_allowed'') None None
        (Some ''PITCH WALKS ALLOWED PER GAME %'') (Some (inning_col n ''batters_faced''))
        (Some (inning_key ''TODAY PITCHER WALKS'' n))
        (Some (inning_key ''LAST GAME PITCHER WALKS ALLOWED'' n)),
      mk_metric (inning_col n ''walks_allowed'') (Some ''VENUE PITCH WALKS ALLOWED/GM'') None
        None None None None]"

definition get_batting_metrics_for_inning :: "nat \<Rightarrow> metric list" where
  "get_batting_metrics_for_inning n =
     [mk_metric (inning_col n ''strikeouts_batting'') (Some ''OPP K/GM'') (Some ''OPP K RATE %'')
        None None
        (Some (inning_key ''TODAY OPPONENT STRIKEOUTS'' n))
        (Some (inning_key ''LAST GAME OPPONENT STRIKEOUTS BATTING'' n)),
      mk_metric (inning_col n ''runs_scored'') (Some ''OPP R/G'') None None None
        (Some (inning_key ''TODAY OPPONENT RUNS SCORED'' n))
        (Some (inning_key ''LAST GAME OPPONENT RUNS SCORED'' n)),
      mk_metric (inning_col n ''hits_batting'') (Some ''BAT HIT AVG #'') (Some ''BAT HIT AVG'')
        None (Some (inning_col n ''batters_to_plate''))
        (Some (inning_key ''TODAY OPPONENT HITS'' n))
        (Some (inning_key ''LAST GAME OPPONENT HITS BATTING'' n)),
      mk_metric (inning_col n ''hits_batting'') (Some ''BATTER VENUE NRHI %'') None None None
        None None,
      mk_metric (inning_col n ''hits_batting'') None None (Some ''BAT NRHI %'') None None None,
      mk_metric (inning_col n ''singles_batting'') (Some ''OPP SINGLES BATTING/GM'') None None None
        (Some (inning_key ''TODAY OPPONENT SINGLES'' n))
        (Some (inning_key ''LAST GAME OPPONENT SINGLES BATTING'' n)),
      mk_metric (inning_col n ''singles_batting'') (Some ''VENUE BAT SINGLES BATTING/GM'') None
        None None None None,
      mk_metric (inning_col n ''doubles_batting'') (Some ''OPP DOUBLES BATTING/GM'') None None None
        (Some (inning_key ''TODAY OPPONENT DOUBLES'' n))
        (Some (inning_key ''LAST GAME OPPONENT DOUBLES BATTING'' n)),
      mk_metric (inning_col n ''doubles_batting'') (Some ''VENUE BAT DOUBLES BATTING/GM'') None
        None None None None,
      mk_metric (inning_col n ''triples_batting'') (Some ''OPP TRIPLES BATTING/GM'') None None None
        (Some (inning_key ''TODAY OPPONENT TRIPLES'' n))
        (Some (inning_key ''LAST GAME OPPONENT TRIPLES BATTING'' n)),
      mk_metric (inning_col n ''triples_batting'') (Some ''VENUE BAT TRIPLES BATTING/GM'') None
        None None None None,
      mk_metric (inning_col n ''homers_batting'') (Some ''OPP HOMERS BATTING/GM'') None None None
        (Some (inning_key ''TODAY OPPONENT HOMERS'' n))
        (Some (inning_key ''LAST GAME OPPONENT HOMERS BATTING'' n)),
      mk_metric (inning_col n ''homers_batting'') (Some ''VENUE BAT HOMERS BATTING/GM'') None
        None None None None,
      mk_metric (inning_col n ''total_bases_batting'') (Some ''OPP TOTAL BASES BATTING/GM'') None
        None None
        (Some (inning_key ''TODAY OPPONENT TOTAL BASES'' n))
        (Some (inning_key ''LAST GAME OPPONENT TOTAL BASES BATTING'' n)),
      mk_metric (inning_col n ''total_bases_batting'') (Some ''VENUE BAT TOTAL BASES BATTING/GM'')
        None None None None None,
      mk_metric (inning_col n ''walks_batting'') (Some ''OPP WALKS BATTING/GM'') None None
        (Some (inning_col n ''batters_to_plate'')) None
        (Some (inning_key ''LAST GAME OPPONENT WALKS BATTING'' n)),
      mk_metric (inning_col n ''walks_batting'') (Some ''VENUE BAT WALKS BATTING/GM'') None
        None None None None]"

section \<open>Historical aggregator\<close>

text \<open>
  A row of one of the two master fact tables that \<^verbatim>\<open>analyze_games\<close> reads. The identity
  columns are typed fields: \<^verbatim>\<open>date\<close> (a day number; the source compares timestamps),
  \<^verbatim>\<open>game_id\<close>, the entity (\<^verbatim>\<open>pitcher_name\<close> in the pitcher table, \<^verbatim>\<open>team_id\<close> in the batting
  table) and the home flag (\<^verbatim>\<open>is_home_pitcher\<close>, \<^verbatim>\<open>is_home_team\<close>). The per-inning counts are
  read by column name, as the source does; they are integers (no missing cells). A table
  carries the names of its metric columns, since the source tests
  \<^verbatim>\<open>col_name in pitcher_history.columns\<close>.
\<close>

record fact_row =
  date :: int
  game_id :: int
  entity_name :: string
  is_home_flag :: bool
  cell :: "string \<Rightarrow> int"

record fact_table =
  columns :: "string list"
  rows :: "fact_row list"

text \<open>A value of the report dictionary: a number (Python int or float) or a string.\<close>

datatype cell_value = Num real | Str string

type_synonym report_entry = "string \<rightharpoonup> cell_value"

text \<open>Assignments \<^verbatim>\<open>report_entry[key] = value\<close>, applied in order.\<close>

definition apply_updates :: "(string \<times> cell_value) list \<Rightarrow> report_entry \<Rightarrow> report_entry" where
  "apply_updates ups entry = fold (\<lambda>kv e. e(fst kv \<mapsto> snd kv)) ups entry"

text \<open>
  Lines 1512-1522: a table without its home flag column gets the column, \<^verbatim>\<open>False\<close> in
  every row.
\<close>

definition ensure_home_flag :: "string \<Rightarrow> fact_table \<Rightarrow> fact_table" where
  "ensure_home_flag home_col df =
     (if home_col \<in> set (columns df) then df
      else \<lparr>columns = columns df @ [home_col],
            rows = map (\<lambda>r. r\<lparr>is_home_flag := False\<rparr>) (rows df)\<rparr>)"

text \<open>\<^verbatim>\<open>frame['game_id'].nunique()\<close>, \<^verbatim>\<open>frame[col].sum()\<close> and the three guarded quotients.\<close>

definition nunique_games :: "fact_row list \<Rightarrow> nat" where
  "nunique_games frame = length (remdups (map game_id frame))"

definition col_sum :: "string \<Rightarrow> fact_row list \<Rightarrow> int" where
  "col_sum c frame = sum_list (map (\<lambda>r. cell r c) frame)"

definition pct_of_games :: "nat \<Rightarrow> nat \<Rightarrow> real" where
  "pct_of_games count_games total_games =
     (if total_games > 0 then real count_games / real total_games * 100 else 0)"

definition avg_per_game :: "int \<Rightarrow> nat \<Rightarrow> real" where
  "avg_per_game total_sum total_games =
     (if total_games > 0 then real_of_int total_sum / real total_games else 0)"

definition rate_pct :: "int \<Rightarrow> int \<Rightarrow> real" where
  "rate_pct total_sum total_for_rate =
     (if total_for_rate > 0 then real_of_int total_sum / real_of_int total_for_rate * 100 else 0)"

text \<open>Percentage of the frame's games with a zero count, and with a count of at least one.\<close>

definition zero_games_pct :: "string \<Rightarrow> fact_row list \<Rightarrow> real" where
  "zero_games_pct c frame =
     pct_of_games (nunique_games (filter (\<lambda>r. cell r c = 0) frame)) (nunique_games frame)"

definition k_games_pct :: "string \<Rightarrow> fact_row list \<Rightarrow> real" where
  "k_games_pct c frame =
     pct_of_games (nunique_games (filter (\<lambda>r. cell r c \<ge> 1) frame)) (nunique_games frame)"

text \<open>
  \<^verbatim>\<open>history.sort_values(by=['date', 'game_id'], ascending=[False, False]).iloc[0]\<close>, or
  \<^verbatim>\<open>None\<close> for an empty history: a row with the greatest (date, game id); among rows equal
  in both, the first of the table.
\<close>

fun latest_outing :: "fact_row list \<Rightarrow> fact_row option" where
  "latest_outing [] = None"
| "latest_outing (r # rs) =
     (case latest_outing rs of
        None \<Rightarrow> Some r
      | Some b \<Rightarrow>
          if date r < date b \<or> (date r = date b \<and> game_id r < game_id b) then Some b
          else Some r)"

text \<open>The keys \<^verbatim>\<open>all_potential_report_keys\<close> (lines 1726-1755) and the default of each.\<close>

definition metric_keys :: "metric \<Rightarrow> string list" where
  "metric_keys m =
     concat (map (\<lambda>slot. case slot of None \<Rightarrow> [] | Some k \<Rightarrow> [k])
       [report_key_avg m, report_key_rate m, report_key_per_game_pct m, last_game_key m,
        today_report_key m])"

definition all_potential_report_keys :: "nat \<Rightarrow> string list" where
  "all_potential_report_keys n =
     concat (map metric_keys (get_pitcher_metrics_for_inning n @ get_batting_metrics_for_inning n)) @
     [inning_key ''PITCHER VENUE NRFI %'' n, inning_key ''OPPONENT VENUE NRFI %'' n,
      inning_key ''PITCHER VENUE NRHI %'' n, inning_key ''BATTER VENUE NRHI %'' n,
      ''VENUE PITCH K RATE %'', ''VENUE OPP K RATE %'', ''PITCH K CONF'', ''OPP K CONF'',
      ''Overall K CONFIDENCE'', ''PITCHER K BET'', ''OPPONENT K BET'',
      inning_key ''PITCH NRFI %'' n, ''PITCH NRFI CONF'', ''OPP R/G CONF'',
      ''PITCH RUNS ALLOWED CONF'', ''Overall Run Prevention Confidence'',
      ''Overall CONFIDENCE FOR NRFI AND YRFI'', ''PITCHER RUNS BET'', ''OPPONENT RUNS BET'',
      ''PITCH NRHI CONF'', ''PITCHER VENUE NRHI CONF'', ''BAT NRHI CONF'',
      ''BATTER VENUE NRHI CONF'', ''Overall HITS CONFIDENCE'', ''PITCH HITS ALLOWED CONF'',
      ''OPP HITS BATTING CONF'', ''OPPONENT HITS BET'', ''PITCH WALKS ALLOWED CONF'',
      ''OPP WALKS BATTING CONF'', ''Overall WALKS CONFIDENCE'', ''PITCHER WALKS BET'',
      ''OPPONENT WALKS BET'', ''PITCH SINGLES ALLOWED CONF'', ''OPP SINGLES BATTING CONF'',
      ''Overall SINGLES CONFIDENCE'', ''PITCHER SINGLES BET'', ''OPPONENT SINGLES BET'',
      ''PITCH DOUBLES ALLOWED CONF'', ''OPP DOUBLES BATTING CONF'',
      ''Overall DOUBLES CONFIDENCE'', ''PITCHER DOUBLES BET'', ''OPPONENT DOUBLES BET'',
      ''PITCH TRIPLES ALLOWED CONF'', ''OPP TRIPLES BATTING CONF'',
      ''Overall TRIPLES CONFIDENCE'', ''PITCHER TRIPLES BET'', ''OPPONENT TRIPLES BET'',
      ''PITCH HOMERS ALLOWED CONF'', ''OPP HOMERS BATTING CONF'', ''Overall HOMERS CONFIDENCE'',
      ''PITCHER HOMERS BET'', ''OPPONENT HOMERS BET'', ''PITCH TOTAL BASES ALLOWED CONF'',
      ''OPP TOTAL BASES BATTING CONF'', ''Overall TOTAL BASES CONFIDENCE'',
      ''PITCHER TOTAL BASES BET'', ''OPPONENT TOTAL BASES BET'']"

definition default_value :: "string \<Rightarrow> cell_value" where
  "default_value key =
     (if sublist ''CONFIDENCE'' key \<or> sublist ''CONF'' key \<or> sublist ''BET'' key
      then Str ''Neutral''
      else if sublist ''LAST GAME'' key then Str ''N/A''
      else Num 0)"

definition default_updates :: "nat \<Rightarrow> string list \<Rightarrow> (string \<times> cell_value) list" where
  "default_updates n present =
     map (\<lambda>key. (key, default_value key))
       (filter (\<lambda>key. key \<notin> set present) (remdups (all_potential_report_keys n)))"

text \<open>The game and the pitcher whose row is computed (lines 1529-1573).\<close>

record game_info =
  home_team :: string
  away_team :: string
  info_game_id :: int
  away_pitcher :: "string option"
  home_pitcher :: "string option"

record pitcher_data =
  name_raw :: string
  team_raw :: string
  opponent_raw :: string
  is_home :: bool

definition pitchers_to_analyze :: "game_info \<Rightarrow> pitcher_data list" where
  "pitchers_to_analyze g =
     (case away_pitcher g of
        None \<Rightarrow> []
      | Some p \<Rightarrow>
          if p = [] then []
          else [\<lparr>name_raw = p, team_raw = away_team g, opponent_raw = home_team g,
                 is_home = False\<rparr>]) @
     (case home_pitcher g of
        None \<Rightarrow> []
      | Some p \<Rightarrow>
          if p = [] then []
          else [\<lparr>name_raw = p, team_raw = home_team g, opponent_raw = away_team g,
                 is_home = True\<rparr>])"

text \<open>Lines 1591-1612: the rows strictly before the report date, then those of the entity.\<close>

definition past_data :: "int \<Rightarrow> fact_table \<Rightarrow> fact_row list" where
  "past_data report_date df = filter (\<lambda>r. date r < report_date) (rows df)"

definition entity_history :: "int \<Rightarrow> fact_table \<Rightarrow> string \<Rightarrow> fact_row list" where
  "entity_history report_date df name =
     filter (\<lambda>r. entity_name r = name) (past_data report_date df)"

text \<open>
  Lines 1617-1705: a percentage is computed on the home rows and on the away rows of a
  history, and the one of the current game's role is selected.
\<close>

definition venue_select :: "(fact_row list \<Rightarrow> real) \<Rightarrow> fact_row list \<Rightarrow> bool \<Rightarrow> real" where
  "venue_select pct history is_home_for_current_game =
     (let home_history = filter (\<lambda>r. is_home_flag r = True) history;
          away_history = filter (\<lambda>r. is_home_flag r = False) history;
          home_pct = pct home_history;
          away_pct = pct away_history
      in if is_home_for_current_game then home_pct else away_pct)"

text \<open>Lines 1716-1723: the first keys of the row.\<close>

definition initial_updates ::
    "nat \<Rightarrow> game_info \<Rightarrow> pitcher_data \<Rightarrow> string \<Rightarrow> nat \<Rightarrow> (string \<times> cell_value) list" where
  "initial_updates n g p pfull_name games_pitched =
     [(''Game'', Str (away_team g @ '' @ '' @ home_team g)),
      (''Pitcher'', Str pfull_name),
      (inning_key ''# TOTAL STARTS'' n, Num (real games_pitched)),
      (''Pitcher Team'', Str (team_raw p)),
      (''Opponent'', Str (opponent_raw p)),
      (''Game ID'', Num (real_of_int (info_game_id g)))]"

text \<open>Lines 1769-1774: the six venue percentages that are always written.\<close>

definition venue_updates ::
    "nat \<Rightarrow> fact_row list \<Rightarrow> fact_row list \<Rightarrow> bool \<Rightarrow> (string \<times> cell_value) list" where
  "venue_updates n pitcher_history opponent_history is_pitcher_home_for_current_game =
     (let is_opponent_home_for_current_game = \<not> is_pitcher_home_for_current_game
      in [(inning_key ''PITCHER VENUE NRFI %'' n,
            Num (venue_select (zero_games_pct (inning_col n ''runs_allowed''))
                   pitcher_history is_pitcher_home_for_current_game)),
          (inning_key ''OPPONENT VENUE NRFI %'' n,
            Num (venue_select (zero_games_pct (inning_col n ''runs_scored''))
                   opponent_history is_opponent_home_for_current_game)),
          (inning_key ''PITCHER VENUE NRHI %'' n,
            Num (venue_select (zero_games_pct (inning_col n ''hits_allowed''))
                   pitcher_history is_pitcher_home_for_current_game)),
          (inning_key ''BATTER VENUE NRHI %'' n,
            Num (venue_select (zero_games_pct (inning_col n ''hits_batting''))
                   opponent_history is_opponent_home_for_current_game)),
          (''VENUE PITCH K RATE %'',
            Num (venue_select (k_games_pct (inning_col n ''strikeouts''))
                   pitcher_history is_pitcher_home_for_current_game)),
          (''VENUE OPP K RATE %'',
            Num (venue_select (k_games_pct (inning_col n ''strikeouts_batting''))
                   opponent_history is_opponent_home_for_current_game))])"

text \<open>Lines 1780-1800: the last game value of a metric, for the pitcher and for the opponent.\<close>

definition last_game_update ::
    "string list \<Rightarrow> fact_row option \<Rightarrow> metric \<Rightarrow> (string \<times> cell_value) list" where
  "last_game_update cols latest m =
     (case last_game_key m of
        None \<Rightarrow> []
      | Some key \<Rightarrow>
          (case latest of
             Some r \<Rightarrow>
               if col_name m \<in> set cols then [(key, Num (real_of_int (cell r (col_name m))))]
               else [(key, Str ''N/A'')]
           | None \<Rightarrow> [(key, Str ''N/A'')]))"

text \<open>A slot that is set gets a value; an unset slot writes nothing.\<close>

definition write_slot :: "string option \<Rightarrow> cell_value \<Rightarrow> (string \<times> cell_value) list" where
  "write_slot slot v = (case slot of None \<Rightarrow> [] | Some key \<Rightarrow> [(key, v)])"

text \<open>Lines 1851-1857, the same in both loops: a rate over the sum of \<^verbatim>\<open>total_col\<close>.\<close>

definition rate_update ::
    "string list \<Rightarrow> fact_row list \<Rightarrow> metric \<Rightarrow> (string \<times> cell_value) list" where
  "rate_update cols history m =
     (case report_key_rate m of
        None \<Rightarrow> []
      | Some key \<Rightarrow>
          (case total_col m of
             None \<Rightarrow> [(key, Num 0)]
           | Some tc \<Rightarrow>
               if tc \<in> set cols
               then [(key, Num (rate_pct (col_sum (col_name m) history) (col_sum tc history)))]
               else [(key, Num 0)]))"

text \<open>Lines 1803-1862: one pass of the loop over the pitcher metrics.\<close>

definition pitcher_metric_update ::
    "nat \<Rightarrow> string list \<Rightarrow> fact_row list \<Rightarrow> bool \<Rightarrow> metric \<Rightarrow> (string \<times> cell_value) list" where
  "pitcher_metric_update n cols pitcher_history is_pitcher_home_for_current_game m =
     (let games_pitched = nunique_games pitcher_history;
          c = col_name m
      in if report_key_rate m = Some ''PITCH K RATE %''
         then [(''PITCH K RATE %'',
                 Num (if games_pitched > 0
                      then real (nunique_games (filter (\<lambda>r. cell r c \<ge> 1) pitcher_history)) /
                             real games_pitched * 100
                      else 0))]
         else if c \<in> set cols
         then
           write_slot (report_key_per_game_pct m)
             (Num (if games_pitched > 0
                   then (if c = inning_col n ''hits_allowed''
                         then real (nunique_games (filter (\<lambda>r. cell r c = 0) pitcher_history)) /
                                real games_pitched * 100
                         else if c \<notin> set [inning_col n ''strikeouts'', inning_col n ''runs_allowed'']
                         then real (nunique_games (filter (\<lambda>r. cell r c > 0) pitcher_history)) /
                                real games_pitched * 100
                         else 0)
                   else 0)) @
           (case report_key_avg m of
              None \<Rightarrow> []
            | Some key \<Rightarrow>
                if sublist ''VENUE'' key
                then (let venue_pitcher_history =
                            filter (\<lambda>r. is_home_flag r = is_pitcher_home_for_current_game)
                              pitcher_history;
                          venue_games_pitched = nunique_games venue_pitcher_history
                      in if sublist ''NRHI'' key
                         then [(key, Num (zero_games_pct (inning_col n ''hits_allowed'')
                                            venue_pitcher_history))]
                         else [(key, Num (avg_per_game (col_sum c venue_pitcher_history)
                                            venue_games_pitched))])
                else [(key, Num (avg_per_game (col_sum c pitcher_history) games_pitched))]) @
           rate_update cols pitcher_history m
         else
           write_slot (report_key_avg m) (Num 0) @
           write_slot (report_key_rate m) (Num 0) @
           write_slot (report_key_per_game_pct m) (Num 0))"

text \<open>Lines 1876-1928: one pass of the loop over the batting metrics.\<close>

definition batting_metric_update ::
    "nat \<Rightarrow> string list \<Rightarrow> fact_row list \<Rightarrow> bool \<Rightarrow> metric \<Rightarrow> (string \<times> cell_value) list" where
  "batting_metric_update n cols opponent_history is_opponent_home_for_current_game m =
     (let opponent_games_played = nunique_games opponent_history;
          c = col_name m
      in if report_key_rate m = Some ''OPP K RATE %''
         then [(''OPP K RATE %'',
                 Num (if opponent_games_played > 0
                      then real (nunique_games (filter (\<lambda>r. cell r c \<ge> 1) opponent_history)) /
                             real opponent_games_played * 100
                      else 0))]
         else if c \<in> set cols
         then
           write_slot (report_key_per_game_pct m)
             (Num (if opponent_games_played > 0
                   then real (nunique_games (filter (\<lambda>r. cell r c = 0) opponent_history)) /
                          real opponent_games_played * 100
                   else 0)) @
           (case report_key_avg m of
              None \<Rightarrow> []
            | Some key \<Rightarrow>
                if sublist ''VENUE'' key
                then (let venue_opponent_history =
                            filter (\<lambda>r. is_home_flag r = is_opponent_home_for_current_game)
                              opponent_history;
                          venue_games_played = nunique_games venue_opponent_history
                      in if sublist ''NRHI'' key
                         then [(key, Num (zero_games_pct (inning_col n ''hits_batting'')
                                            venue_opponent_history))]
                         else [(key, Num (avg_per_game (col_sum c venue_opponent_history)
                                            venue_games_played))])
                else if prefix ''OPP '' key \<and> suffix ''/GM'' key
                then [(key, Num (avg_per_game (col_sum c opponent_history) opponent_games_played))]
                else [(key, Num (avg_per_game (col_sum c opponent_history) opponent_games_played))]) @
           rate_update cols opponent_history m
         else
           write_slot (report_key_avg m) (Num 0) @
           write_slot (report_key_rate m) (Num 0) @
           write_slot (report_key_per_game_pct m) (Num 0))"

text \<open>
  Lines 1865-1873 and 1931-1938: the overall NRFI percentage of the pitcher (key
  \<^verbatim>\<open>PITCH NRFI % INNING n\<close>, column \<^verbatim>\<open>runs_allowed\<close>) and of the opponent (key
  \<^verbatim>\<open>BAT NRFI % INNING n\<close>, column \<^verbatim>\<open>runs_scored\<close>).
\<close>

definition nrfi_update ::
    "string \<Rightarrow> string \<Rightarrow> string list \<Rightarrow> fact_row list \<Rightarrow> (string \<times> cell_value) list" where
  "nrfi_update key runs_col cols history =
     (if runs_col \<in> set cols then [(key, Num (zero_games_pct runs_col history))]
      else [(key, Num 0)])"

text \<open>Lines 1941-1976: the same-day value of a metric.\<close>

definition todays_data_game :: "int \<Rightarrow> fact_table \<Rightarrow> int \<Rightarrow> string \<Rightarrow> fact_row list" where
  "todays_data_game report_date df current_game_id name =
     filter (\<lambda>r. game_id r = current_game_id \<and> entity_name r = name \<and> date r = report_date)
       (rows df)"

definition today_update ::
    "string list \<Rightarrow> fact_row list \<Rightarrow> metric \<Rightarrow> (string \<times> cell_value) list" where
  "today_update cols todays m =
     (case today_report_key m of
        None \<Rightarrow> []
      | Some key \<Rightarrow>
          if todays \<noteq> [] \<and> col_name m \<in> set cols
          then [(key, Num (real_of_int (col_sum (col_name m) todays)))]
          else [(key, Num 0)])"

text \<open>The four kinds of loop over a metric catalog, as lists of assignments.\<close>

definition last_game_updates ::
    "string list \<Rightarrow> fact_row option \<Rightarrow> metric list \<Rightarrow> (string \<times> cell_value) list" where
  "last_game_updates cols latest metrics = concat (map (last_game_update cols latest) metrics)"

definition pitcher_loop_updates ::
    "nat \<Rightarrow> string list \<Rightarrow> fact_row list \<Rightarrow> bool \<Rightarrow> (string \<times> cell_value) list" where
  "pitcher_loop_updates n cols pitcher_history is_pitcher_home_for_current_game =
     concat (map (pitcher_metric_update n cols pitcher_history is_pitcher_home_for_current_game)
               (get_pitcher_metrics_for_inning n))"

definition batting_loop_updates ::
    "nat \<Rightarrow> string list \<Rightarrow> fact_row list \<Rightarrow> bool \<Rightarrow> (string \<times> cell_value) list" where
  "batting_loop_updates n cols opponent_history is_opponent_home_for_current_game =
     concat (map (batting_metric_update n cols opponent_history is_opponent_home_for_current_game)
               (get_batting_metrics_for_inning n))"

definition today_loop_updates ::
    "string list \<Rightarrow> fact_row list \<Rightarrow> metric list \<Rightarrow> (string \<times> cell_value) list" where
  "today_loop_updates cols todays metrics = concat (map (today_update cols todays) metrics)"

text \<open>
  The assignments to one report row, in the order of the source: those computed from the
  history, and the same-day values written last.
\<close>

definition history_updates ::
    "nat \<Rightarrow> int \<Rightarrow> fact_table \<Rightarrow> fact_table \<Rightarrow> game_info \<Rightarrow> pitcher_data \<Rightarrow> string \<Rightarrow> string \<Rightarrow>
     (string \<times> cell_value) list" where
  "history_updates n report_date master_pitcher_df master_batting_df g p
       pitcher_name_for_lookup pfull_name =
     (let pitcher_history = entity_history report_date master_pitcher_df pitcher_name_for_lookup;
          opponent_history = entity_history report_date master_batting_df (opponent_raw p);
          pcols = columns master_pitcher_df;
          bcols = columns master_batting_df;
          first_keys = initial_updates n g p pfull_name (nunique_games pitcher_history)
      in first_keys @
         default_updates n (map fst first_keys) @
         venue_updates n pitcher_history opponent_history (is_home p) @
         last_game_updates pcols (latest_outing pitcher_history)
           (get_pitcher_metrics_for_inning n) @
         last_game_updates bcols (latest_outing opponent_history)
           (get_batting_metrics_for_inning n) @
         pitcher_loop_updates n pcols pitcher_history (is_home p) @
         nrfi_update (inning_key ''PITCH NRFI %'' n) (inning_col n ''runs_allowed'') pcols
           pitcher_history @
         batting_loop_updates n bcols opponent_history (\<not> is_home p) @
         nrfi_update (inning_key ''BAT NRFI %'' n) (inning_col n ''runs_scored'') bcols
           opponent_history)"

definition today_updates ::
    "nat \<Rightarrow> int \<Rightarrow> fact_table \<Rightarrow> fact_table \<Rightarrow> game_info \<Rightarrow> pitcher_data \<Rightarrow> string \<Rightarrow>
     (string \<times> cell_value) list" where
  "today_updates n report_date master_pitcher_df master_batting_df g p pitcher_name_for_lookup =
     today_loop_updates (columns master_pitcher_df)
       (todays_data_game report_date master_pitcher_df (info_game_id g) pitcher_name_for_lookup)
       (get_pitcher_metrics_for_inning n) @
     today_loop_updates (columns master_batting_df)
       (todays_data_game report_date master_batting_df (info_game_id g) (opponent_raw p))
       (get_batting_metrics_for_inning n)"

text \<open>
  The columns read without a test (lines 1623-1700): a table that lacks one of them makes
  the source raise \<^verbatim>\<open>KeyError\<close>.
\<close>

definition required_pitcher_columns :: "nat \<Rightarrow> string list" where
  "required_pitcher_columns n =
     [inning_col n ''runs_allowed'', inning_col n ''hits_allowed'', inning_col n ''strikeouts'']"

definition required_batting_columns :: "nat \<Rightarrow> string list" where
  "required_batting_columns n =
     [inning_col n ''runs_scored'', inning_col n ''hits_batting'',
      inning_col n ''strikeouts_batting'']"

text \<open>
  The body of the loop over \<^verbatim>\<open>pitchers_to_analyze\<close> (lines 1568-1979): the report row of
  one pitcher of one game. The name used for the lookup and the name shown are computed from
  the raw name by string formatting, and are arguments here.
\<close>

definition analyze_entry ::
    "nat \<Rightarrow> int \<Rightarrow> fact_table \<Rightarrow> fact_table \<Rightarrow> game_info \<Rightarrow> pitcher_data \<Rightarrow> string \<Rightarrow> string \<Rightarrow>
     py_error + report_entry" where
  "analyze_entry n report_date master_pitcher_df master_batting_df g p
       pitcher_name_for_lookup pfull_name =
     (if set (required_pitcher_columns n) \<subseteq> set (columns master_pitcher_df) \<and>
         set (required_batting_columns n) \<subseteq> set (columns master_batting_df)
      then Inr (apply_updates
                  (history_updates n report_date master_pitcher_df master_batting_df g p
                     pitcher_name_for_lookup pfull_name @
                   today_updates n report_date master_pitcher_df master_batting_df g p
                     pitcher_name_for_lookup)
                  Map.empty)
      else Inl KeyError)"

text \<open>A list of results is a result: the first error, or all the values.\<close>

fun collect :: "(py_error + 'a) list \<Rightarrow> py_error + 'a list" where
  "collect [] = Inr []"
| "collect (Inl e # xs) = Inl e"
| "collect (Inr v # xs) = (case collect xs of Inl e \<Rightarrow> Inl e | Inr vs \<Rightarrow> Inr (v # vs))"

text \<open>
  \<^verbatim>\<open>analyze_games\<close> (lines 1470-1997) on the two loaded tables: no rows for an empty table,
  otherwise one row per pitcher of each game. The two name formats are parameters.
\<close>

definition analyze_games ::
    "(game_info \<Rightarrow> string \<Rightarrow> string) \<Rightarrow> (string \<Rightarrow> string) \<Rightarrow> game_info list \<Rightarrow> int \<Rightarrow> nat \<Rightarrow>
     fact_table \<Rightarrow> fact_table \<Rightarrow> py_error + report_entry list" where
  "analyze_games name_for_lookup full_name game_pitcher_info report_date n
       master_pitcher_df master_batting_df =
     (if rows master_pitcher_df = [] \<or> rows master_batting_df = [] then Inr []
      else
        (let pdf = ensure_home_flag ''is_home_pitcher'' master_pitcher_df;
             bdf = ensure_home_flag ''is_home_team'' master_batting_df
         in collect
              (concat (map (\<lambda>g. map (\<lambda>p. analyze_entry n report_date pdf bdf g p
                                          (name_for_lookup g (name_raw p)) (full_name (name_raw p)))
                                   (pitchers_to_analyze g))
                        game_pitcher_info))))"

section \<open>Confidence columns and their sorting\<close>

text \<open>
  A row of the table that \<^verbatim>\<open>analyze_games\<close> returns, as \<^verbatim>\<open>generate_report_data_and_pdfs\<close>
  reads it: the game, the pitcher, and the numeric columns by their name, after the renaming
  of the two strikeout rates (lines 2121-2124). Every column read below is present in every
  row: \<^verbatim>\<open>analyze_games\<close> gives each report key a default, and lines 2102-2106 add the
  columns that it does not write.
\<close>

record analysis_row =
  row_game :: string
  row_pitcher :: string
  num :: "string \<Rightarrow> real"

text \<open>
  The label columns that \<^verbatim>\<open>generate_report_data_and_pdfs\<close> adds to a row (lines 2181-2322):
  \<^verbatim>\<open>Overall Run Prevention Confidence\<close>, and the nine overall confidence columns, collected
  in a \<^typ>\<open>report_row\<close>.
\<close>

definition run_prevention_column :: "nat \<Rightarrow> analysis_row \<Rightarrow> string" where
  "run_prevention_column inning_number row =
     overall_run_prevention_confidence (num row ''PITCH RUNS ALLOWED PER GAME %'')
       (num row (inning_key ''PITCH NRFI %'' inning_number)) (num row ''OPP R/G'')"

definition overall_k_column :: "analysis_row \<Rightarrow> string" where
  "overall_k_column row =
     snd (snd (calculate_k_bet_and_confidence
       (num row ''VENUE PITCH K RATE %'') (num row ''PITCH K OVERALL RATE %'')
       (num row ''VENUE OPP K RATE %'') (num row ''OPP K OVERALL RATE %'')
       (pitch_k_conf (num row ''PITCH K OVERALL RATE %''))
       (opp_k_conf (num row ''OPP K OVERALL RATE %''))))"

definition confidence_columns :: "nat \<Rightarrow> analysis_row \<Rightarrow> report_row" where
  "confidence_columns inning_number row =
     \<lparr>Game = row_game row, Pitcher = row_pitcher row,
      Overall_K_CONFIDENCE = overall_k_column row,
      Overall_CONFIDENCE_FOR_NRFI_AND_YRFI =
        calculate_overall_nrfi_yrfi_confidence
          (num row (inning_key ''PITCHER VENUE NRFI %'' inning_number))
          (num row (inning_key ''OPPONENT VENUE NRFI %'' inning_number))
          (run_prevention_column inning_number row),
      Overall_HITS_CONFIDENCE =
        calculate_overall_nrhi_confidence
          (num row (inning_key ''PITCH NRHI %'' inning_number))
          (num row (inning_key ''BAT NRHI %'' inning_number)),
      Overall_WALKS_CONFIDENCE =
        calculate_overall_over_under_confidence
          (pitch_walks_allowed_conf (num row ''PITCH WALKS ALLOWED PER GAME %''))
          (opp_walks_batting_conf (num row ''OPP WALKS BATTING/GM'')),
      Overall_SINGLES_CONFIDENCE =
        calculate_overall_over_under_confidence
          (pitch_singles_allowed_conf (num row ''PITCH SINGLES ALLOWED/GM''))
          (opp_singles_batting_conf (num row ''OPP SINGLES BATTING/GM'')),
      Overall_DOUBLES_CONFIDENCE =
        calculate_overall_over_under_confidence
          (pitch_doubles_allowed_conf (num row ''PITCH DOUBLES ALLOWED/GM''))
          (opp_doubles_batting_conf (num row ''OPP DOUBLES BATTING/GM'')),
      Overall_TRIPLES_CONFIDENCE =
        calculate_overall_over_under_confidence
          (pitch_triples_allowed_conf (num row ''PITCH TRIPLES ALLOWED/GM''))
          (opp_triples_batting_conf (num row ''OPP TRIPLES BATTING/GM'')),
      Overall_HOMERS_CONFIDENCE =
        calculate_overall_over_under_confidence
          (pitch_homers_allowed_conf (num row ''PITCH HOMERS ALLOWED/GM''))
          (opp_homers_batting_conf (num row ''OPP HOMERS BATTING/GM'')),
      Overall_TOTAL_BASES_CONFIDENCE =
        calculate_overall_over_under_confidence
          (pitch_total_bases_allowed_conf (num row ''PITCH TOTAL BASES ALLOWED/GM''))
          (opp_total_bases_batting_conf (num row ''OPP TOTAL BASES BATTING/GM''))\<rparr>"

text \<open>
  \<^verbatim>\<open>x.map(d)\<close> on a column of labels looks each entry up in the dictionary \<^verbatim>\<open>d\<close>; unlike
  \<^verbatim>\<open>d.get(label, 0)\<close> it has no default, and an entry that is not a key becomes the missing
  value \<^verbatim>\<open>NaN\<close>, here \<^const>\<open>None\<close>. It does not raise.
\<close>

definition series_map :: "(string \<rightharpoonup> real) \<Rightarrow> string list \<Rightarrow> real option list" where
  "series_map d column = map d column"

text \<open>
  \<^verbatim>\<open>df.sort_values(by=[...], key=..., ascending=[...])\<close>, with the key of each row already
  computed per sort column (\<^const>\<open>None\<close> for \<^verbatim>\<open>NaN\<close>). Rows are ordered by the first column,
  rows equal there by the next one, and so on; a row whose key is missing comes after all
  rows that have one, whatever the direction (\<^verbatim>\<open>na_position='last'\<close>, the default). Rows equal
  in every column are kept in table order here. With several columns that is what pandas
  does; with one column pandas sorts with numpy's quicksort, which does not fix the order of
  rows with equal keys, and no property below depends on that order.
\<close>

fun sort_values :: "(('r \<Rightarrow> real option) \<times> bool) list \<Rightarrow> 'r list \<Rightarrow> 'r list" where
  "sort_values [] df = df"
| "sort_values ((key, ascending) # later) df =
     (let rest = sort_values later df
      in sort_key (\<lambda>r. if ascending then the (key r) else - the (key r))
           (filter (\<lambda>r. key r \<noteq> None) rest)
         @ filter (\<lambda>r. key r = None) rest)"

text \<open>
  The key lambda of the sorts below, \<^verbatim>\<open>x.map(d) if x.name == col else x\<close>: the label column
  is mapped through the dictionary, a numeric column is its own key.
\<close>

definition label_key :: "(string \<rightharpoonup> real) \<Rightarrow> ('r \<Rightarrow> string) \<Rightarrow> 'r \<Rightarrow> real option" where
  "label_key d col row = d (col row)"

definition numeric_key :: "string \<Rightarrow> analysis_row \<Rightarrow> real option" where
  "numeric_key col row = Some (num row col)"

text \<open>The recommendation tables for strikeouts and runs (lines 2368-2374).\<close>

definition top_k :: "nat \<Rightarrow> analysis_row list \<Rightarrow> analysis_row list" where
  "top_k inning_number report_df =
     take 4 (sort_values
       [(label_key confidence_map (\<lambda>r. Overall_K_CONFIDENCE (confidence_columns inning_number r)),
         False),
        (numeric_key ''PITCH K OVERALL RATE %'', False)] report_df)"

definition top_run_prevention :: "nat \<Rightarrow> analysis_row list \<Rightarrow> analysis_row list" where
  "top_run_prevention inning_number report_df =
     take 4 (sort_values
       [(label_key confidence_map (run_prevention_column inning_number), False),
        (numeric_key ''PITCH RUNS ALLOWED PER GAME %'', True)] report_df)"

definition top_nrfi :: "nat \<Rightarrow> analysis_row list \<Rightarrow> analysis_row list" where
  "top_nrfi inning_number report_df =
     take 4 (sort_values
       [(label_key nrfi_yrfi_map
           (\<lambda>r. Overall_CONFIDENCE_FOR_NRFI_AND_YRFI (confidence_columns inning_number r)),
         False)] report_df)"

definition isin :: "('r \<Rightarrow> string) \<Rightarrow> string list \<Rightarrow> 'r list \<Rightarrow> 'r list" where
  "isin col labels report_df = filter (\<lambda>r. col r \<in> set labels) report_df"

definition top_yrfi :: "nat \<Rightarrow> analysis_row list \<Rightarrow> analysis_row list" where
  "top_yrfi inning_number report_df =
     take 4 (sort_values
       [(label_key nrfi_yrfi_map
           (\<lambda>r. Overall_CONFIDENCE_FOR_NRFI_AND_YRFI (confidence_columns inning_number r)),
         False)]
       (isin (\<lambda>r. Overall_CONFIDENCE_FOR_NRFI_AND_YRFI (confidence_columns inning_number r))
          [''High (YRFI)'', ''Moderate (leaning YRFI)''] report_df))"

text \<open>The recommendation tables for hits (lines 2389-2390).\<close>

definition top_nrhi :: "nat \<Rightarrow> analysis_row list \<Rightarrow> analysis_row list" where
  "top_nrhi inning_number report_df =
     take 4 (sort_values
       [(label_key over_under_map
           (\<lambda>r. Overall_HITS_CONFIDENCE (confidence_columns inning_number r)), False)]
       (isin (\<lambda>r. Overall_HITS_CONFIDENCE (confidence_columns inning_number r))
          [''High (Under)'', ''Moderate (leaning Under)''] report_df))"

definition top_hits_over :: "nat \<Rightarrow> analysis_row list \<Rightarrow> analysis_row list" where
  "top_hits_over inning_number report_df =
     take 4 (sort_values
       [(label_key over_under_map
           (\<lambda>r. Overall_HITS_CONFIDENCE (confidence_columns inning_number r)), False)]
       (isin (\<lambda>r. Overall_HITS_CONFIDENCE (confidence_columns inning_number r))
          [''High (Over)'', ''Moderate (leaning Over)''] report_df))"

text \<open>
  The metrics after Hits in the \<^verbatim>\<open>over_under_metrics_config\<close> list of
  \<^verbatim>\<open>generate_report_data_and_pdfs\<close> (lines 2397-2402), with the overall confidence column, the
  pitcher column and the opponent column of each, and the two tables of the loop over them
  (lines 2417-2428).
\<close>

definition recommendation_metrics_config ::
    "(string \<times> (report_row \<Rightarrow> string) \<times> string \<times> string) list" where
  "recommendation_metrics_config =
     [(''Walks'', Overall_WALKS_CONFIDENCE,
         ''PITCH WALKS ALLOWED PER GAME %'', ''OPP WALKS BATTING/GM''),
      (''Singles'', Overall_SINGLES_CONFIDENCE,
         ''PITCH SINGLES ALLOWED/GM'', ''OPP SINGLES BATTING/GM''),
      (''Doubles'', Overall_DOUBLES_CONFIDENCE,
         ''PITCH DOUBLES ALLOWED/GM'', ''OPP DOUBLES BATTING/GM''),
      (''Triples'', Overall_TRIPLES_CONFIDENCE,
         ''PITCH TRIPLES ALLOWED/GM'', ''OPP TRIPLES BATTING/GM''),
      (''Homers'', Overall_HOMERS_CONFIDENCE,
         ''PITCH HOMERS ALLOWED/GM'', ''OPP HOMERS BATTING/GM''),
      (''Total Bases'', Overall_TOTAL_BASES_CONFIDENCE,
         ''PITCH TOTAL BASES ALLOWED/GM'', ''OPP TOTAL BASES BATTING/GM'')]"

definition top_under ::
    "nat \<Rightarrow> (report_row \<Rightarrow> string) \<Rightarrow> string \<Rightarrow> string \<Rightarrow> analysis_row list \<Rightarrow> analysis_row list" where
  "top_under inning_number overall_col pitcher_col opponent_col report_df =
     take 4 (sort_values
       [(label_key over_under_map (\<lambda>r. overall_col (confidence_columns inning_number r)), False),
        (numeric_key pitcher_col, True), (numeric_key opponent_col, True)]
       (isin (\<lambda>r. overall_col (confidence_columns inning_number r)) [''High (Under)'']
          report_df))"

definition top_over ::
    "nat \<Rightarrow> (report_row \<Rightarrow> string) \<Rightarrow> string \<Rightarrow> string \<Rightarrow> analysis_row list \<Rightarrow> analysis_row list" where
  "top_over inning_number overall_col pitcher_col opponent_col report_df =
     take 4 (sort_values
       [(label_key over_under_map (\<lambda>r. overall_col (confidence_columns inning_number r)), False),
        (numeric_key pitcher_col, False), (numeric_key opponent_col, False)]
       (isin (\<lambda>r. overall_col (confidence_columns inning_number r)) [''High (Over)'']
          report_df))"

text \<open>
  The summary of \<^verbatim>\<open>generate_consolidated_inning_pdf_in_memory\<close> (lines 2988-3005):
  the merged dictionary, the overall confidence columns of the nine metrics of
  \<^verbatim>\<open>get_report_metrics_config_for_inning\<close>, the three rows kept per metric, and the score of a
  kept row. In \<^verbatim>\<open>{**a, **b, **c}\<close> a later dictionary overrides an earlier one.
\<close>

definition full_confidence_map :: "string \<rightharpoonup> real" where
  "full_confidence_map = confidence_map ++ nrfi_yrfi_map ++ over_under_map"

definition overall_conf_cols :: "(report_row \<Rightarrow> string) list" where
  "overall_conf_cols =
     [Overall_K_CONFIDENCE, Overall_CONFIDENCE_FOR_NRFI_AND_YRFI, Overall_HITS_CONFIDENCE,
      Overall_WALKS_CONFIDENCE, Overall_SINGLES_CONFIDENCE, Overall_DOUBLES_CONFIDENCE,
      Overall_TRIPLES_CONFIDENCE, Overall_HOMERS_CONFIDENCE, Overall_TOTAL_BASES_CONFIDENCE]"

definition sorted_metric_df ::
    "nat \<Rightarrow> (report_row \<Rightarrow> string) \<Rightarrow> analysis_row list \<Rightarrow> analysis_row list" where
  "sorted_metric_df inning_number overall_conf_col report_df =
     take 3 (sort_values
       [(label_key full_confidence_map
           (\<lambda>r. overall_conf_col (confidence_columns inning_number r)), False)] report_df)"

definition numeric_score :: "nat \<Rightarrow> (report_row \<Rightarrow> string) \<Rightarrow> analysis_row \<Rightarrow> real" where
  "numeric_score inning_number overall_conf_col row =
     dict_get full_confidence_map (overall_conf_col (confidence_columns inning_number row)) 0"

section \<open>Example inputs\<close>

text \<open>
  A report table of three rows, used to run the parlay ranker: the first two rows with strikeout
  label High and run label High (YRFI), the third with Low and Moderate (leaning YRFI); all Over/Under
  labels are High (Under).
\<close>

definition example_row :: "string \<Rightarrow> string \<Rightarrow> string \<Rightarrow> string \<Rightarrow> string \<Rightarrow> report_row" where
  "example_row g p k_conf run_conf ou_conf =
     \<lparr>Game = g, Pitcher = p, Overall_K_CONFIDENCE = k_conf,
      Overall_CONFIDENCE_FOR_NRFI_AND_YRFI = run_conf,
      Overall_HITS_CONFIDENCE = ou_conf, Overall_WALKS_CONFIDENCE = ou_conf,
      Overall_SINGLES_CONFIDENCE = ou_conf, Overall_DOUBLES_CONFIDENCE = ou_conf,
      Overall_TRIPLES_CONFIDENCE = ou_conf, Overall_HOMERS_CONFIDENCE = ou_conf,
      Overall_TOTAL_BASES_CONFIDENCE = ou_conf\<rparr>"

definition example_report_df :: "report_row list" where
  "example_report_df =
     [example_row ''A @ B'' ''P1'' ''High'' ''High (YRFI)'' ''High (Under)'',
      example_row ''C @ D'' ''P2'' ''High'' ''High (YRFI)'' ''High (Under)'',
      example_row ''E @ F'' ''P3'' ''Low'' ''Moderate (leaning YRFI)'' ''High (Under)'']"

text \<open>
  No category of the source admits a row of weight 1. To rank rows of weights 3, 3, 1 the
  strikeout block is run with the label Low admitted next to High.
\<close>

definition high_or_low_category :: category where
  "high_or_low_category = strikeout_category\<lparr>cat_labels := [''High'', ''Low'']\<rparr>"

section \<open>Key sets of a report row\<close>

text \<open>
  The keys of the averages, rates and percentages of a metric, and the same-day keys of the
  two catalogs: the names used below for the fields of a report row.
\<close>

definition value_keys :: "metric \<Rightarrow> string list" where
  "value_keys m =
     concat (map (\<lambda>slot. case slot of None \<Rightarrow> [] | Some k \<Rightarrow> [k])
       [report_key_avg m, report_key_rate m, report_key_per_game_pct m])"

definition today_keys :: "nat \<Rightarrow> string list" where
  "today_keys n =
     concat (map (\<lambda>m. case today_report_key m of None \<Rightarrow> [] | Some k \<Rightarrow> [k])
       (get_pitcher_metrics_for_inning n @ get_batting_metrics_for_inning n))"

text \<open>
  The keys that the two metric loops assign, written out, and the keys that carry the inning
  number, by their text before \<^verbatim>\<open>INNING n\<close>. They are shown below to be the keys that
  the catalogs give.
\<close>

definition pitcher_loop_keys :: "string list" where
  "pitcher_loop_keys =
     [''PITCH K RATE %'', ''PITCH RUNS ALLOWED/GM'', ''PITCH RUNS ALLOWED PER GAME %'',
      ''PITCH HIT AVG #'', ''PITCH NRHI %'', ''PITCHER VENUE NRHI %'',
      ''PITCH SINGLES ALLOWED/GM'', ''PITCH SINGLES ALLOWED PER GAME %'',
      ''VENUE PITCH SINGLES ALLOWED/GM'', ''PITCH DOUBLES ALLOWED/GM'',
      ''PITCH DOUBLES ALLOWED PER GAME %'', ''VENUE PITCH DOUBLES ALLOWED/GM'',
      ''PITCH TRIPLES ALLOWED/GM'', ''PITCH TRIPLES ALLOWED PER GAME %'',
      ''VENUE PITCH TRIPLES ALLOWED/GM'', ''PITCH HOMERS ALLOWED/GM'',
      ''PITCH HOMERS ALLOWED PER GAME %'', ''VENUE PITCH HOMERS ALLOWED/GM'',
      ''PITCH TOTAL BASES ALLOWED/GM'', ''PITCH TOTAL BASES ALLOWED PER GAME %'',
      ''VENUE PITCH TOTAL BASES ALLOWED/GM'', ''PITCH WALKS ALLOWED PER GAME %'',
      ''VENUE PITCH WALKS ALLOWED/GM'']"

definition batting_loop_keys :: "string list" where
  "batting_loop_keys =
     [''OPP K RATE %'', ''OPP R/G'', ''BAT HIT AVG #'', ''BAT HIT AVG'',
      ''BATTER VENUE NRHI %'', ''BAT NRHI %'', ''OPP SINGLES BATTING/GM'',
      ''VENUE BAT SINGLES BATTING/GM'', ''OPP DOUBLES BATTING/GM'',
      ''VENUE BAT DOUBLES BATTING/GM'', ''OPP TRIPLES BATTING/GM'',
      ''VENUE BAT TRIPLES BATTING/GM'', ''OPP HOMERS BATTING/GM'',
      ''VENUE BAT HOMERS BATTING/GM'', ''OPP TOTAL BASES BATTING/GM'',
      ''VENUE BAT TOTAL BASES BATTING/GM'', ''OPP WALKS BATTING/GM'',
      ''VENUE BAT WALKS BATTING/GM'']"

definition other_plain_keys :: "string list" where
  "other_plain_keys =
     [''OPP K/GM'', ''VENUE PITCH K RATE %'', ''VENUE OPP K RATE %'']"

definition venue_labels :: "string list" where
  "venue_labels =
     [''PITCHER VENUE NRFI %'', ''OPPONENT VENUE NRFI %'', ''PITCHER VENUE NRHI %'',
      ''BATTER VENUE NRHI %'']"

definition pitcher_last_game_labels :: "string list" where
  "pitcher_last_game_labels =
     [''LAST GAME PITCHER STRIKEOUTS'', ''LAST GAME PITCHER RUNS ALLOWED'',
      ''LAST GAME PITCHER HITS ALLOWED'', ''LAST GAME PITCHER SINGLES ALLOWED'',
      ''LAST GAME PITCHER DOUBLES ALLOWED'', ''LAST GAME PITCHER TRIPLES ALLOWED'',
      ''LAST GAME PITCHER HOMERS ALLOWED'', ''LAST GAME PITCHER TOTAL BASES ALLOWED'',
      ''LAST GAME PITCHER WALKS ALLOWED'']"

definition opponent_last_game_labels :: "string list" where
  "opponent_last_game_labels =
     [''LAST GAME OPPONENT STRIKEOUTS BATTING'', ''LAST GAME OPPONENT RUNS SCORED'',
      ''LAST GAME OPPONENT HITS BATTING'', ''LAST GAME OPPONENT SINGLES BATTING'',
      ''LAST GAME OPPONENT DOUBLES BATTING'', ''LAST GAME OPPONENT TRIPLES BATTING'',
      ''LAST GAME OPPONENT HOMERS BATTING'', ''LAST GAME OPPONENT TOTAL BASES BATTING'',
      ''LAST GAME OPPONENT WALKS BATTING'']"

definition pitcher_today_labels :: "string list" where
  "pitcher_today_labels =
     [''TODAY PITCHER STRIKEOUTS'', ''TODAY PITCHER RUNS ALLOWED'', ''TODAY PITCHER HITS'',
      ''TODAY PITCHER SINGLES'', ''TODAY PITCHER DOUBLES'', ''TODAY PITCHER TRIPLES'',
      ''TODAY PITCHER HOMERS'', ''TODAY PITCHER TOTAL BASES'', ''TODAY PITCHER WALKS'']"

definition opponent_today_labels :: "string list" where
  "opponent_today_labels =
     [''TODAY OPPONENT STRIKEOUTS'', ''TODAY OPPONENT RUNS SCORED'', ''TODAY OPPONENT HITS'',
      ''TODAY OPPONENT SINGLES'', ''TODAY OPPONENT DOUBLES'', ''TODAY OPPONENT TRIPLES'',
      ''TODAY OPPONENT HOMERS'', ''TODAY OPPONENT TOTAL BASES'']"

definition nrfi_labels :: "string list" where
  "nrfi_labels =
     [''PITCH NRFI %'', ''BAT NRFI %'']"

section \<open>Example fact tables\<close>

text \<open>
  The metric columns of the two master tables, as \<^verbatim>\<open>get_inning_pitcher_columns\<close> and
  \<^verbatim>\<open>get_inning_batting_columns\<close> list them (lines 650-669).
\<close>

definition pitcher_metric_columns :: "nat \<Rightarrow> string list" where
  "pitcher_metric_columns n =
     map (inning_col n)
       [''strikeouts'', ''runs_allowed'', ''batters_faced'', ''hits_allowed'', ''singles_allowed'',
        ''doubles_allowed'', ''triples_allowed'', ''homers_allowed'', ''total_bases_allowed'',
        ''walks_allowed'']"

definition batting_metric_columns :: "nat \<Rightarrow> string list" where
  "batting_metric_columns n =
     map (inning_col n)
       [''runs_scored'', ''strikeouts_batting'', ''batters_to_plate'', ''hits_batting'',
        ''singles_batting'', ''doubles_batting'', ''triples_batting'', ''homers_batting'',
        ''total_bases_batting'', ''walks_batting'', ''at_bats_total_batting'']"

text \<open>A fact row from its identity columns and its non-zero counts.\<close>

definition example_fact :: "int \<Rightarrow> int \<Rightarrow> string \<Rightarrow> bool \<Rightarrow> (string \<times> int) list \<Rightarrow> fact_row" where
  "example_fact d gid name home counts =
     \<lparr>date = d, game_id = gid, entity_name = name, is_home_flag = home,
      cell = (\<lambda>c. case map_of counts c of None \<Rightarrow> 0 | Some v \<Rightarrow> v)\<rparr>"

text \<open>
  A game of day 10, New York at Boston. The away pitcher has two earlier starts, both at
  home; the home pitcher has none. Boston has batted in two earlier games, both at home; New
  York in one, away. The second pitcher table adds a row of day 10 itself, with 99 runs.
\<close>

definition example_pitcher_df :: fact_table where
  "example_pitcher_df =
     \<lparr>columns = pitcher_metric_columns 1,
      rows =
        [example_fact 1 101 ''Cole, Gerrit'' True
           [(inning_col 1 ''strikeouts'', 2), (inning_col 1 ''batters_faced'', 3)],
         example_fact 2 102 ''Cole, Gerrit'' True
           [(inning_col 1 ''runs_allowed'', 2), (inning_col 1 ''hits_allowed'', 3),
            (inning_col 1 ''singles_allowed'', 3), (inning_col 1 ''total_bases_allowed'', 3),
            (inning_col 1 ''batters_faced'', 6)],
         example_fact 2 103 ''Other, Pitcher'' False
           [(inning_col 1 ''walks_allowed'', 1), (inning_col 1 ''batters_faced'', 4)]]\<rparr>"

definition example_pitcher_df_injected :: fact_table where
  "example_pitcher_df_injected =
     example_pitcher_df
       \<lparr>rows := rows example_pitcher_df @
          [example_fact 10 110 ''Cole, Gerrit'' False
             [(inning_col 1 ''runs_allowed'', 99), (inning_col 1 ''hits_allowed'', 99),
              (inning_col 1 ''batters_faced'', 99)]]\<rparr>"

definition example_batting_df :: fact_table where
  "example_batting_df =
     \<lparr>columns = batting_metric_columns 1,
      rows =
        [example_fact 1 101 ''BOS'' True
           [(inning_col 1 ''strikeouts_batting'', 1), (inning_col 1 ''batters_to_plate'', 3)],
         example_fact 2 104 ''BOS'' True
           [(inning_col 1 ''runs_scored'', 1), (inning_col 1 ''hits_batting'', 2),
            (inning_col 1 ''batters_to_plate'', 5)],
         example_fact 2 102 ''NYY'' False []]\<rparr>"

definition example_game :: game_info where
  "example_game =
     \<lparr>home_team = ''BOS'', away_team = ''NYY'', info_game_id = 110,
      away_pitcher = Some ''Gerrit Cole'', home_pitcher = Some ''New Rookie''\<rparr>"

definition example_away_pitcher :: pitcher_data where
  "example_away_pitcher =
     \<lparr>name_raw = ''Gerrit Cole'', team_raw = ''NYY'', opponent_raw = ''BOS'', is_home = False\<rparr>"

definition example_home_pitcher :: pitcher_data where
  "example_home_pitcher =
     \<lparr>name_raw = ''New Rookie'', team_raw = ''BOS'', opponent_raw = ''NYY'', is_home = True\<rparr>"

text \<open>The same home pitcher against a team that has not batted yet.\<close>

definition example_debut_pitcher :: pitcher_data where
  "example_debut_pitcher =
     \<lparr>name_raw = ''New Rookie'', team_raw = ''BOS'', opponent_raw = ''SEA'', is_home = True\<rparr>"

section \<open>Properties of the confidence weights\<close>








section \<open>Properties of the parlay ranker\<close>

lemma combinations2_subset: "(a, b) \<in> set (combinations2 xs) \<Longrightarrow> a \<in> set xs \<and> b \<in> set xs"
  by (induction xs) auto

lemma set_sort_by_score_desc: "set (sort_by_score_desc ps) = set ps"
  by (simp add: sort_by_score_desc_def)

lemma sorted_sort_by_score_desc:
  "sorted_wrt (\<lambda>p q. score p \<ge> score q) (sort_by_score_desc ps)"
proof -
  have "sorted (map (\<lambda>p. - score p) (sort_by_score_desc ps))"
    by (simp add: sort_by_score_desc_def)
  then show ?thesis
    by (simp add: sorted_wrt_map)
qed

lemma stable_sort_by_score_desc:
  "filter (\<lambda>p. score p = s) (sort_by_score_desc ps) = filter (\<lambda>p. score p = s) ps"
proof -
  have "filter (\<lambda>p. - score p = - s) (sort_key (\<lambda>p. - score p) ps) =
        filter (\<lambda>p. - score p = - s) ps"
    by (rule sort_key_stable)
  then show ?thesis
    by (simp add: sort_by_score_desc_def)
qed

lemma combinations2_short: "length xs < 2 \<Longrightarrow> combinations2 xs = []"
  by (cases xs rule: combinations2.cases) (auto simp: neq_Nil_conv)

lemma category_parlays_eq:
  "category_parlays c report_df =
     sort_by_score_desc (map (candidate c) (combinations2 (qualifying c report_df)))"
  by (simp add: category_parlays_def Let_def combinations2_short sort_by_score_desc_def)

lemma category_parlays_mem:
  assumes "p \<in> set (category_parlays c report_df)"
  shows "\<exists>game1 game2. (game1, game2) \<in> set (combinations2 (qualifying c report_df)) \<and>
           p = candidate c (game1, game2)"
  using assms by (auto simp: category_parlays_eq set_sort_by_score_desc)

lemma qualifying_label: "g \<in> set (qualifying c report_df) \<Longrightarrow> cat_col c g \<in> set (cat_labels c)"
  by (simp add: qualifying_def)

lemma category_parlays_lt2:
  "length (qualifying c report_df) < 2 \<Longrightarrow> category_parlays c report_df = []"
  by (simp add: category_parlays_def Let_def)

lemma category_parlays_eq2:
  assumes "length (qualifying c report_df) = 2"
  shows "category_parlays c report_df =
           [candidate c (qualifying c report_df ! 0, qualifying c report_df ! 1)]"
proof -
  from assms obtain a b where q: "qualifying c report_df = [a, b]"
    by (auto simp: length_Suc_conv numeral_2_eq_2)
  then show ?thesis
    by (simp add: category_parlays_def Let_def sort_by_score_desc_def)
qed

lemma example_qualifying_k:
  "qualifying strikeout_category example_report_df =
     [example_report_df ! 0, example_report_df ! 1]"
  by (simp add: qualifying_def strikeout_category_def example_report_df_def example_row_def)

lemma example_qualifying_nrfi: "qualifying nrfi_category example_report_df = []"
  by (simp add: qualifying_def nrfi_category_def example_report_df_def example_row_def)

text \<open>
  C7. In every category of \<^verbatim>\<open>generate_ranked_parlays\<close>: with fewer than two qualifying rows
  the list of the category is empty, and with exactly two it is the one candidate that pairs
  the first qualifying row with the second. The model has no failing branch on a table whose
  rows have the columns of \<^typ>\<open>report_row\<close>.
\<close>

theorem parlays_small_categories:
  "\<forall>c \<in> set parlay_categories.
     (cat_name c, category_parlays c report_df) \<in> set (generate_ranked_parlays report_df) \<and>
     (length (qualifying c report_df) < 2 \<longrightarrow> category_parlays c report_df = []) \<and>
     (length (qualifying c report_df) = 2 \<longrightarrow>
        category_parlays c report_df =
          [\<lparr>games = cat_text c (qualifying c report_df ! 0) (qualifying c report_df ! 1),
            score = (dict_get (cat_map c) (cat_col c (qualifying c report_df ! 0)) 0 +
                     dict_get (cat_map c) (cat_col c (qualifying c report_df ! 1)) 0) / 2\<rparr>])"
proof
  fix c
  assume c: "c \<in> set parlay_categories"
  have "(cat_name c, category_parlays c report_df) \<in> set (generate_ranked_parlays report_df)"
    using c by (auto simp: generate_ranked_parlays_def)
  moreover have "length (qualifying c report_df) = 2 \<longrightarrow>
      category_parlays c report_df =
        [\<lparr>games = cat_text c (qualifying c report_df ! 0) (qualifying c report_df ! 1),
          score = (dict_get (cat_map c) (cat_col c (qualifying c report_df ! 0)) 0 +
                   dict_get (cat_map c) (cat_col c (qualifying c report_df ! 1)) 0) / 2\<rparr>]"
    using category_parlays_eq2 [of c report_df] by (simp add: candidate_def pair_score_def)
  ultimately show "(cat_name c, category_parlays c report_df) \<in>
        set (generate_ranked_parlays report_df) \<and>
     (length (qualifying c report_df) < 2 \<longrightarrow> category_parlays c report_df = []) \<and>
     (length (qualifying c report_df) = 2 \<longrightarrow>
        category_parlays c report_df =
          [\<lparr>games = cat_text c (qualifying c report_df ! 0) (qualifying c report_df ! 1),
            score = (dict_get (cat_map c) (cat_col c (qualifying c report_df ! 0)) 0 +
                     dict_get (cat_map c) (cat_col c (qualifying c report_df ! 1)) 0) / 2\<rparr>])"
    using category_parlays_lt2 [of c report_df] by blast
qed

theorem parlays_small_categories_witness:
  "strikeout_category \<in> set parlay_categories \<and>
   length (qualifying strikeout_category example_report_df) = 2 \<and>
   category_parlays strikeout_category example_report_df =
     [\<lparr>games = ''A @ B (P1) & C @ D (P2)'', score = 3\<rparr>] \<and>
   nrfi_category \<in> set parlay_categories \<and>
   length (qualifying nrfi_category example_report_df) < 2 \<and>
   category_parlays nrfi_category example_report_df = []"
proof -
  have k: "strikeout_category \<in> set parlay_categories"
    and n: "nrfi_category \<in> set parlay_categories"
    by (simp_all add: parlay_categories_def)
  have "category_parlays strikeout_category example_report_df =
     [\<lparr>games = ''A @ B (P1) & C @ D (P2)'', score = 3\<rparr>]"
    using parlays_small_categories [of example_report_df, rule_format, OF k]
    by (simp add: example_qualifying_k)
      (simp add: strikeout_category_def example_report_df_def example_row_def dict_get_def
        confidence_map_def)
  moreover have "category_parlays nrfi_category example_report_df = []"
    using parlays_small_categories [of example_report_df, rule_format, OF n]
    by (simp add: example_qualifying_nrfi)
  ultimately show ?thesis
    using k n by (simp add: example_qualifying_k example_qualifying_nrfi)
qed

lemma example_yrfi:
  "category_parlays yrfi_category example_report_df =
     [\<lparr>games = ''A @ B (YRFI) & C @ D (YRFI)'', score = 3\<rparr>,
      \<lparr>games = ''A @ B (YRFI) & E @ F (YRFI)'', score = 11 / 4\<rparr>,
      \<lparr>games = ''C @ D (YRFI) & E @ F (YRFI)'', score = 11 / 4\<rparr>]"
  by (simp add: category_parlays_def qualifying_def yrfi_category_def example_report_df_def
      example_row_def candidate_def pair_score_def dict_get_def nrfi_yrfi_map_def
      sort_by_score_desc_def)

lemma example_high_or_low:
  "category_parlays high_or_low_category example_report_df =
     [\<lparr>games = ''A @ B (P1) & C @ D (P2)'', score = 3\<rparr>,
      \<lparr>games = ''A @ B (P1) & E @ F (P3)'', score = 2\<rparr>,
      \<lparr>games = ''C @ D (P2) & E @ F (P3)'', score = 2\<rparr>]"
  by (simp add: category_parlays_def qualifying_def high_or_low_category_def
      strikeout_category_def example_report_df_def example_row_def candidate_def pair_score_def
      dict_get_def confidence_map_def sort_by_score_desc_def)

lemma example_hits_under:
  "category_parlays (under_category ''Hits'' Overall_HITS_CONFIDENCE) example_report_df =
     [\<lparr>games = ''A @ B (Hits Under) & C @ D (Hits Under)'', score = 3\<rparr>,
      \<lparr>games = ''A @ B (Hits Under) & E @ F (Hits Under)'', score = 3\<rparr>,
      \<lparr>games = ''C @ D (Hits Under) & E @ F (Hits Under)'', score = 3\<rparr>]"
  by (simp add: category_parlays_def qualifying_def under_category_def example_report_df_def
      example_row_def candidate_def pair_score_def dict_get_def over_under_map_def
      sort_by_score_desc_def)

text \<open>
  C8. In any category (the block is the same for all of them): every candidate pairs two
  qualifying rows in enumeration order and its score is the average of their two weights;
  the list is in descending order of score; candidates of equal score keep the order of
  enumeration. On rows of weights 3, 3, 1 (the strikeout block with Low admitted, since no
  category of the source admits a weight 1) the pair of the two weight 3 rows, score 3, comes
  before the two pairs with the weight 1 row, score 2.
\<close>

theorem parlays_scored_and_ranked:
  "(\<forall>p \<in> set (category_parlays c report_df).
      \<exists>game1 game2. (game1, game2) \<in> set (combinations2 (qualifying c report_df)) \<and>
        games p = cat_text c game1 game2 \<and>
        score p = (dict_get (cat_map c) (cat_col c game1) 0 +
                   dict_get (cat_map c) (cat_col c game2) 0) / 2) \<and>
   sorted_wrt (\<lambda>p q. score p \<ge> score q) (category_parlays c report_df) \<and>
   (\<forall>s. filter (\<lambda>p. score p = s) (category_parlays c report_df) =
        filter (\<lambda>p. score p = s) (map (candidate c) (combinations2 (qualifying c report_df)))) \<and>
   map (\<lambda>r. dict_get confidence_map (Overall_K_CONFIDENCE r) 0) example_report_df = [3, 3, 1] \<and>
   category_parlays high_or_low_category example_report_df =
     [\<lparr>games = ''A @ B (P1) & C @ D (P2)'', score = 3\<rparr>,
      \<lparr>games = ''A @ B (P1) & E @ F (P3)'', score = 2\<rparr>,
      \<lparr>games = ''C @ D (P2) & E @ F (P3)'', score = 2\<rparr>]"
proof -
  have scored: "\<exists>game1 game2. (game1, game2) \<in> set (combinations2 (qualifying c report_df)) \<and>
        games p = cat_text c game1 game2 \<and>
        score p = (dict_get (cat_map c) (cat_col c game1) 0 +
                   dict_get (cat_map c) (cat_col c game2) 0) / 2"
    if "p \<in> set (category_parlays c report_df)" for p
  proof -
    from category_parlays_mem [OF that] obtain game1 game2
      where "(game1, game2) \<in> set (combinations2 (qualifying c report_df))"
        and "p = candidate c (game1, game2)"
      by blast
    then show ?thesis
      by (auto simp: candidate_def pair_score_def)
  qed
  have ranked: "sorted_wrt (\<lambda>p q. score p \<ge> score q) (category_parlays c report_df)"
    by (simp add: category_parlays_eq sorted_sort_by_score_desc)
  have stable: "filter (\<lambda>p. score p = s) (category_parlays c report_df) =
        filter (\<lambda>p. score p = s) (map (candidate c) (combinations2 (qualifying c report_df)))"
    for s
    by (simp only: category_parlays_eq stable_sort_by_score_desc)
  have weights:
    "map (\<lambda>r. dict_get confidence_map (Overall_K_CONFIDENCE r) 0) example_report_df = [3, 3, 1]"
    by (simp add: example_report_df_def example_row_def dict_get_def confidence_map_def)
  show ?thesis
    using scored ranked stable weights example_high_or_low by blast
qed

theorem parlays_scored_and_ranked_witness:
  "\<lparr>games = ''A @ B (YRFI) & E @ F (YRFI)'', score = 11 / 4\<rparr>
     \<in> set (category_parlays yrfi_category example_report_df) \<and>
   (\<exists>game1 game2.
      (game1, game2) \<in> set (combinations2 (qualifying yrfi_category example_report_df)) \<and>
      ''A @ B (YRFI) & E @ F (YRFI)'' = cat_text yrfi_category game1 game2 \<and>
      11 / 4 = (dict_get (cat_map yrfi_category) (cat_col yrfi_category game1) 0 +
                dict_get (cat_map yrfi_category) (cat_col yrfi_category game2) 0) / 2) \<and>
   sorted_wrt (\<lambda>p q. score p \<ge> score q) (category_parlays yrfi_category example_report_df)"
proof -
  have mem: "\<lparr>games = ''A @ B (YRFI) & E @ F (YRFI)'', score = 11 / 4\<rparr>
      \<in> set (category_parlays yrfi_category example_report_df)"
    by (simp add: example_yrfi)
  note inst = parlays_scored_and_ranked [of yrfi_category example_report_df]
  from inst [THEN conjunct1, rule_format, OF mem]
  have pair: "\<exists>game1 game2.
      (game1, game2) \<in> set (combinations2 (qualifying yrfi_category example_report_df)) \<and>
      ''A @ B (YRFI) & E @ F (YRFI)'' = cat_text yrfi_category game1 game2 \<and>
      11 / 4 = (dict_get (cat_map yrfi_category) (cat_col yrfi_category game1) 0 +
                dict_get (cat_map yrfi_category) (cat_col yrfi_category game2) 0) / 2"
    by (simp only: parlay.simps)
  from inst [THEN conjunct2, THEN conjunct1]
  have "sorted_wrt (\<lambda>p q. score p \<ge> score q) (category_parlays yrfi_category example_report_df)" .
  with mem pair show ?thesis
    by (intro conjI)
qed

lemma single_label_weight:
  "c \<in> set single_label_categories \<Longrightarrow> l \<in> set (cat_labels c) \<Longrightarrow>
   dict_get (cat_map c) l 0 = 3"
  by (auto simp: single_label_categories_def over_under_metrics_config_def
      strikeout_category_def nrfi_category_def under_category_def over_category_def
      dict_get_def confidence_map_def nrfi_yrfi_map_def over_under_map_def)

lemma yrfi_label_weight:
  "l \<in> set (cat_labels yrfi_category) \<Longrightarrow> dict_get (cat_map yrfi_category) l 0 \<in> {3, 5 / 2}"
  by (auto simp: yrfi_category_def dict_get_def nrfi_yrfi_map_def)

lemma category_parlays_labels:
  assumes "p \<in> set (category_parlays c report_df)"
  shows "\<exists>l1 \<in> set (cat_labels c). \<exists>l2 \<in> set (cat_labels c).
           score p = (dict_get (cat_map c) l1 0 + dict_get (cat_map c) l2 0) / 2"
proof -
  from category_parlays_mem [OF assms] obtain game1 game2
    where mem: "(game1, game2) \<in> set (combinations2 (qualifying c report_df))"
      and p: "p = candidate c (game1, game2)"
    by blast
  have "cat_col c game1 \<in> set (cat_labels c)" "cat_col c game2 \<in> set (cat_labels c)"
    using combinations2_subset [OF mem] by (auto intro: qualifying_label)
  then show ?thesis
    using p by (auto simp: candidate_def pair_score_def)
qed

text \<open>
  C10. The seventeen categories are the sixteen with one qualifying label and the YRFI
  category. In a category with one qualifying label every candidate has score 3. A YRFI
  candidate has score 3, 2.75 or 2.5, and the example table gives YRFI candidates of
  different scores.
\<close>

theorem single_label_scores:
  "set parlay_categories = set single_label_categories \<union> {yrfi_category} \<and>
   (\<forall>c \<in> set single_label_categories. \<forall>p \<in> set (category_parlays c report_df). score p = 3) \<and>
   (\<forall>p \<in> set (category_parlays yrfi_category report_df). score p \<in> {3, 11 / 4, 5 / 2}) \<and>
   map score (category_parlays yrfi_category example_report_df) = [3, 11 / 4, 11 / 4]"
proof -
  have cats: "set parlay_categories = set single_label_categories \<union> {yrfi_category}"
    by (auto simp: parlay_categories_def single_label_categories_def)
  have single: "score p = 3"
    if "c \<in> set single_label_categories" "p \<in> set (category_parlays c report_df)" for c p
    using category_parlays_labels [OF that(2)] single_label_weight [OF that(1)] by auto
  have yrfi: "score p \<in> {3, 11 / 4, 5 / 2}"
    if "p \<in> set (category_parlays yrfi_category report_df)" for p
  proof -
    from category_parlays_labels [OF that] obtain l1 l2
      where l: "l1 \<in> set (cat_labels yrfi_category)" "l2 \<in> set (cat_labels yrfi_category)"
        and s: "score p = (dict_get (cat_map yrfi_category) l1 0 +
                           dict_get (cat_map yrfi_category) l2 0) / 2"
      by blast
    from yrfi_label_weight [OF l(1)] yrfi_label_weight [OF l(2)] s show ?thesis
      by auto
  qed
  have "map score (category_parlays yrfi_category example_report_df) = [3, 11 / 4, 11 / 4]"
    by (simp add: example_yrfi)
  with cats single yrfi show ?thesis
    by blast
qed

theorem single_label_scores_witness:
  "under_category ''Hits'' Overall_HITS_CONFIDENCE \<in> set single_label_categories \<and>
   \<lparr>games = ''A @ B (Hits Under) & E @ F (Hits Under)'', score = 3\<rparr>
     \<in> set (category_parlays (under_category ''Hits'' Overall_HITS_CONFIDENCE) example_report_df) \<and>
   \<lparr>games = ''A @ B (YRFI) & E @ F (YRFI)'', score = 11 / 4\<rparr>
     \<in> set (category_parlays yrfi_category example_report_df) \<and>
   (11 / 4 :: real) \<in> {3, 11 / 4, 5 / 2}"
proof -
  have cat: "under_category ''Hits'' Overall_HITS_CONFIDENCE \<in> set single_label_categories"
    by (simp add: single_label_categories_def over_under_metrics_config_def)
  have ex: "\<exists>s. \<lparr>games = ''A @ B (Hits Under) & E @ F (Hits Under)'', score = s\<rparr>
      \<in> set (category_parlays (under_category ''Hits'' Overall_HITS_CONFIDENCE) example_report_df)"
    by (simp add: example_hits_under)
  then obtain s where mem: "\<lparr>games = ''A @ B (Hits Under) & E @ F (Hits Under)'', score = s\<rparr>
      \<in> set (category_parlays (under_category ''Hits'' Overall_HITS_CONFIDENCE) example_report_df)"
    by blast
  note inst = single_label_scores [of example_report_df]
  from inst [THEN conjunct2, THEN conjunct1, rule_format, OF cat mem]
  have s: "s = 3"
    by (simp only: parlay.simps)
  have ymem: "\<lparr>games = ''A @ B (YRFI) & E @ F (YRFI)'', score = 11 / 4\<rparr>
      \<in> set (category_parlays yrfi_category example_report_df)"
    by (simp add: example_yrfi)
  from inst [THEN conjunct2, THEN conjunct2, THEN conjunct1, rule_format, OF ymem]
  have "(11 / 4 :: real) \<in> {3, 11 / 4, 5 / 2}"
    by (simp only: parlay.simps)
  with cat mem s ymem show ?thesis
    by (intro conjI) simp_all
qed

section \<open>Properties of the classifier and of the recommendations\<close>

lemma confidence_map_signal:
  "(dict_get confidence_map conf 0 \<ge> 2 \<longleftrightarrow> conf \<in> {''Moderate'', ''High'', ''HIGH OVER''}) \<and>
   (dict_get confidence_map conf 0 \<ge> 1 \<longleftrightarrow>
      conf \<in> {''Low'', ''Moderate'', ''High'', ''HIGH OVER''})"
  by (simp add: dict_get_def confidence_map_def)

lemma run_prevention_signal:
  "dict_get confidence_map (overall_run_prevention_confidence a b c) 0 \<ge> 1"
  by (simp add: overall_run_prevention_confidence_def dict_get_def confidence_map_def)

lemma cascade_generic:
  assumes "r = (if A then l1 else if B then l2 else if C then l3 else if D then l4 else l5)"
    and "distinct [l1, l2, l3, l4, l5]"
  shows "(r = l1 \<longleftrightarrow> A) \<and> (r = l2 \<longleftrightarrow> \<not> A \<and> B) \<and> (r = l3 \<longleftrightarrow> \<not> A \<and> \<not> B \<and> C) \<and>
         (r = l4 \<longleftrightarrow> \<not> A \<and> \<not> B \<and> \<not> C \<and> D) \<and> (r = l5 \<longleftrightarrow> \<not> A \<and> \<not> B \<and> \<not> C \<and> \<not> D)"
  using assms by auto

lemma nrfi_yrfi_labels_distinct:
  "distinct [''High (NRFI)'', ''Moderate (leaning NRFI)'', ''High (YRFI)'',
             ''Moderate (leaning YRFI)'', ''Low'']"
  by simp

lemma calculate_overall_nrfi_yrfi_confidence_unfold:
  "calculate_overall_nrfi_yrfi_confidence p q conf =
     (if p \<ge> 70 \<and> q \<ge> 70 \<and> dict_get confidence_map conf 0 \<ge> 2 then ''High (NRFI)''
      else if p \<ge> 60 \<and> q \<ge> 60 \<and> dict_get confidence_map conf 0 \<ge> 1
      then ''Moderate (leaning NRFI)''
      else if 100 - p \<ge> 70 \<and> 100 - q \<ge> 70 then ''High (YRFI)''
      else if 100 - p \<ge> 60 \<and> 100 - q \<ge> 60 then ''Moderate (leaning YRFI)''
      else ''Low'')"
  unfolding calculate_overall_nrfi_yrfi_confidence_def Let_def by (rule refl)

text \<open>
  C4. The result of \<^verbatim>\<open>calculate_overall_nrfi_yrfi_confidence\<close> is decided by a cascade.
  With \<open>signal\<close> the weight of the run prevention label (Low 1, Moderate 2, High 3, HIGH OVER
  4, any other label 0): High (NRFI) exactly when both percentages are at least 70 and the
  signal is at least 2; otherwise Moderate (leaning NRFI) exactly when both are at least 60
  and the signal is at least 1; otherwise High (YRFI) exactly when both complements to 100
  are at least 70; otherwise Moderate (leaning YRFI) exactly when both complements are at
  least 60; otherwise Low. On a report row the run prevention label is High, Moderate or
  Low, so the signal is at least 1.
\<close>

theorem nrfi_yrfi_confidence_cascade:
  fixes pitcher_nrfi_pct opponent_nrfi_pct :: real
  assumes "result = calculate_overall_nrfi_yrfi_confidence pitcher_nrfi_pct opponent_nrfi_pct conf"
    and "signal = dict_get confidence_map conf 0"
    and "high_nrfi = (pitcher_nrfi_pct \<ge> 70 \<and> opponent_nrfi_pct \<ge> 70 \<and> signal \<ge> 2)"
    and "moderate_nrfi = (pitcher_nrfi_pct \<ge> 60 \<and> opponent_nrfi_pct \<ge> 60 \<and> signal \<ge> 1)"
    and "high_yrfi = (100 - pitcher_nrfi_pct \<ge> 70 \<and> 100 - opponent_nrfi_pct \<ge> 70)"
    and "moderate_yrfi = (100 - pitcher_nrfi_pct \<ge> 60 \<and> 100 - opponent_nrfi_pct \<ge> 60)"
  shows "(result = ''High (NRFI)'' \<longleftrightarrow> high_nrfi) \<and>
         (result = ''Moderate (leaning NRFI)'' \<longleftrightarrow> \<not> high_nrfi \<and> moderate_nrfi) \<and>
         (result = ''High (YRFI)'' \<longleftrightarrow> \<not> high_nrfi \<and> \<not> moderate_nrfi \<and> high_yrfi) \<and>
         (result = ''Moderate (leaning YRFI)'' \<longleftrightarrow>
            \<not> high_nrfi \<and> \<not> moderate_nrfi \<and> \<not> high_yrfi \<and> moderate_yrfi) \<and>
         (result = ''Low'' \<longleftrightarrow>
            \<not> high_nrfi \<and> \<not> moderate_nrfi \<and> \<not> high_yrfi \<and> \<not> moderate_yrfi) \<and>
         (signal \<ge> 2 \<longleftrightarrow> conf \<in> {''Moderate'', ''High'', ''HIGH OVER''}) \<and>
         (signal \<ge> 1 \<longleftrightarrow> conf \<in> {''Low'', ''Moderate'', ''High'', ''HIGH OVER''}) \<and>
         (\<forall>a b c. conf = overall_run_prevention_confidence a b c \<longrightarrow> signal \<ge> 1)"
proof -
  have shape: "result =
       (if high_nrfi then ''High (NRFI)''
        else if moderate_nrfi then ''Moderate (leaning NRFI)''
        else if high_yrfi then ''High (YRFI)''
        else if moderate_yrfi then ''Moderate (leaning YRFI)''
        else ''Low'')"
    unfolding assms by (rule calculate_overall_nrfi_yrfi_confidence_unfold)
  note cascade = cascade_generic [OF shape nrfi_yrfi_labels_distinct]
  note sig = confidence_map_signal [of conf, folded assms(2)]
  have row: "\<forall>a b c. conf = overall_run_prevention_confidence a b c \<longrightarrow> signal \<ge> 1"
  proof (intro allI impI)
    fix a b c
    assume "conf = overall_run_prevention_confidence a b c"
    then show "signal \<ge> 1"
      unfolding assms(2) by (simp only: run_prevention_signal)
  qed
  show ?thesis
    apply (intro conjI)
    apply (rule cascade [THEN conjunct1])
    apply (rule cascade [THEN conjunct2, THEN conjunct1])
    apply (rule cascade [THEN conjunct2, THEN conjunct2, THEN conjunct1])
    apply (rule cascade [THEN conjunct2, THEN conjunct2, THEN conjunct2, THEN conjunct1])
    apply (rule cascade [THEN conjunct2, THEN conjunct2, THEN conjunct2, THEN conjunct2])
    apply (rule sig [THEN conjunct1])
    apply (rule sig [THEN conjunct2])
    apply (rule row)
    done
qed

theorem nrfi_yrfi_confidence_cascade_witness:
  "calculate_overall_nrfi_yrfi_confidence (500 / 6) 80 ''High'' = ''High (NRFI)'' \<and>
   calculate_overall_nrfi_yrfi_confidence 65 60 ''Low'' = ''Moderate (leaning NRFI)'' \<and>
   calculate_overall_nrfi_yrfi_confidence 20 30 ''Moderate'' = ''High (YRFI)'' \<and>
   calculate_overall_nrfi_yrfi_confidence 40 35 ''High'' = ''Moderate (leaning YRFI)'' \<and>
   calculate_overall_nrfi_yrfi_confidence 75 45 ''High'' = ''Low'' \<and>
   calculate_overall_nrfi_yrfi_confidence 90 90 ''Neutral'' = ''Low'' \<and>
   ''Moderate'' = overall_run_prevention_confidence 60 60 (1 / 2) \<and>
   dict_get confidence_map ''Moderate'' 0 \<ge> 1"
proof -
  have c: "dict_get confidence_map ''High'' 0 = 3" "dict_get confidence_map ''Low'' 0 = 1"
    "dict_get confidence_map ''Moderate'' 0 = 2" "dict_get confidence_map ''Neutral'' 0 = 0"
    by (simp_all add: dict_get_def confidence_map_def)
  have m: "''Moderate'' = overall_run_prevention_confidence 60 60 (1 / 2)"
    by (simp add: overall_run_prevention_confidence_def)
  note inst = nrfi_yrfi_confidence_cascade [OF refl refl refl refl refl refl]
  note c1 = inst [THEN conjunct1]
  note c2 = inst [THEN conjunct2, THEN conjunct1]
  note c3 = inst [THEN conjunct2, THEN conjunct2, THEN conjunct1]
  note c4 = inst [THEN conjunct2, THEN conjunct2, THEN conjunct2, THEN conjunct1]
  note c5 = inst [THEN conjunct2, THEN conjunct2, THEN conjunct2, THEN conjunct2, THEN conjunct1]
  note c8 = inst [THEN conjunct2, THEN conjunct2, THEN conjunct2, THEN conjunct2,
      THEN conjunct2, THEN conjunct2, THEN conjunct2]
  have "calculate_overall_nrfi_yrfi_confidence (500 / 6) 80 ''High'' = ''High (NRFI)''"
    by (simp only: c1 c) simp
  moreover have "calculate_overall_nrfi_yrfi_confidence 65 60 ''Low'' = ''Moderate (leaning NRFI)''"
    by (simp only: c2 c) simp
  moreover have "calculate_overall_nrfi_yrfi_confidence 20 30 ''Moderate'' = ''High (YRFI)''"
    by (simp only: c3 c) simp
  moreover have "calculate_overall_nrfi_yrfi_confidence 40 35 ''High'' = ''Moderate (leaning YRFI)''"
    by (simp only: c4 c) simp
  moreover have "calculate_overall_nrfi_yrfi_confidence 75 45 ''High'' = ''Low''"
    by (simp only: c5 c) simp
  moreover have "calculate_overall_nrfi_yrfi_confidence 90 90 ''Neutral'' = ''Low''"
    by (simp only: c5 c) simp
  moreover have "dict_get confidence_map ''Moderate'' 0 \<ge> 1"
    using c8 [of "''Moderate''"] m by blast
  ultimately show ?thesis
    using m by (intro conjI)
qed

lemma confidence_rank_values:
  "confidence_rank ''High'' = 3" "confidence_rank ''Moderate'' = 2" "confidence_rank ''Low'' = 1"
  by (simp_all add: confidence_rank_def dict_get_def confidence_map_def)

lemma greater_rule:
  "calculate_confidence_level x ths ''greater'' =
     (if x \<ge> high ths then ''High'' else if x \<ge> moderate ths then ''Moderate'' else ''Low'')"
  by (simp add: calculate_confidence_level_def)

lemma less_rule:
  "calculate_confidence_level x ths ''less'' =
     (if x \<le> high ths then ''High'' else if x \<le> moderate ths then ''Moderate'' else ''Low'')"
  by (simp add: calculate_confidence_level_def)

lemma rank_cascade:
  "confidence_rank (if A then ''High'' else if B then ''Moderate'' else ''Low'') =
     (if A then 3 else if B then 2 else 1)"
  by (simp add: confidence_rank_values)

lemma greater_monotonic:
  fixes x y h m :: real
  assumes "x \<le> y"
  shows "confidence_rank (if x \<ge> h then ''High'' else if x \<ge> m then ''Moderate'' else ''Low'')
           \<le> confidence_rank (if y \<ge> h then ''High'' else if y \<ge> m then ''Moderate'' else ''Low'')"
  unfolding rank_cascade using assms by simp

lemma above_monotonic:
  fixes x y h m :: real
  assumes "x \<le> y"
  shows "confidence_rank (if x > h then ''High'' else if x > m then ''Moderate'' else ''Low'')
           \<le> confidence_rank (if y > h then ''High'' else if y > m then ''Moderate'' else ''Low'')"
  unfolding rank_cascade using assms by simp

lemma less_monotonic:
  fixes x y h m :: real
  assumes "x \<le> y"
  shows "confidence_rank (if y \<le> h then ''High'' else if y \<le> m then ''Moderate'' else ''Low'')
           \<le> confidence_rank (if x \<le> h then ''High'' else if x \<le> m then ''Moderate'' else ''Low'')"
  unfolding rank_cascade using assms by simp

lemma k_rules:
  "pitch_k_conf x = (if x \<ge> 25 then ''High'' else if x \<ge> 15 then ''Moderate'' else ''Low'')"
  "opp_k_conf x = (if x \<ge> 25 then ''High'' else if x > 15 then ''Moderate'' else ''Low'')"
  by (simp_all add: pitch_k_conf_def opp_k_conf_def)

lemma opp_k_conf_monotonic:
  assumes "x \<le> y"
  shows "confidence_rank (opp_k_conf x) \<le> confidence_rank (opp_k_conf y)"
  unfolding k_rules rank_cascade using assms by simp

lemma inline_rules:
  "pitch_runs_allowed_conf x =
     (if x \<le> 25 then ''High'' else if x \<le> 50 then ''Moderate'' else ''Low'')"
  "pitch_hits_allowed_conf x =
     (if x \<le> 1 / 2 then ''High'' else if x \<le> 1 then ''Moderate'' else ''Low'')"
  "opp_hits_batting_conf x =
     (if x > 1 then ''High'' else if x > 1 / 2 then ''Moderate'' else ''Low'')"
  by (simp_all add: pitch_runs_allowed_conf_def pitch_hits_allowed_conf_def
      opp_hits_batting_conf_def)

lemma less_site_rules:
  "pitch_walks_allowed_conf x =
     (if x \<le> 8 then ''High'' else if x \<le> 12 then ''Moderate'' else ''Low'')"
  "pitch_singles_allowed_conf x =
     (if x \<le> 3 / 10 then ''High'' else if x \<le> 6 / 10 then ''Moderate'' else ''Low'')"
  "pitch_doubles_allowed_conf x =
     (if x \<le> 5 / 100 then ''High'' else if x \<le> 15 / 100 then ''Moderate'' else ''Low'')"
  "pitch_triples_allowed_conf x =
     (if x \<le> 1 / 100 then ''High'' else if x \<le> 3 / 100 then ''Moderate'' else ''Low'')"
  "pitch_homers_allowed_conf x =
     (if x \<le> 5 / 100 then ''High'' else if x \<le> 15 / 100 then ''Moderate'' else ''Low'')"
  "pitch_total_bases_allowed_conf x =
     (if x \<le> 1 then ''High'' else if x \<le> 2 then ''Moderate'' else ''Low'')"
  unfolding pitch_walks_allowed_conf_def pitch_singles_allowed_conf_def
    pitch_doubles_allowed_conf_def pitch_triples_allowed_conf_def pitch_homers_allowed_conf_def
    pitch_total_bases_allowed_conf_def less_rule
  by simp_all

lemma greater_site_rules:
  "opp_walks_batting_conf x =
     (if x \<ge> 5 / 10 then ''High'' else if x \<ge> 3 / 10 then ''Moderate'' else ''Low'')"
  "opp_singles_batting_conf x =
     (if x \<ge> 6 / 10 then ''High'' else if x \<ge> 3 / 10 then ''Moderate'' else ''Low'')"
  "opp_doubles_batting_conf x =
     (if x \<ge> 15 / 100 then ''High'' else if x \<ge> 5 / 100 then ''Moderate'' else ''Low'')"
  "opp_triples_batting_conf x =
     (if x \<ge> 3 / 100 then ''High'' else if x \<ge> 1 / 100 then ''Moderate'' else ''Low'')"
  "opp_homers_batting_conf x =
     (if x \<ge> 15 / 100 then ''High'' else if x \<ge> 5 / 100 then ''Moderate'' else ''Low'')"
  "opp_total_bases_batting_conf x =
     (if x \<ge> 2 then ''High'' else if x \<ge> 1 then ''Moderate'' else ''Low'')"
  unfolding opp_walks_batting_conf_def opp_singles_batting_conf_def
    opp_doubles_batting_conf_def opp_triples_batting_conf_def opp_homers_batting_conf_def
    opp_total_bases_batting_conf_def greater_rule
  by simp_all

lemma percentage_rules:
  assumes "x \<le> 74 \<or> 75 \<le> x"
  shows "pitch_nrfi_conf x =
           (if x \<ge> 75 then ''High'' else if x \<ge> 50 then ''Moderate'' else ''Low'')"
    and "pitch_nrhi_conf x =
           (if x \<ge> 75 then ''High'' else if x \<ge> 50 then ''Moderate'' else ''Low'')"
    and "pitcher_venue_nrhi_conf x =
           (if x \<ge> 75 then ''High'' else if x \<ge> 50 then ''Moderate'' else ''Low'')"
    and "bat_nrhi_conf x =
           (if x \<ge> 75 then ''High'' else if x \<ge> 50 then ''Moderate'' else ''Low'')"
    and "batter_venue_nrhi_conf x =
           (if x \<ge> 75 then ''High'' else if x \<ge> 50 then ''Moderate'' else ''Low'')"
  using assms
  by (auto simp: pitch_nrfi_conf_def pitch_nrhi_conf_def pitcher_venue_nrhi_conf_def
      bat_nrhi_conf_def batter_venue_nrhi_conf_def)

lemma opp_r_g_rule:
  assumes "x \<le> 35 / 100 \<or> 36 / 100 \<le> x"
  shows "opp_r_g_conf x =
           (if x > 65 / 100 then ''High'' else if x > 35 / 100 then ''Moderate'' else ''Low'')"
  using assms by (auto simp: opp_r_g_conf_def)

lemma k_examples:
  "pitch_k_conf 30 = ''High''" "pitch_k_conf 18 = ''Moderate''" "pitch_k_conf 5 = ''Low''"
  "opp_k_conf 30 = ''High''" "opp_k_conf 18 = ''Moderate''" "opp_k_conf 5 = ''Low''"
  "pitch_k_conf 15 = ''Moderate''" "opp_k_conf 15 = ''Low''"
  by (simp_all add: pitch_k_conf_def opp_k_conf_def)

lemma greater_family_monotonic:
  assumes "x \<le> y"
  shows "\<forall>f \<in> {pitch_k_conf, opp_k_conf, opp_hits_batting_conf, opp_walks_batting_conf,
                opp_singles_batting_conf, opp_doubles_batting_conf, opp_triples_batting_conf,
                opp_homers_batting_conf, opp_total_bases_batting_conf}.
           confidence_rank (f x) \<le> confidence_rank (f y)"
proof -
  note g = greater_monotonic [OF assms]
  have "confidence_rank (pitch_k_conf x) \<le> confidence_rank (pitch_k_conf y)"
    unfolding k_rules by (rule g)
  moreover have "confidence_rank (opp_hits_batting_conf x) \<le> confidence_rank (opp_hits_batting_conf y)"
    unfolding inline_rules by (rule above_monotonic [OF assms])
  moreover have "confidence_rank (opp_walks_batting_conf x) \<le> confidence_rank (opp_walks_batting_conf y)"
    unfolding greater_site_rules by (rule g)
  moreover have "confidence_rank (opp_singles_batting_conf x) \<le> confidence_rank (opp_singles_batting_conf y)"
    unfolding greater_site_rules by (rule g)
  moreover have "confidence_rank (opp_doubles_batting_conf x) \<le> confidence_rank (opp_doubles_batting_conf y)"
    unfolding greater_site_rules by (rule g)
  moreover have "confidence_rank (opp_triples_batting_conf x) \<le> confidence_rank (opp_triples_batting_conf y)"
    unfolding greater_site_rules by (rule g)
  moreover have "confidence_rank (opp_homers_batting_conf x) \<le> confidence_rank (opp_homers_batting_conf y)"
    unfolding greater_site_rules by (rule g)
  moreover have "confidence_rank (opp_total_bases_batting_conf x)
      \<le> confidence_rank (opp_total_bases_batting_conf y)"
    unfolding greater_site_rules by (rule g)
  ultimately show ?thesis
    using opp_k_conf_monotonic [OF assms] by simp
qed

lemma less_family_monotonic:
  assumes "x \<le> y"
  shows "\<forall>f \<in> {pitch_runs_allowed_conf, pitch_hits_allowed_conf, pitch_walks_allowed_conf,
                pitch_singles_allowed_conf, pitch_doubles_allowed_conf,
                pitch_triples_allowed_conf, pitch_homers_allowed_conf,
                pitch_total_bases_allowed_conf}.
           confidence_rank (f y) \<le> confidence_rank (f x)"
proof -
  note l = less_monotonic [OF assms]
  have "confidence_rank (pitch_runs_allowed_conf y) \<le> confidence_rank (pitch_runs_allowed_conf x)"
    unfolding inline_rules by (rule l)
  moreover have "confidence_rank (pitch_hits_allowed_conf y) \<le> confidence_rank (pitch_hits_allowed_conf x)"
    unfolding inline_rules by (rule l)
  moreover have "confidence_rank (pitch_walks_allowed_conf y) \<le> confidence_rank (pitch_walks_allowed_conf x)"
    unfolding less_site_rules by (rule l)
  moreover have "confidence_rank (pitch_singles_allowed_conf y)
      \<le> confidence_rank (pitch_singles_allowed_conf x)"
    unfolding less_site_rules by (rule l)
  moreover have "confidence_rank (pitch_doubles_allowed_conf y)
      \<le> confidence_rank (pitch_doubles_allowed_conf x)"
    unfolding less_site_rules by (rule l)
  moreover have "confidence_rank (pitch_triples_allowed_conf y)
      \<le> confidence_rank (pitch_triples_allowed_conf x)"
    unfolding less_site_rules by (rule l)
  moreover have "confidence_rank (pitch_homers_allowed_conf y)
      \<le> confidence_rank (pitch_homers_allowed_conf x)"
    unfolding less_site_rules by (rule l)
  moreover have "confidence_rank (pitch_total_bases_allowed_conf y)
      \<le> confidence_rank (pitch_total_bases_allowed_conf x)"
    unfolding less_site_rules by (rule l)
  ultimately show ?thesis
    by simp
qed

lemma percentage_family_monotonic:
  assumes "x \<le> y" and "x \<le> 74 \<or> 75 \<le> x" and "y \<le> 74 \<or> 75 \<le> y"
  shows "\<forall>f \<in> {pitch_nrfi_conf, pitch_nrhi_conf, pitcher_venue_nrhi_conf, bat_nrhi_conf,
                batter_venue_nrhi_conf}.
           confidence_rank (f x) \<le> confidence_rank (f y)"
  using greater_monotonic [OF assms(1), of 75 50]
  by (simp add: percentage_rules [OF assms(2)] percentage_rules [OF assms(3)])

lemma opp_r_g_monotonic:
  assumes "x \<le> y" and "x \<le> 35 / 100 \<or> 36 / 100 \<le> x" and "y \<le> 35 / 100 \<or> 36 / 100 \<le> y"
  shows "confidence_rank (opp_r_g_conf x) \<le> confidence_rank (opp_r_g_conf y)"
  unfolding opp_r_g_rule [OF assms(2)] opp_r_g_rule [OF assms(3)]
  by (rule above_monotonic [OF assms(1)])

text \<open>
  C5, as stated, fails. \<^verbatim>\<open>OPP K CONF\<close>, a classifier with the thresholds 25 and 15 where a
  greater value is better, gives Low at 15, where the rule of the claim gives Moderate. The
  classification is not monotonic for \<^verbatim>\<open>PITCH NRFI CONF\<close>: a pitcher with 14 scoreless
  innings in 27 games is Moderate, one with 20 in 27 (74.07 percent, between the bounds 74
  and 75 of the lambda) is Low. Nor for \<^verbatim>\<open>OPP R/G CONF\<close>: 5 runs in 14 games (0.357, between
  0.35 and 0.36) is High, 6 in 14 is Moderate.
\<close>

theorem confidence_per_metric_counterexample:
  "opp_k_conf 15 = ''Low'' \<and>
   calculate_confidence_level 15 \<lparr>high = 25, moderate = 15\<rparr> ''greater'' = ''Moderate'' \<and>
   (14 / 27 * 100 :: real) \<le> 20 / 27 * 100 \<and>
   pitch_nrfi_conf (14 / 27 * 100) = ''Moderate'' \<and>
   pitch_nrfi_conf (20 / 27 * 100) = ''Low'' \<and>
   \<not> confidence_rank (pitch_nrfi_conf (14 / 27 * 100))
       \<le> confidence_rank (pitch_nrfi_conf (20 / 27 * 100)) \<and>
   (5 / 14 :: real) \<le> 6 / 14 \<and>
   opp_r_g_conf (5 / 14) = ''High'' \<and>
   opp_r_g_conf (6 / 14) = ''Moderate'' \<and>
   \<not> confidence_rank (opp_r_g_conf (5 / 14)) \<le> confidence_rank (opp_r_g_conf (6 / 14))"
  by (simp add: opp_k_conf_def calculate_confidence_level_def pitch_nrfi_conf_def
      opp_r_g_conf_def confidence_rank_values)

text \<open>
  C5, amended. Every single-value classifier follows the thresholds and the direction written
  at its own line. \<^verbatim>\<open>calculate_confidence_level\<close> gives, for greater, High from \<open>high\<close> up,
  else Moderate from \<open>moderate\<close> up, else Low, and for less, High up to \<open>high\<close>, else
  Moderate up to \<open>moderate\<close>, else Low; the twelve classifiers of walks, singles, doubles,
  triples, homers and total bases are that rule at their thresholds. \<^verbatim>\<open>PITCH K CONF\<close> is
  the greater rule at 25 and 15, and \<^verbatim>\<open>OPP K CONF\<close> is High from 25 up, Moderate strictly
  above 15, else Low: both give High at 30, Moderate at 18 and Low at 5, and they differ at
  15. \<^verbatim>\<open>PITCH RUNS ALLOWED CONF\<close> and \<^verbatim>\<open>PITCH HITS ALLOWED CONF\<close> are the less rule at 25 and 50
  and at 0.5 and 1; \<^verbatim>\<open>OPP HITS BATTING CONF\<close> is High strictly above 1, Moderate strictly
  above 0.5, else Low. For a value that is not strictly between 74 and 75, the five
  percentage classifiers are the greater rule at 75 and 50; for a value that is not strictly
  between 0.35 and 0.36, \<^verbatim>\<open>OPP R/G CONF\<close> is High strictly above 0.65, Moderate strictly above
  0.35, else Low. The ordinal of the label (Low 1, Moderate 2, High 3) never decreases when
  the value grows for the classifiers where greater is better, and never increases for those
  where less is better; for the percentage classifiers and \<^verbatim>\<open>OPP R/G CONF\<close> this is stated
  for values outside the two intervals.
\<close>

theorem confidence_per_metric:
  fixes x y :: real
  shows
  "calculate_confidence_level x ths ''greater'' =
     (if x \<ge> high ths then ''High'' else if x \<ge> moderate ths then ''Moderate'' else ''Low'') \<and>
   calculate_confidence_level x ths ''less'' =
     (if x \<le> high ths then ''High'' else if x \<le> moderate ths then ''Moderate'' else ''Low'') \<and>
   pitch_walks_allowed_conf x =
     (if x \<le> 8 then ''High'' else if x \<le> 12 then ''Moderate'' else ''Low'') \<and>
   opp_walks_batting_conf x =
     (if x \<ge> 5 / 10 then ''High'' else if x \<ge> 3 / 10 then ''Moderate'' else ''Low'') \<and>
   pitch_singles_allowed_conf x =
     (if x \<le> 3 / 10 then ''High'' else if x \<le> 6 / 10 then ''Moderate'' else ''Low'') \<and>
   opp_singles_batting_conf x =
     (if x \<ge> 6 / 10 then ''High'' else if x \<ge> 3 / 10 then ''Moderate'' else ''Low'') \<and>
   pitch_doubles_allowed_conf x =
     (if x \<le> 5 / 100 then ''High'' else if x \<le> 15 / 100 then ''Moderate'' else ''Low'') \<and>
   opp_doubles_batting_conf x =
     (if x \<ge> 15 / 100 then ''High'' else if x \<ge> 5 / 100 then ''Moderate'' else ''Low'') \<and>
   pitch_triples_allowed_conf x =
     (if x \<le> 1 / 100 then ''High'' else if x \<le> 3 / 100 then ''Moderate'' else ''Low'') \<and>
   opp_triples_batting_conf x =
     (if x \<ge> 3 / 100 then ''High'' else if x \<ge> 1 / 100 then ''Moderate'' else ''Low'') \<and>
   pitch_homers_allowed_conf x =
     (if x \<le> 5 / 100 then ''High'' else if x \<le> 15 / 100 then ''Moderate'' else ''Low'') \<and>
   opp_homers_batting_conf x =
     (if x \<ge> 15 / 100 then ''High'' else if x \<ge> 5 / 100 then ''Moderate'' else ''Low'') \<and>
   pitch_total_bases_allowed_conf x =
     (if x \<le> 1 then ''High'' else if x \<le> 2 then ''Moderate'' else ''Low'') \<and>
   opp_total_bases_batting_conf x =
     (if x \<ge> 2 then ''High'' else if x \<ge> 1 then ''Moderate'' else ''Low'') \<and>
   pitch_k_conf x =
     (if x \<ge> 25 then ''High'' else if x \<ge> 15 then ''Moderate'' else ''Low'') \<and>
   opp_k_conf x =
     (if x \<ge> 25 then ''High'' else if x > 15 then ''Moderate'' else ''Low'') \<and>
   pitch_k_conf 30 = ''High'' \<and> pitch_k_conf 18 = ''Moderate'' \<and> pitch_k_conf 5 = ''Low'' \<and>
   opp_k_conf 30 = ''High'' \<and> opp_k_conf 18 = ''Moderate'' \<and> opp_k_conf 5 = ''Low'' \<and>
   pitch_k_conf 15 = ''Moderate'' \<and> opp_k_conf 15 = ''Low'' \<and>
   pitch_runs_allowed_conf x =
     (if x \<le> 25 then ''High'' else if x \<le> 50 then ''Moderate'' else ''Low'') \<and>
   pitch_hits_allowed_conf x =
     (if x \<le> 1 / 2 then ''High'' else if x \<le> 1 then ''Moderate'' else ''Low'') \<and>
   opp_hits_batting_conf x =
     (if x > 1 then ''High'' else if x > 1 / 2 then ''Moderate'' else ''Low'') \<and>
   (x \<le> 74 \<or> 75 \<le> x \<longrightarrow>
      (\<forall>f \<in> {pitch_nrfi_conf, pitch_nrhi_conf, pitcher_venue_nrhi_conf, bat_nrhi_conf,
               batter_venue_nrhi_conf}.
         f x = (if x \<ge> 75 then ''High'' else if x \<ge> 50 then ''Moderate'' else ''Low''))) \<and>
   (x \<le> 35 / 100 \<or> 36 / 100 \<le> x \<longrightarrow>
      opp_r_g_conf x =
        (if x > 65 / 100 then ''High'' else if x > 35 / 100 then ''Moderate'' else ''Low'')) \<and>
   (x \<le> y \<longrightarrow>
      confidence_rank (calculate_confidence_level x ths ''greater'')
        \<le> confidence_rank (calculate_confidence_level y ths ''greater'') \<and>
      confidence_rank (calculate_confidence_level y ths ''less'')
        \<le> confidence_rank (calculate_confidence_level x ths ''less'') \<and>
      (\<forall>f \<in> {pitch_k_conf, opp_k_conf, opp_hits_batting_conf, opp_walks_batting_conf,
               opp_singles_batting_conf, opp_doubles_batting_conf, opp_triples_batting_conf,
               opp_homers_batting_conf, opp_total_bases_batting_conf}.
         confidence_rank (f x) \<le> confidence_rank (f y)) \<and>
      (\<forall>f \<in> {pitch_runs_allowed_conf, pitch_hits_allowed_conf, pitch_walks_allowed_conf,
               pitch_singles_allowed_conf, pitch_doubles_allowed_conf,
               pitch_triples_allowed_conf, pitch_homers_allowed_conf,
               pitch_total_bases_allowed_conf}.
         confidence_rank (f y) \<le> confidence_rank (f x))) \<and>
   (x \<le> y \<and> (x \<le> 74 \<or> 75 \<le> x) \<and> (y \<le> 74 \<or> 75 \<le> y) \<longrightarrow>
      (\<forall>f \<in> {pitch_nrfi_conf, pitch_nrhi_conf, pitcher_venue_nrhi_conf, bat_nrhi_conf,
               batter_venue_nrhi_conf}.
         confidence_rank (f x) \<le> confidence_rank (f y))) \<and>
   (x \<le> y \<and> (x \<le> 35 / 100 \<or> 36 / 100 \<le> x) \<and> (y \<le> 35 / 100 \<or> 36 / 100 \<le> y) \<longrightarrow>
      confidence_rank (opp_r_g_conf x) \<le> confidence_rank (opp_r_g_conf y))"
proof -
  have helper: "x \<le> y \<longrightarrow>
      confidence_rank (calculate_confidence_level x ths ''greater'')
        \<le> confidence_rank (calculate_confidence_level y ths ''greater'') \<and>
      confidence_rank (calculate_confidence_level y ths ''less'')
        \<le> confidence_rank (calculate_confidence_level x ths ''less'')"
    unfolding greater_rule less_rule
    using greater_monotonic less_monotonic by blast
  have pct: "x \<le> 74 \<or> 75 \<le> x \<longrightarrow>
      (\<forall>f \<in> {pitch_nrfi_conf, pitch_nrhi_conf, pitcher_venue_nrhi_conf, bat_nrhi_conf,
               batter_venue_nrhi_conf}.
         f x = (if x \<ge> 75 then ''High'' else if x \<ge> 50 then ''Moderate'' else ''Low''))"
    using percentage_rules [of x] by simp
  have mono: "x \<le> y \<longrightarrow>
      confidence_rank (calculate_confidence_level x ths ''greater'')
        \<le> confidence_rank (calculate_confidence_level y ths ''greater'') \<and>
      confidence_rank (calculate_confidence_level y ths ''less'')
        \<le> confidence_rank (calculate_confidence_level x ths ''less'') \<and>
      (\<forall>f \<in> {pitch_k_conf, opp_k_conf, opp_hits_batting_conf, opp_walks_batting_conf,
               opp_singles_batting_conf, opp_doubles_batting_conf, opp_triples_batting_conf,
               opp_homers_batting_conf, opp_total_bases_batting_conf}.
         confidence_rank (f x) \<le> confidence_rank (f y)) \<and>
      (\<forall>f \<in> {pitch_runs_allowed_conf, pitch_hits_allowed_conf, pitch_walks_allowed_conf,
               pitch_singles_allowed_conf, pitch_doubles_allowed_conf,
               pitch_triples_allowed_conf, pitch_homers_allowed_conf,
               pitch_total_bases_allowed_conf}.
         confidence_rank (f y) \<le> confidence_rank (f x))"
    using helper greater_family_monotonic [of x y] less_family_monotonic [of x y] by blast
  have pct_mono: "x \<le> y \<and> (x \<le> 74 \<or> 75 \<le> x) \<and> (y \<le> 74 \<or> 75 \<le> y) \<longrightarrow>
      (\<forall>f \<in> {pitch_nrfi_conf, pitch_nrhi_conf, pitcher_venue_nrhi_conf, bat_nrhi_conf,
               batter_venue_nrhi_conf}.
         confidence_rank (f x) \<le> confidence_rank (f y))"
    using percentage_family_monotonic [of x y] by blast
  have rg: "x \<le> 35 / 100 \<or> 36 / 100 \<le> x \<longrightarrow>
      opp_r_g_conf x =
        (if x > 65 / 100 then ''High'' else if x > 35 / 100 then ''Moderate'' else ''Low'')"
    using opp_r_g_rule [of x] by blast
  have rg_mono:
    "x \<le> y \<and> (x \<le> 35 / 100 \<or> 36 / 100 \<le> x) \<and> (y \<le> 35 / 100 \<or> 36 / 100 \<le> y) \<longrightarrow>
       confidence_rank (opp_r_g_conf x) \<le> confidence_rank (opp_r_g_conf y)"
    using opp_r_g_monotonic [of x y] by blast
  show ?thesis
    apply (intro conjI)
    apply (rule greater_rule less_rule less_site_rules greater_site_rules k_rules k_examples
        inline_rules pct rg mono pct_mono rg_mono)+
    done
qed

theorem confidence_per_metric_witness:
  "(18::real) \<le> 30 \<and>
   confidence_rank (pitch_k_conf 18) \<le> confidence_rank (pitch_k_conf 30) \<and>
   confidence_rank (opp_walks_batting_conf 18) \<le> confidence_rank (opp_walks_batting_conf 30) \<and>
   confidence_rank (pitch_walks_allowed_conf 30) \<le> confidence_rank (pitch_walks_allowed_conf 18) \<and>
   confidence_rank (calculate_confidence_level 18 \<lparr>high = 25, moderate = 15\<rparr> ''greater'')
     \<le> confidence_rank (calculate_confidence_level 30 \<lparr>high = 25, moderate = 15\<rparr> ''greater'') \<and>
   pitch_walks_allowed_conf 10 = ''Moderate'' \<and>
   opp_walks_batting_conf (4 / 10) = ''Moderate'' \<and>
   (60::real) \<le> 74 \<and> (60::real) \<le> 80 \<and> (75::real) \<le> 80 \<and>
   pitch_nrfi_conf 60 = ''Moderate'' \<and> pitch_nrfi_conf 80 = ''High'' \<and>
   confidence_rank (pitch_nrfi_conf 60) \<le> confidence_rank (pitch_nrfi_conf 80) \<and>
   (2 / 10 :: real) \<le> 35 / 100 \<and> (2 / 10 :: real) \<le> 5 / 10 \<and> (36 / 100 :: real) \<le> 5 / 10 \<and>
   opp_r_g_conf (2 / 10) = ''Low'' \<and> opp_r_g_conf (5 / 10) = ''Moderate'' \<and>
   confidence_rank (opp_r_g_conf (2 / 10)) \<le> confidence_rank (opp_r_g_conf (5 / 10))"
proof -
  note k = confidence_per_metric [of 18 "\<lparr>high = 25, moderate = 15\<rparr>" 30]
  note w = confidence_per_metric [of 10 "\<lparr>high = 8, moderate = 12\<rparr>" 10]
  note b = confidence_per_metric [of "4 / 10" "\<lparr>high = 5 / 10, moderate = 3 / 10\<rparr>" 1]
  note p = confidence_per_metric [of 60 "\<lparr>high = 75, moderate = 50\<rparr>" 80]
  note p' = confidence_per_metric [of 80 "\<lparr>high = 75, moderate = 50\<rparr>" 80]
  note r = confidence_per_metric [of "2 / 10" "\<lparr>high = 75, moderate = 50\<rparr>" "5 / 10"]
  note r' = confidence_per_metric [of "5 / 10" "\<lparr>high = 75, moderate = 50\<rparr>" "5 / 10"]
  have le: "(18::real) \<le> 30" "(60::real) \<le> 74" "(60::real) \<le> 80" "(75::real) \<le> 80"
    "(2 / 10 :: real) \<le> 35 / 100" "(2 / 10 :: real) \<le> 5 / 10" "(36 / 100 :: real) \<le> 5 / 10"
    by simp_all
  have "confidence_rank (pitch_k_conf 18) \<le> confidence_rank (pitch_k_conf 30)"
    "confidence_rank (opp_walks_batting_conf 18) \<le> confidence_rank (opp_walks_batting_conf 30)"
    "confidence_rank (pitch_walks_allowed_conf 30) \<le> confidence_rank (pitch_walks_allowed_conf 18)"
    "confidence_rank (calculate_confidence_level 18 \<lparr>high = 25, moderate = 15\<rparr> ''greater'')
       \<le> confidence_rank (calculate_confidence_level 30 \<lparr>high = 25, moderate = 15\<rparr> ''greater'')"
    using k le(1) by blast+
  moreover have "pitch_walks_allowed_conf 10 = ''Moderate''"
    using w by simp
  moreover have "opp_walks_batting_conf (4 / 10) = ''Moderate''"
    using b by simp
  moreover have "pitch_nrfi_conf 60 = ''Moderate''"
    using p le(2) by simp
  moreover have "pitch_nrfi_conf 80 = ''High''"
    using p' le(4) by simp
  moreover have "confidence_rank (pitch_nrfi_conf 60) \<le> confidence_rank (pitch_nrfi_conf 80)"
    using p le(2,3,4) by blast
  moreover have "opp_r_g_conf (2 / 10) = ''Low''"
    using r le(5) by simp
  moreover have "opp_r_g_conf (5 / 10) = ''Moderate''"
    using r' le(7) by simp
  moreover have "confidence_rank (opp_r_g_conf (2 / 10)) \<le> confidence_rank (opp_r_g_conf (5 / 10))"
    using r le(5,6,7) by blast
  ultimately show ?thesis
    using le by (intro conjI)
qed

text \<open>
  C3, as stated, fails: on the composite High (Under) the opponent column of Hits is
  Under Hits Bet, the same as the pitcher column, not Over Hits Bet.
\<close>

theorem bets_mirror_counterexample:
  "\<not> (pitcher_bet ''Hits'' ''High (Under)'' = ''Under Hits Bet'' \<and>
      opponent_bet ''Hits'' ''High (Under)'' = ''Over Hits Bet'')"
  by (simp add: pitcher_bet_def opponent_bet_def)

text \<open>
  C3, amended. For every Over/Under metric the two bet columns are equal on every composite
  label: Under X Bet on High (Under), Over X Bet on High (Over), Neutral on any other label.
\<close>

theorem bets_same_on_both_sides:
  "opponent_bet metric_name x = pitcher_bet metric_name x \<and>
   pitcher_bet metric_name ''High (Under)'' = ''Under '' @ metric_name @ '' Bet'' \<and>
   opponent_bet metric_name ''High (Under)'' = ''Under '' @ metric_name @ '' Bet'' \<and>
   pitcher_bet metric_name ''High (Over)'' = ''Over '' @ metric_name @ '' Bet'' \<and>
   opponent_bet metric_name ''High (Over)'' = ''Over '' @ metric_name @ '' Bet'' \<and>
   (x \<noteq> ''High (Under)'' \<and> x \<noteq> ''High (Over)'' \<longrightarrow>
      pitcher_bet metric_name x = ''Neutral'' \<and> opponent_bet metric_name x = ''Neutral'')"
  by (simp add: pitcher_bet_def opponent_bet_def)

theorem bets_same_on_both_sides_witness:
  "''Total Bases'' \<in> set over_under_metric_names \<and>
   opponent_bet ''Total Bases'' ''High (Over)'' = ''Over Total Bases Bet'' \<and>
   pitcher_bet ''Total Bases'' ''High (Over)'' = ''Over Total Bases Bet'' \<and>
   ''Moderate (leaning Under)'' \<noteq> ''High (Under)'' \<and>
   ''Moderate (leaning Under)'' \<noteq> ''High (Over)'' \<and>
   pitcher_bet ''Total Bases'' ''Moderate (leaning Under)'' = ''Neutral'' \<and>
   opponent_bet ''Total Bases'' ''Moderate (leaning Under)'' = ''Neutral''"
  using bets_same_on_both_sides [of "''Total Bases''" "''Moderate (leaning Under)''"]
  by (simp add: over_under_metric_names_def)

section \<open>Properties of the historical aggregator\<close>

subsection \<open>Assignments to the report row\<close>

lemma apply_updates_append:
  "apply_updates (xs @ ys) e = apply_updates ys (apply_updates xs e)"
  by (simp add: apply_updates_def)

lemma apply_updates_notin: "k \<notin> fst ` set ups \<Longrightarrow> apply_updates ups e k = e k"
  unfolding apply_updates_def by (induction ups arbitrary: e) auto

lemma apply_updates_snoc:
  "apply_updates (ups @ [a]) e = (apply_updates ups e)(fst a \<mapsto> snd a)"
  by (simp add: apply_updates_def)

lemma apply_updates_unique:
  assumes "(k, v) \<in> set ups" and "\<forall>v'. (k, v') \<in> set ups \<longrightarrow> v' = v"
  shows "apply_updates ups e k = Some v"
  using assms
proof (induction ups rule: rev_induct)
  case Nil
  then show ?case by simp
next
  case (snoc a ups)
  show ?case
  proof (cases "fst a = k")
    case True
    then have "(k, snd a) \<in> set (ups @ [a])"
      by (cases a) simp
    with snoc.prems(2) have "snd a = v"
      by blast
    with True show ?thesis
      by (simp only: apply_updates_snoc fun_upd_same)
  next
    case False
    with snoc.prems(1) have mem: "(k, v) \<in> set ups"
      by (cases a) auto
    from snoc.prems(2) have "\<forall>v'. (k, v') \<in> set ups \<longrightarrow> v' = v"
      by simp
    with mem have "apply_updates ups e k = Some v"
      by (rule snoc.IH)
    with False show ?thesis
      by (simp add: apply_updates_snoc)
  qed
qed

lemma apply_updates_owned:
  assumes "ups = before @ step @ after"
    and "k \<notin> fst ` set after"
    and "(k, v) \<in> set step"
    and "distinct (map fst step)"
  shows "apply_updates ups e k = Some v"
proof -
  have "\<forall>v'. (k, v') \<in> set step \<longrightarrow> v' = v"
    using assms(3,4) by (meson eq_key_imp_eq_value)
  with assms(3) have "apply_updates step (apply_updates before e) k = Some v"
    by (rule apply_updates_unique)
  with assms(1,2) show ?thesis
    by (simp add: apply_updates_append apply_updates_notin)
qed

subsection \<open>Keys and values written by one step\<close>

lemma set_write_slot: "set (write_slot slot v) = (case slot of None \<Rightarrow> {} | Some k \<Rightarrow> {(k, v)})"
  by (simp add: write_slot_def split: option.splits)

lemma rate_update_keys:
  "fst ` set (rate_update cols h m) = (case report_key_rate m of None \<Rightarrow> {} | Some k \<Rightarrow> {k})"
  by (simp add: rate_update_def split: option.splits)

lemma rate_update_mem:
  "(k, v) \<in> set (rate_update cols h m) \<Longrightarrow> report_key_rate m = Some k"
  by (auto simp: rate_update_def split: option.splits if_splits)

lemma rate_update_empty: "(k, v) \<in> set (rate_update cols [] m) \<Longrightarrow> v = Num 0"
  by (auto simp: rate_update_def rate_pct_def col_sum_def split: option.splits if_splits)

lemma nunique_games_Nil: "nunique_games [] = 0"
  by (simp add: nunique_games_def)

lemma zero_games_pct_Nil: "zero_games_pct c [] = 0"
  by (simp add: zero_games_pct_def pct_of_games_def nunique_games_def)

lemma k_games_pct_Nil: "k_games_pct c [] = 0"
  by (simp add: k_games_pct_def pct_of_games_def nunique_games_def)

lemma avg_per_game_zero: "avg_per_game total_sum 0 = 0"
  by (simp add: avg_per_game_def)

lemma avg_per_game_Nil: "avg_per_game (col_sum c []) (nunique_games []) = 0"
  by (simp add: avg_per_game_def nunique_games_def)

lemma value_keys_set:
  "set (value_keys m) =
     (case report_key_avg m of None \<Rightarrow> {} | Some k \<Rightarrow> {k}) \<union>
     (case report_key_rate m of None \<Rightarrow> {} | Some k \<Rightarrow> {k}) \<union>
     (case report_key_per_game_pct m of None \<Rightarrow> {} | Some k \<Rightarrow> {k})"
  by (simp add: value_keys_def split: option.splits)

lemma pitcher_metric_update_keys:
  "fst ` set (pitcher_metric_update n cols h home m) =
     (if report_key_rate m = Some ''PITCH K RATE %'' then {''PITCH K RATE %''}
      else set (value_keys m))"
proof (cases "report_key_rate m = Some ''PITCH K RATE %''")
  case True
  then show ?thesis
    by (simp add: pitcher_metric_update_def Let_def)
next
  case False
  have avg: "fst ` set (case report_key_avg m of None \<Rightarrow> [] | Some key \<Rightarrow> f key) =
      (case report_key_avg m of None \<Rightarrow> {} | Some k \<Rightarrow> {k})"
    if "\<And>key. \<exists>v. f key = [(key, v)]" for f :: "string \<Rightarrow> (string \<times> cell_value) list"
  proof (cases "report_key_avg m")
    case None
    then show ?thesis by simp
  next
    case (Some key)
    from that [of key] obtain v where "f key = [(key, v)]"
      by blast
    with Some show ?thesis by simp
  qed
  show ?thesis
  proof (cases "col_name m \<in> set cols")
    case True
    have "fst ` set (pitcher_metric_update n cols h home m) =
        (case report_key_per_game_pct m of None \<Rightarrow> {} | Some k \<Rightarrow> {k}) \<union>
        (case report_key_avg m of None \<Rightarrow> {} | Some k \<Rightarrow> {k}) \<union>
        (case report_key_rate m of None \<Rightarrow> {} | Some k \<Rightarrow> {k})"
      unfolding pitcher_metric_update_def Let_def
      using False True
      apply (simp only: if_False if_True set_append image_Un rate_update_keys)
      apply (subst avg)
       apply (simp add: Let_def)
      apply (simp add: set_write_slot split: option.splits)
      done
    then show ?thesis
      using False by (auto simp: value_keys_set)
  next
    case nocol: False
    have "fst ` set (pitcher_metric_update n cols h home m) =
        (case report_key_avg m of None \<Rightarrow> {} | Some k \<Rightarrow> {k}) \<union>
        (case report_key_rate m of None \<Rightarrow> {} | Some k \<Rightarrow> {k}) \<union>
        (case report_key_per_game_pct m of None \<Rightarrow> {} | Some k \<Rightarrow> {k})"
      unfolding pitcher_metric_update_def Let_def
      using False nocol
      by (simp add: set_write_slot image_Un split: option.splits)
    then show ?thesis
      using False by (auto simp: value_keys_set)
  qed
qed

lemma pitcher_metric_update_empty:
  "(k, v) \<in> set (pitcher_metric_update n cols [] home m) \<Longrightarrow> v = Num 0"
  by (auto simp: pitcher_metric_update_def Let_def set_write_slot nunique_games_Nil
      zero_games_pct_Nil avg_per_game_zero
      split: option.splits if_splits dest: rate_update_empty)

lemma pitcher_metric_update_venue:
  assumes "(k, v) \<in> set (pitcher_metric_update n cols h home m)"
    and "filter (\<lambda>r. is_home_flag r = home) h = []"
    and "sublist ''VENUE'' k"
    and "report_key_rate m \<noteq> Some k"
    and "report_key_per_game_pct m \<noteq> Some k"
  shows "v = Num 0"
proof -
  from assms(1,3,4,5) have "report_key_avg m = Some k \<and>
      (v = Num (zero_games_pct (inning_col n ''hits_allowed'')
                  (filter (\<lambda>r. is_home_flag r = home) h)) \<or>
       v = Num (avg_per_game (col_sum (col_name m) (filter (\<lambda>r. is_home_flag r = home) h))
                  (nunique_games (filter (\<lambda>r. is_home_flag r = home) h))) \<or>
       v = Num 0)"
    by (auto simp: pitcher_metric_update_def Let_def set_write_slot
        split: option.splits if_splits dest: rate_update_mem)
  with assms(2) show ?thesis
    by (auto simp: zero_games_pct_Nil avg_per_game_Nil)
qed

lemma batting_metric_update_keys:
  "fst ` set (batting_metric_update n cols h home m) =
     (if report_key_rate m = Some ''OPP K RATE %'' then {''OPP K RATE %''}
      else set (value_keys m))"
proof (cases "report_key_rate m = Some ''OPP K RATE %''")
  case True
  then show ?thesis
    by (simp add: batting_metric_update_def Let_def)
next
  case False
  have avg: "fst ` set (case report_key_avg m of None \<Rightarrow> [] | Some key \<Rightarrow> f key) =
      (case report_key_avg m of None \<Rightarrow> {} | Some k \<Rightarrow> {k})"
    if "\<And>key. \<exists>v. f key = [(key, v)]" for f :: "string \<Rightarrow> (string \<times> cell_value) list"
  proof (cases "report_key_avg m")
    case None
    then show ?thesis by simp
  next
    case (Some key)
    from that [of key] obtain v where "f key = [(key, v)]"
      by blast
    with Some show ?thesis by simp
  qed
  show ?thesis
  proof (cases "col_name m \<in> set cols")
    case True
    have "fst ` set (batting_metric_update n cols h home m) =
        (case report_key_per_game_pct m of None \<Rightarrow> {} | Some k \<Rightarrow> {k}) \<union>
        (case report_key_avg m of None \<Rightarrow> {} | Some k \<Rightarrow> {k}) \<union>
        (case report_key_rate m of None \<Rightarrow> {} | Some k \<Rightarrow> {k})"
      unfolding batting_metric_update_def Let_def
      using False True
      apply (simp only: if_False if_True set_append image_Un rate_update_keys)
      apply (subst avg)
       apply (simp add: Let_def)
      apply (simp add: set_write_slot split: option.splits)
      done
    then show ?thesis
      using False by (auto simp: value_keys_set)
  next
    case nocol: False
    have "fst ` set (batting_metric_update n cols h home m) =
        (case report_key_avg m of None \<Rightarrow> {} | Some k \<Rightarrow> {k}) \<union>
        (case report_key_rate m of None \<Rightarrow> {} | Some k \<Rightarrow> {k}) \<union>
        (case report_key_per_game_pct m of None \<Rightarrow> {} | Some k \<Rightarrow> {k})"
      unfolding batting_metric_update_def Let_def
      using False nocol
      by (simp add: set_write_slot image_Un split: option.splits)
    then show ?thesis
      using False by (auto simp: value_keys_set)
  qed
qed

lemma batting_metric_update_empty:
  "(k, v) \<in> set (batting_metric_update n cols [] home m) \<Longrightarrow> v = Num 0"
  by (auto simp: batting_metric_update_def Let_def set_write_slot nunique_games_Nil
      zero_games_pct_Nil avg_per_game_zero
      split: option.splits if_splits dest: rate_update_empty)

lemma batting_metric_update_venue:
  assumes "(k, v) \<in> set (batting_metric_update n cols h home m)"
    and "filter (\<lambda>r. is_home_flag r = home) h = []"
    and "sublist ''VENUE'' k"
    and "report_key_rate m \<noteq> Some k"
    and "report_key_per_game_pct m \<noteq> Some k"
  shows "v = Num 0"
proof -
  from assms(1,3,4,5) have "report_key_avg m = Some k \<and>
      (v = Num (zero_games_pct (inning_col n ''hits_batting'')
                  (filter (\<lambda>r. is_home_flag r = home) h)) \<or>
       v = Num (avg_per_game (col_sum (col_name m) (filter (\<lambda>r. is_home_flag r = home) h))
                  (nunique_games (filter (\<lambda>r. is_home_flag r = home) h))) \<or>
       v = Num 0)"
    by (auto simp: batting_metric_update_def Let_def set_write_slot
        split: option.splits if_splits dest: rate_update_mem)
  with assms(2) show ?thesis
    by (auto simp: zero_games_pct_Nil avg_per_game_Nil)
qed

lemma last_game_update_keys:
  "fst ` set (last_game_update cols latest m) =
     (case last_game_key m of None \<Rightarrow> {} | Some k \<Rightarrow> {k})"
  by (cases "last_game_key m"; cases latest; cases "col_name m \<in> set cols")
    (simp_all add: last_game_update_def)

lemma last_game_update_none:
  "(k, v) \<in> set (last_game_update cols None m) \<Longrightarrow> v = Str ''N/A''"
  by (auto simp: last_game_update_def split: option.splits)

lemma today_update_keys:
  "fst ` set (today_update cols todays m) =
     (case today_report_key m of None \<Rightarrow> {} | Some k \<Rightarrow> {k})"
  by (cases "today_report_key m"; cases "todays \<noteq> [] \<and> col_name m \<in> set cols")
    (simp_all add: today_update_def)

lemma nrfi_update_keys: "fst ` set (nrfi_update key c cols h) = {key}"
  by (simp add: nrfi_update_def)

lemma nrfi_update_empty: "(k, v) \<in> set (nrfi_update key c cols []) \<Longrightarrow> v = Num 0"
  by (auto simp: nrfi_update_def zero_games_pct_Nil split: if_splits)

lemma venue_select_filter:
  "venue_select pct h home = pct (filter (\<lambda>r. is_home_flag r = home) h)"
  by (simp add: venue_select_def Let_def)

subsection \<open>No lookahead\<close>

lemma set_slot:
  "set (case slot of None \<Rightarrow> [] | Some k \<Rightarrow> [k]) = (case slot of None \<Rightarrow> {} | Some k \<Rightarrow> {k})"
  by (cases slot) simp_all

lemma today_updates_keys:
  "fst ` set (today_updates n report_date pdf bdf g p name) = set (today_keys n)"
  by (simp only: today_updates_def today_loop_updates_def today_keys_def set_append set_concat
      set_map image_Un image_UN image_image today_update_keys set_slot Union_Un_distrib)

lemma history_updates_cong:
  assumes "columns pdf' = columns pdf" and "columns bdf' = columns bdf"
    and "past_data report_date pdf' = past_data report_date pdf"
    and "past_data report_date bdf' = past_data report_date bdf"
  shows "history_updates n report_date pdf' bdf' g p name full =
         history_updates n report_date pdf bdf g p name full"
  using assms by (simp add: history_updates_def entity_history_def)

lemma analyze_entry_history:
  "analyze_entry n report_date pdf bdf g p name full = Inr entry \<Longrightarrow> k \<notin> set (today_keys n) \<Longrightarrow>
   entry k = apply_updates (history_updates n report_date pdf bdf g p name full) Map.empty k"
  by (auto simp: analyze_entry_def apply_updates_append apply_updates_notin today_updates_keys
      split: if_splits)

lemma analyze_entry_error_iff:
  "analyze_entry n report_date pdf bdf g p name full = Inl e \<longleftrightarrow>
     \<not> (set (required_pitcher_columns n) \<subseteq> set (columns pdf) \<and>
        set (required_batting_columns n) \<subseteq> set (columns bdf))"
  by (cases e) (simp add: analyze_entry_def)

lemma example_pitchers: "pitchers_to_analyze example_game = [example_away_pitcher, example_home_pitcher]"
  by (simp add: pitchers_to_analyze_def example_game_def example_away_pitcher_def
      example_home_pitcher_def)

lemma example_columns:
  "set (required_pitcher_columns 1) \<subseteq> set (columns example_pitcher_df)"
  "set (required_pitcher_columns 1) \<subseteq> set (columns example_pitcher_df_injected)"
  "set (required_batting_columns 1) \<subseteq> set (columns example_batting_df)"
  by (simp_all add: required_pitcher_columns_def required_batting_columns_def
      example_pitcher_df_def example_pitcher_df_injected_def example_batting_df_def
      pitcher_metric_columns_def batting_metric_columns_def)

lemma example_analyze_ok:
  "\<exists>entry. analyze_entry 1 10 example_pitcher_df example_batting_df g p name full = Inr entry"
  "\<exists>entry. analyze_entry 1 10 example_pitcher_df_injected example_batting_df g p name full =
      Inr entry"
  using example_columns by (simp_all add: analyze_entry_def)

text \<open>
  C1. Two pairs of fact tables with the same columns and the same rows dated strictly before
  the report date give the same report row, up to the same-day keys: either both runs raise,
  or both return rows that agree on every key that is not a same-day key. So every count,
  average, rate, percentage, venue split and last game value is computed from rows dated
  before the report date only.
\<close>

theorem no_lookahead:
  assumes "columns pdf' = columns pdf" and "columns bdf' = columns bdf"
    and "past_data report_date pdf' = past_data report_date pdf"
    and "past_data report_date bdf' = past_data report_date bdf"
  shows "map_sum id (\<lambda>entry. entry |` (- set (today_keys n)))
           (analyze_entry n report_date pdf' bdf' g p name full) =
         map_sum id (\<lambda>entry. entry |` (- set (today_keys n)))
           (analyze_entry n report_date pdf bdf g p name full)"
proof (cases "set (required_pitcher_columns n) \<subseteq> set (columns pdf) \<and>
              set (required_batting_columns n) \<subseteq> set (columns bdf)")
  case False
  then have "analyze_entry n report_date pdf bdf g p name full = Inl KeyError"
    unfolding analyze_entry_def by (rule if_not_P)
  moreover from False have "analyze_entry n report_date pdf' bdf' g p name full = Inl KeyError"
    unfolding analyze_entry_def assms(1,2) by (rule if_not_P)
  ultimately show ?thesis
    by simp
next
  case True
  then have "\<exists>entry. analyze_entry n report_date pdf bdf g p name full = Inr entry"
    unfolding analyze_entry_def by (simp only: if_P) (rule exI, rule refl)
  moreover from True
  have "\<exists>entry'. analyze_entry n report_date pdf' bdf' g p name full = Inr entry'"
    unfolding analyze_entry_def assms(1,2) by (simp only: if_P) (rule exI, rule refl)
  ultimately obtain entry entry'
    where e: "analyze_entry n report_date pdf bdf g p name full = Inr entry"
      and e': "analyze_entry n report_date pdf' bdf' g p name full = Inr entry'"
    by blast
  have "entry' k = entry k" if "k \<notin> set (today_keys n)" for k
    using analyze_entry_history [OF e that] analyze_entry_history [OF e' that]
      history_updates_cong [OF assms]
    by simp
  then have "entry' |` (- set (today_keys n)) = entry |` (- set (today_keys n))"
    by (auto simp: restrict_map_def)
  with e e' show ?thesis
    by simp
qed

theorem no_lookahead_witness:
  "columns example_pitcher_df_injected = columns example_pitcher_df \<and>
   past_data 10 example_pitcher_df_injected = past_data 10 example_pitcher_df \<and>
   length (rows example_pitcher_df_injected) = Suc (length (rows example_pitcher_df)) \<and>
   (\<exists>entry. analyze_entry 1 10 example_pitcher_df example_batting_df example_game
      example_away_pitcher ''Cole, Gerrit'' ''Gerrit Cole'' = Inr entry) \<and>
   map_sum id (\<lambda>entry. entry |` (- set (today_keys 1)))
     (analyze_entry 1 10 example_pitcher_df_injected example_batting_df example_game
        example_away_pitcher ''Cole, Gerrit'' ''Gerrit Cole'') =
   map_sum id (\<lambda>entry. entry |` (- set (today_keys 1)))
     (analyze_entry 1 10 example_pitcher_df example_batting_df example_game
        example_away_pitcher ''Cole, Gerrit'' ''Gerrit Cole'')"
proof -
  have cols: "columns example_pitcher_df_injected = columns example_pitcher_df"
    by (simp add: example_pitcher_df_injected_def)
  have past: "past_data 10 example_pitcher_df_injected = past_data 10 example_pitcher_df"
    by (simp add: past_data_def example_pitcher_df_injected_def example_fact_def)
  have len: "length (rows example_pitcher_df_injected) = Suc (length (rows example_pitcher_df))"
    by (simp add: example_pitcher_df_injected_def)
  from cols past len example_analyze_ok(1) no_lookahead [OF cols refl past refl]
  show ?thesis
    by (intro conjI)
qed

subsection \<open>The keys of a report row\<close>

lemma pitcher_catalog_value_keys:
  "concat (map (\<lambda>m. if report_key_rate m = Some ''PITCH K RATE %'' then [''PITCH K RATE %'']
                     else value_keys m) (get_pitcher_metrics_for_inning n)) = pitcher_loop_keys"
  by (simp add: get_pitcher_metrics_for_inning_def mk_metric_def value_keys_def
      pitcher_loop_keys_def)

lemma batting_catalog_value_keys:
  "concat (map (\<lambda>m. if report_key_rate m = Some ''OPP K RATE %'' then [''OPP K RATE %'']
                     else value_keys m) (get_batting_metrics_for_inning n)) = batting_loop_keys"
  by (simp add: get_batting_metrics_for_inning_def mk_metric_def value_keys_def
      batting_loop_keys_def)

lemma pitcher_catalog_last_game_keys:
  "concat (map (\<lambda>m. case last_game_key m of None \<Rightarrow> [] | Some k \<Rightarrow> [k])
     (get_pitcher_metrics_for_inning n)) = map (\<lambda>l. inning_key l n) pitcher_last_game_labels"
  by (simp add: get_pitcher_metrics_for_inning_def mk_metric_def pitcher_last_game_labels_def)

lemma batting_catalog_last_game_keys:
  "concat (map (\<lambda>m. case last_game_key m of None \<Rightarrow> [] | Some k \<Rightarrow> [k])
     (get_batting_metrics_for_inning n)) = map (\<lambda>l. inning_key l n) opponent_last_game_labels"
  by (simp add: get_batting_metrics_for_inning_def mk_metric_def opponent_last_game_labels_def)

lemma today_keys_labels:
  "today_keys n = map (\<lambda>l. inning_key l n) (pitcher_today_labels @ opponent_today_labels)"
  by (simp add: today_keys_def get_pitcher_metrics_for_inning_def
      get_batting_metrics_for_inning_def mk_metric_def pitcher_today_labels_def
      opponent_today_labels_def)

lemma plain_keys_distinct:
  "distinct (pitcher_loop_keys @ batting_loop_keys @ other_plain_keys)"
  by (simp add: pitcher_loop_keys_def batting_loop_keys_def other_plain_keys_def)

lemma labels_distinct:
  "distinct (venue_labels @ pitcher_last_game_labels @ opponent_last_game_labels @
     pitcher_today_labels @ opponent_today_labels @ nrfi_labels)"
  by (simp add: venue_labels_def pitcher_last_game_labels_def opponent_last_game_labels_def
      pitcher_today_labels_def opponent_today_labels_def nrfi_labels_def)

lemma plain_keys_no_inning:
  "\<forall>k \<in> set (pitcher_loop_keys @ batting_loop_keys @ other_plain_keys). \<not> sublist '' INNING '' k"
  unfolding pitcher_loop_keys_def batting_loop_keys_def other_plain_keys_def
  by code_simp

lemma inning_key_eq [simp]: "inning_key a n = inning_key b n \<longleftrightarrow> a = b"
  by (simp add: inning_key_def)

lemma inning_key_sublist: "sublist '' INNING '' (inning_key l n)"
  unfolding inning_key_def by (rule sublist_appendI)

lemma plain_key_not_inning:
  "k \<in> set pitcher_loop_keys \<union> set batting_loop_keys \<union> set other_plain_keys \<Longrightarrow>
   k \<noteq> inning_key l n"
  using plain_keys_no_inning inning_key_sublist [of l n] by auto

lemma plain_keys_disjoint:
  "set pitcher_loop_keys \<inter> set batting_loop_keys = {}"
  "set pitcher_loop_keys \<inter> set other_plain_keys = {}"
  "set batting_loop_keys \<inter> set other_plain_keys = {}"
  using plain_keys_distinct by auto

lemma labels_disjoint:
  "set venue_labels \<inter> set pitcher_last_game_labels = {}"
  "set venue_labels \<inter> set opponent_last_game_labels = {}"
  "set venue_labels \<inter> set pitcher_today_labels = {}"
  "set venue_labels \<inter> set opponent_today_labels = {}"
  "set venue_labels \<inter> set nrfi_labels = {}"
  "set pitcher_last_game_labels \<inter> set opponent_last_game_labels = {}"
  "set pitcher_last_game_labels \<inter> set pitcher_today_labels = {}"
  "set pitcher_last_game_labels \<inter> set opponent_today_labels = {}"
  "set pitcher_last_game_labels \<inter> set nrfi_labels = {}"
  "set opponent_last_game_labels \<inter> set pitcher_today_labels = {}"
  "set opponent_last_game_labels \<inter> set opponent_today_labels = {}"
  "set opponent_last_game_labels \<inter> set nrfi_labels = {}"
  "set pitcher_today_labels \<inter> set nrfi_labels = {}"
  "set opponent_today_labels \<inter> set nrfi_labels = {}"
  using labels_distinct by auto

lemma pitcher_loop_updates_keys:
  "fst ` set (pitcher_loop_updates n cols h home) = set pitcher_loop_keys"
proof -
  have step: "fst ` set (pitcher_metric_update n cols h home m) =
      set (if report_key_rate m = Some ''PITCH K RATE %'' then [''PITCH K RATE %'']
           else value_keys m)" for m
    by (simp add: pitcher_metric_update_keys)
  have "fst ` set (pitcher_loop_updates n cols h home) =
      (\<Union>m \<in> set (get_pitcher_metrics_for_inning n).
         fst ` set (pitcher_metric_update n cols h home m))"
    unfolding pitcher_loop_updates_def by (simp only: set_concat set_map image_UN image_image)
  also have "\<dots> = set (concat (map (\<lambda>m. if report_key_rate m = Some ''PITCH K RATE %''
      then [''PITCH K RATE %''] else value_keys m) (get_pitcher_metrics_for_inning n)))"
    by (simp only: step set_concat set_map image_image)
  finally show ?thesis
    by (simp only: pitcher_catalog_value_keys)
qed

lemma batting_loop_updates_keys:
  "fst ` set (batting_loop_updates n cols h home) = set batting_loop_keys"
proof -
  have step: "fst ` set (batting_metric_update n cols h home m) =
      set (if report_key_rate m = Some ''OPP K RATE %'' then [''OPP K RATE %'']
           else value_keys m)" for m
    by (simp add: batting_metric_update_keys)
  have "fst ` set (batting_loop_updates n cols h home) =
      (\<Union>m \<in> set (get_batting_metrics_for_inning n).
         fst ` set (batting_metric_update n cols h home m))"
    unfolding batting_loop_updates_def by (simp only: set_concat set_map image_UN image_image)
  also have "\<dots> = set (concat (map (\<lambda>m. if report_key_rate m = Some ''OPP K RATE %''
      then [''OPP K RATE %''] else value_keys m) (get_batting_metrics_for_inning n)))"
    by (simp only: step set_concat set_map image_image)
  finally show ?thesis
    by (simp only: batting_catalog_value_keys)
qed

lemma last_game_updates_keys:
  "fst ` set (last_game_updates cols latest metrics) =
     set (concat (map (\<lambda>m. case last_game_key m of None \<Rightarrow> [] | Some k \<Rightarrow> [k]) metrics))"
  by (simp only: last_game_updates_def set_concat set_map image_UN image_image
      last_game_update_keys set_slot)

lemma pitcher_last_game_updates_keys:
  "fst ` set (last_game_updates cols latest (get_pitcher_metrics_for_inning n)) =
     (\<lambda>l. inning_key l n) ` set pitcher_last_game_labels"
  by (simp only: last_game_updates_keys pitcher_catalog_last_game_keys set_map)

lemma batting_last_game_updates_keys:
  "fst ` set (last_game_updates cols latest (get_batting_metrics_for_inning n)) =
     (\<lambda>l. inning_key l n) ` set opponent_last_game_labels"
  by (simp only: last_game_updates_keys batting_catalog_last_game_keys set_map)

lemma today_updates_label_keys:
  "fst ` set (today_updates n report_date pdf bdf g p name) =
     (\<lambda>l. inning_key l n) ` (set pitcher_today_labels \<union> set opponent_today_labels)"
  by (simp only: today_updates_keys today_keys_labels set_map set_append)

lemma venue_updates_keys:
  "map fst (venue_updates n ph oh home) =
     map (\<lambda>l. inning_key l n) venue_labels @ [''VENUE PITCH K RATE %'', ''VENUE OPP K RATE %'']"
  by (simp add: venue_updates_def Let_def venue_labels_def)

subsection \<open>The value of a report row at a key\<close>

lemma analyze_entry_updates:
  assumes "analyze_entry n report_date pdf bdf g p name full = Inr entry"
  shows "entry = apply_updates
           (history_updates n report_date pdf bdf g p name full @
            today_updates n report_date pdf bdf g p name) Map.empty"
  using assms by (auto simp: analyze_entry_def split: if_splits)

lemma apply_updates_segment:
  assumes "(k, v) \<in> set step" and "\<forall>v'. (k, v') \<in> set step \<longrightarrow> v' = v"
    and "k \<notin> fst ` set after"
  shows "apply_updates (before @ step @ after) e k = Some v"
proof -
  from assms(1,2) have "apply_updates step (apply_updates before e) k = Some v"
    by (rule apply_updates_unique)
  with assms(3) show ?thesis
    by (simp add: apply_updates_append apply_updates_notin)
qed

lemma nrfi_label_mem: "''PITCH NRFI %'' \<in> set nrfi_labels" "''BAT NRFI %'' \<in> set nrfi_labels"
  by (simp_all add: nrfi_labels_def)

lemma other_plain_mem:
  "''OPP K/GM'' \<in> set other_plain_keys" "''VENUE PITCH K RATE %'' \<in> set other_plain_keys"
  "''VENUE OPP K RATE %'' \<in> set other_plain_keys"
  by (simp_all add: other_plain_keys_def)

lemma inning_key_not_plain:
  "inning_key l n \<notin> set pitcher_loop_keys" "inning_key l n \<notin> set batting_loop_keys"
  "inning_key l n \<notin> set other_plain_keys"
  using plain_key_not_inning [of "inning_key l n" l n] by blast+

lemma nrfi_labels_differ: "''PITCH NRFI %'' \<noteq> ''BAT NRFI %''"
  by simp

lemma nrfi_not_today:
  "''PITCH NRFI %'' \<notin> set pitcher_today_labels" "''PITCH NRFI %'' \<notin> set opponent_today_labels"
  "''BAT NRFI %'' \<notin> set pitcher_today_labels" "''BAT NRFI %'' \<notin> set opponent_today_labels"
  using labels_disjoint(13,14) nrfi_label_mem by blast+

lemma nrfi_update_mem: "(k, v) \<in> set (nrfi_update key c cols h) \<Longrightarrow> k = key"
  by (auto simp: nrfi_update_def split: if_splits)

lemma venue_updates_key_set:
  "fst ` set (venue_updates n ph oh home) =
     (\<lambda>l. inning_key l n) ` set venue_labels \<union> {''VENUE PITCH K RATE %'', ''VENUE OPP K RATE %''}"
proof -
  have "fst ` set (venue_updates n ph oh home) = set (map fst (venue_updates n ph oh home))"
    by simp
  also have "\<dots> = set (map (\<lambda>l. inning_key l n) venue_labels @
      [''VENUE PITCH K RATE %'', ''VENUE OPP K RATE %''])"
    by (simp only: venue_updates_keys)
  finally show ?thesis
    by auto
qed

lemmas segment_keys =
  pitcher_loop_updates_keys batting_loop_updates_keys pitcher_last_game_updates_keys
  batting_last_game_updates_keys today_updates_label_keys nrfi_update_keys

lemma entry_pitcher_loop:
  assumes "analyze_entry n report_date pdf bdf g p name full = Inr entry"
    and "(k, v) \<in> set (pitcher_loop_updates n (columns pdf)
                        (entity_history report_date pdf name) (is_home p))"
    and "\<forall>v'. (k, v') \<in> set (pitcher_loop_updates n (columns pdf)
                        (entity_history report_date pdf name) (is_home p)) \<longrightarrow> v' = v"
  shows "entry k = Some v"
proof -
  define ph where "ph = entity_history report_date pdf name"
  define oh where "oh = entity_history report_date bdf (opponent_raw p)"
  define before where "before =
    initial_updates n g p full (nunique_games ph) @
    default_updates n (map fst (initial_updates n g p full (nunique_games ph))) @
    venue_updates n ph oh (is_home p) @
    last_game_updates (columns pdf) (latest_outing ph) (get_pitcher_metrics_for_inning n) @
    last_game_updates (columns bdf) (latest_outing oh) (get_batting_metrics_for_inning n)"
  define after where "after =
    nrfi_update (inning_key ''PITCH NRFI %'' n) (inning_col n ''runs_allowed'') (columns pdf) ph @
    batting_loop_updates n (columns bdf) oh (\<not> is_home p) @
    nrfi_update (inning_key ''BAT NRFI %'' n) (inning_col n ''runs_scored'') (columns bdf) oh @
    today_updates n report_date pdf bdf g p name"
  have split: "history_updates n report_date pdf bdf g p name full @
      today_updates n report_date pdf bdf g p name =
      before @ pitcher_loop_updates n (columns pdf) ph (is_home p) @ after"
    by (simp add: history_updates_def Let_def before_def after_def ph_def oh_def)
  from assms(2) have "k \<in> set pitcher_loop_keys"
    using pitcher_loop_updates_keys by (metis fst_conv image_eqI)
  then have "k \<notin> fst ` set after"
    using plain_key_not_inning [of k] plain_keys_disjoint
    by (auto simp: after_def image_Un segment_keys)
  with assms(2,3) show ?thesis
    unfolding analyze_entry_updates [OF assms(1)] split ph_def [symmetric]
    by (intro apply_updates_segment)
qed

lemma entry_batting_loop:
  assumes "analyze_entry n report_date pdf bdf g p name full = Inr entry"
    and "(k, v) \<in> set (batting_loop_updates n (columns bdf) (entity_history report_date bdf (opponent_raw p)) (\<not> is_home p))"
    and "\<forall>v'. (k, v') \<in> set (batting_loop_updates n (columns bdf) (entity_history report_date bdf (opponent_raw p)) (\<not> is_home p)) \<longrightarrow> v' = v"
  shows "entry k = Some v"
proof -
  define ph where "ph = entity_history report_date pdf name"
  define oh where "oh = entity_history report_date bdf (opponent_raw p)"
  define before where "before =
    initial_updates n g p full (nunique_games ph) @
    default_updates n (map fst (initial_updates n g p full (nunique_games ph))) @
    venue_updates n ph oh (is_home p) @
    last_game_updates (columns pdf) (latest_outing ph) (get_pitcher_metrics_for_inning n) @
    last_game_updates (columns bdf) (latest_outing oh) (get_batting_metrics_for_inning n) @
    pitcher_loop_updates n (columns pdf) ph (is_home p) @
    nrfi_update (inning_key ''PITCH NRFI %'' n) (inning_col n ''runs_allowed'') (columns pdf) ph"
  define after where "after =
    nrfi_update (inning_key ''BAT NRFI %'' n) (inning_col n ''runs_scored'') (columns bdf) oh @
    today_updates n report_date pdf bdf g p name"
  have split: "history_updates n report_date pdf bdf g p name full @
      today_updates n report_date pdf bdf g p name =
      before @ (batting_loop_updates n (columns bdf) oh (\<not> is_home p)) @ after"
    by (simp add: history_updates_def Let_def before_def after_def ph_def oh_def)
  from assms(2) have mem: "(k, v) \<in> set (batting_loop_updates n (columns bdf) oh (\<not> is_home p))"
    by (simp only: ph_def oh_def)
  from assms(3) have uniq: "\<forall>v'. (k, v') \<in> set (batting_loop_updates n (columns bdf) oh (\<not> is_home p)) \<longrightarrow> v' = v"
    by (simp only: ph_def oh_def)
  from mem have key: "k \<in> set batting_loop_keys"
    using batting_loop_updates_keys by (metis fst_conv image_eqI)
  then have "k \<notin> fst ` set after"
    using plain_key_not_inning plain_keys_disjoint labels_disjoint nrfi_label_mem
    by (auto simp: after_def image_Un segment_keys)
  with mem uniq show ?thesis
    unfolding analyze_entry_updates [OF assms(1)] split
    by (intro apply_updates_segment)
qed

lemma entry_pitcher_last_game:
  assumes "analyze_entry n report_date pdf bdf g p name full = Inr entry"
    and "(k, v) \<in> set (last_game_updates (columns pdf) (latest_outing (entity_history report_date pdf name)) (get_pitcher_metrics_for_inning n))"
    and "\<forall>v'. (k, v') \<in> set (last_game_updates (columns pdf) (latest_outing (entity_history report_date pdf name)) (get_pitcher_metrics_for_inning n)) \<longrightarrow> v' = v"
  shows "entry k = Some v"
proof -
  define ph where "ph = entity_history report_date pdf name"
  define oh where "oh = entity_history report_date bdf (opponent_raw p)"
  define before where "before =
    initial_updates n g p full (nunique_games ph) @
    default_updates n (map fst (initial_updates n g p full (nunique_games ph))) @
    venue_updates n ph oh (is_home p)"
  define after where "after =
    last_game_updates (columns bdf) (latest_outing oh) (get_batting_metrics_for_inning n) @
    pitcher_loop_updates n (columns pdf) ph (is_home p) @
    nrfi_update (inning_key ''PITCH NRFI %'' n) (inning_col n ''runs_allowed'') (columns pdf) ph @
    batting_loop_updates n (columns bdf) oh (\<not> is_home p) @
    nrfi_update (inning_key ''BAT NRFI %'' n) (inning_col n ''runs_scored'') (columns bdf) oh @
    today_updates n report_date pdf bdf g p name"
  have split: "history_updates n report_date pdf bdf g p name full @
      today_updates n report_date pdf bdf g p name =
      before @ (last_game_updates (columns pdf) (latest_outing ph) (get_pitcher_metrics_for_inning n)) @ after"
    by (simp add: history_updates_def Let_def before_def after_def ph_def oh_def)
  from assms(2) have mem: "(k, v) \<in> set (last_game_updates (columns pdf) (latest_outing ph) (get_pitcher_metrics_for_inning n))"
    by (simp only: ph_def oh_def)
  from assms(3) have uniq: "\<forall>v'. (k, v') \<in> set (last_game_updates (columns pdf) (latest_outing ph) (get_pitcher_metrics_for_inning n)) \<longrightarrow> v' = v"
    by (simp only: ph_def oh_def)
  from mem have key: "k \<in> (\<lambda>l. inning_key l n) ` set pitcher_last_game_labels"
    using pitcher_last_game_updates_keys by (metis fst_conv image_eqI)
  then have "k \<notin> fst ` set after"
    using plain_key_not_inning plain_keys_disjoint labels_disjoint nrfi_label_mem
    by (auto simp: after_def image_Un segment_keys)
  with mem uniq show ?thesis
    unfolding analyze_entry_updates [OF assms(1)] split
    by (intro apply_updates_segment)
qed

lemma entry_opponent_last_game:
  assumes "analyze_entry n report_date pdf bdf g p name full = Inr entry"
    and "(k, v) \<in> set (last_game_updates (columns bdf) (latest_outing (entity_history report_date bdf (opponent_raw p))) (get_batting_metrics_for_inning n))"
    and "\<forall>v'. (k, v') \<in> set (last_game_updates (columns bdf) (latest_outing (entity_history report_date bdf (opponent_raw p))) (get_batting_metrics_for_inning n)) \<longrightarrow> v' = v"
  shows "entry k = Some v"
proof -
  define ph where "ph = entity_history report_date pdf name"
  define oh where "oh = entity_history report_date bdf (opponent_raw p)"
  define before where "before =
    initial_updates n g p full (nunique_games ph) @
    default_updates n (map fst (initial_updates n g p full (nunique_games ph))) @
    venue_updates n ph oh (is_home p) @
    last_game_updates (columns pdf) (latest_outing ph) (get_pitcher_metrics_for_inning n)"
  define after where "after =
    pitcher_loop_updates n (columns pdf) ph (is_home p) @
    nrfi_update (inning_key ''PITCH NRFI %'' n) (inning_col n ''runs_allowed'') (columns pdf) ph @
    batting_loop_updates n (columns bdf) oh (\<not> is_home p) @
    nrfi_update (inning_key ''BAT NRFI %'' n) (inning_col n ''runs_scored'') (columns bdf) oh @
    today_updates n report_date pdf bdf g p name"
  have split: "history_updates n report_date pdf bdf g p name full @
      today_updates n report_date pdf bdf g p name =
      before @ (last_game_updates (columns bdf) (latest_outing oh) (get_batting_metrics_for_inning n)) @ after"
    by (simp add: history_updates_def Let_def before_def after_def ph_def oh_def)
  from assms(2) have mem: "(k, v) \<in> set (last_game_updates (columns bdf) (latest_outing oh) (get_batting_metrics_for_inning n))"
    by (simp only: ph_def oh_def)
  from assms(3) have uniq: "\<forall>v'. (k, v') \<in> set (last_game_updates (columns bdf) (latest_outing oh) (get_batting_metrics_for_inning n)) \<longrightarrow> v' = v"
    by (simp only: ph_def oh_def)
  from mem have key: "k \<in> (\<lambda>l. inning_key l n) ` set opponent_last_game_labels"
    using batting_last_game_updates_keys by (metis fst_conv image_eqI)
  then have "k \<notin> fst ` set after"
    using plain_key_not_inning plain_keys_disjoint labels_disjoint nrfi_label_mem
    by (auto simp: after_def image_Un segment_keys)
  with mem uniq show ?thesis
    unfolding analyze_entry_updates [OF assms(1)] split
    by (intro apply_updates_segment)
qed

lemma entry_pitcher_nrfi:
  assumes "analyze_entry n report_date pdf bdf g p name full = Inr entry"
    and "(k, v) \<in> set (nrfi_update (inning_key ''PITCH NRFI %'' n) (inning_col n ''runs_allowed'') (columns pdf) (entity_history report_date pdf name))"
    and "\<forall>v'. (k, v') \<in> set (nrfi_update (inning_key ''PITCH NRFI %'' n) (inning_col n ''runs_allowed'') (columns pdf) (entity_history report_date pdf name)) \<longrightarrow> v' = v"
  shows "entry k = Some v"
proof -
  define ph where "ph = entity_history report_date pdf name"
  define oh where "oh = entity_history report_date bdf (opponent_raw p)"
  define before where "before =
    initial_updates n g p full (nunique_games ph) @
    default_updates n (map fst (initial_updates n g p full (nunique_games ph))) @
    venue_updates n ph oh (is_home p) @
    last_game_updates (columns pdf) (latest_outing ph) (get_pitcher_metrics_for_inning n) @
    last_game_updates (columns bdf) (latest_outing oh) (get_batting_metrics_for_inning n) @
    pitcher_loop_updates n (columns pdf) ph (is_home p)"
  define after where "after =
    batting_loop_updates n (columns bdf) oh (\<not> is_home p) @
    nrfi_update (inning_key ''BAT NRFI %'' n) (inning_col n ''runs_scored'') (columns bdf) oh @
    today_updates n report_date pdf bdf g p name"
  have split: "history_updates n report_date pdf bdf g p name full @
      today_updates n report_date pdf bdf g p name =
      before @ (nrfi_update (inning_key ''PITCH NRFI %'' n) (inning_col n ''runs_allowed'') (columns pdf) ph) @ after"
    by (simp add: history_updates_def Let_def before_def after_def ph_def oh_def)
  from assms(2) have mem: "(k, v) \<in> set (nrfi_update (inning_key ''PITCH NRFI %'' n) (inning_col n ''runs_allowed'') (columns pdf) ph)"
    by (simp only: ph_def oh_def)
  from assms(3) have uniq: "\<forall>v'. (k, v') \<in> set (nrfi_update (inning_key ''PITCH NRFI %'' n) (inning_col n ''runs_allowed'') (columns pdf) ph) \<longrightarrow> v' = v"
    by (simp only: ph_def oh_def)
  from mem have key: "k = inning_key ''PITCH NRFI %'' n"
    by (rule nrfi_update_mem)
  then have "k \<notin> fst ` set after"
    by (simp add: after_def image_Un segment_keys inning_key_not_plain nrfi_not_today
        nrfi_labels_differ image_iff)
  with mem uniq show ?thesis
    unfolding analyze_entry_updates [OF assms(1)] split
    by (intro apply_updates_segment)
qed

lemma entry_opponent_nrfi:
  assumes "analyze_entry n report_date pdf bdf g p name full = Inr entry"
    and "(k, v) \<in> set (nrfi_update (inning_key ''BAT NRFI %'' n) (inning_col n ''runs_scored'') (columns bdf) (entity_history report_date bdf (opponent_raw p)))"
    and "\<forall>v'. (k, v') \<in> set (nrfi_update (inning_key ''BAT NRFI %'' n) (inning_col n ''runs_scored'') (columns bdf) (entity_history report_date bdf (opponent_raw p))) \<longrightarrow> v' = v"
  shows "entry k = Some v"
proof -
  define ph where "ph = entity_history report_date pdf name"
  define oh where "oh = entity_history report_date bdf (opponent_raw p)"
  define before where "before =
    initial_updates n g p full (nunique_games ph) @
    default_updates n (map fst (initial_updates n g p full (nunique_games ph))) @
    venue_updates n ph oh (is_home p) @
    last_game_updates (columns pdf) (latest_outing ph) (get_pitcher_metrics_for_inning n) @
    last_game_updates (columns bdf) (latest_outing oh) (get_batting_metrics_for_inning n) @
    pitcher_loop_updates n (columns pdf) ph (is_home p) @
    nrfi_update (inning_key ''PITCH NRFI %'' n) (inning_col n ''runs_allowed'') (columns pdf) ph @
    batting_loop_updates n (columns bdf) oh (\<not> is_home p)"
  define after where "after =
    today_updates n report_date pdf bdf g p name"
  have split: "history_updates n report_date pdf bdf g p name full @
      today_updates n report_date pdf bdf g p name =
      before @ (nrfi_update (inning_key ''BAT NRFI %'' n) (inning_col n ''runs_scored'') (columns bdf) oh) @ after"
    by (simp add: history_updates_def Let_def before_def after_def ph_def oh_def)
  from assms(2) have mem: "(k, v) \<in> set (nrfi_update (inning_key ''BAT NRFI %'' n) (inning_col n ''runs_scored'') (columns bdf) oh)"
    by (simp only: ph_def oh_def)
  from assms(3) have uniq: "\<forall>v'. (k, v') \<in> set (nrfi_update (inning_key ''BAT NRFI %'' n) (inning_col n ''runs_scored'') (columns bdf) oh) \<longrightarrow> v' = v"
    by (simp only: ph_def oh_def)
  from mem have key: "k = inning_key ''BAT NRFI %'' n"
    by (rule nrfi_update_mem)
  then have "k \<notin> fst ` set after"
    by (simp add: after_def image_Un segment_keys inning_key_not_plain nrfi_not_today
        nrfi_labels_differ image_iff)
  with mem uniq show ?thesis
    unfolding analyze_entry_updates [OF assms(1)] split
    by (intro apply_updates_segment)
qed

lemma entry_venue:
  assumes "analyze_entry n report_date pdf bdf g p name full = Inr entry"
    and "(k, v) \<in> set (venue_updates n (entity_history report_date pdf name) (entity_history report_date bdf (opponent_raw p)) (is_home p))"
    and "\<forall>v'. (k, v') \<in> set (venue_updates n (entity_history report_date pdf name) (entity_history report_date bdf (opponent_raw p)) (is_home p)) \<longrightarrow> v' = v"
  shows "entry k = Some v"
proof -
  define ph where "ph = entity_history report_date pdf name"
  define oh where "oh = entity_history report_date bdf (opponent_raw p)"
  define before where "before =
    initial_updates n g p full (nunique_games ph) @
    default_updates n (map fst (initial_updates n g p full (nunique_games ph)))"
  define after where "after =
    last_game_updates (columns pdf) (latest_outing ph) (get_pitcher_metrics_for_inning n) @
    last_game_updates (columns bdf) (latest_outing oh) (get_batting_metrics_for_inning n) @
    pitcher_loop_updates n (columns pdf) ph (is_home p) @
    nrfi_update (inning_key ''PITCH NRFI %'' n) (inning_col n ''runs_allowed'') (columns pdf) ph @
    batting_loop_updates n (columns bdf) oh (\<not> is_home p) @
    nrfi_update (inning_key ''BAT NRFI %'' n) (inning_col n ''runs_scored'') (columns bdf) oh @
    today_updates n report_date pdf bdf g p name"
  have split: "history_updates n report_date pdf bdf g p name full @
      today_updates n report_date pdf bdf g p name =
      before @ (venue_updates n ph oh (is_home p)) @ after"
    by (simp add: history_updates_def Let_def before_def after_def ph_def oh_def)
  from assms(2) have mem: "(k, v) \<in> set (venue_updates n ph oh (is_home p))"
    by (simp only: ph_def oh_def)
  from assms(3) have uniq: "\<forall>v'. (k, v') \<in> set (venue_updates n ph oh (is_home p)) \<longrightarrow> v' = v"
    by (simp only: ph_def oh_def)
  from mem have "k \<in> fst ` set (venue_updates n ph oh (is_home p))"
    by (metis fst_conv image_eqI)
  then have key: "k \<in> (\<lambda>l. inning_key l n) ` set venue_labels \<union> set other_plain_keys"
    unfolding venue_updates_key_set using other_plain_mem by blast
  then have "k \<notin> fst ` set after"
    using plain_key_not_inning plain_keys_disjoint labels_disjoint nrfi_label_mem
    by (auto simp: after_def image_Un segment_keys)
  with mem uniq show ?thesis
    unfolding analyze_entry_updates [OF assms(1)] split
    by (intro apply_updates_segment)
qed
lemma venue_updates_distinct: "distinct (map fst (venue_updates n ph oh home))"
proof -
  have "inning_key l n \<noteq> ''VENUE PITCH K RATE %''" "inning_key l n \<noteq> ''VENUE OPP K RATE %''" for l
    using inning_key_not_plain(3) [of l n] other_plain_mem by metis+
  then show ?thesis
    by (simp add: venue_updates_keys venue_labels_def)
qed

lemma entry_venue_value:
  assumes "analyze_entry n report_date pdf bdf g p name full = Inr entry"
    and "(k, v) \<in> set (venue_updates n (entity_history report_date pdf name)
                        (entity_history report_date bdf (opponent_raw p)) (is_home p))"
  shows "entry k = Some v"
proof (rule entry_venue [OF assms])
  show "\<forall>v'. (k, v') \<in> set (venue_updates n (entity_history report_date pdf name)
                        (entity_history report_date bdf (opponent_raw p)) (is_home p)) \<longrightarrow> v' = v"
    using assms(2) venue_updates_distinct by (meson eq_key_imp_eq_value)
qed

lemma default_value_opp_k_gm: "default_value ''OPP K/GM'' = Num 0"
  unfolding default_value_def by code_simp

lemma opp_k_gm_potential: "''OPP K/GM'' \<in> set (all_potential_report_keys n)"
  by (simp add: all_potential_report_keys_def get_batting_metrics_for_inning_def mk_metric_def
      metric_keys_def)

lemma default_updates_value:
  "(k, v) \<in> set (default_updates n present) \<Longrightarrow> v = default_value k"
  by (auto simp: default_updates_def)

lemma entry_opp_k_gm:
  assumes "analyze_entry n report_date pdf bdf g p name full = Inr entry"
  shows "entry ''OPP K/GM'' = Some (Num 0)"
proof -
  define ph where "ph = entity_history report_date pdf name"
  define oh where "oh = entity_history report_date bdf (opponent_raw p)"
  define first_keys where "first_keys = initial_updates n g p full (nunique_games ph)"
  define after where "after =
    venue_updates n ph oh (is_home p) @
    last_game_updates (columns pdf) (latest_outing ph) (get_pitcher_metrics_for_inning n) @
    last_game_updates (columns bdf) (latest_outing oh) (get_batting_metrics_for_inning n) @
    pitcher_loop_updates n (columns pdf) ph (is_home p) @
    nrfi_update (inning_key ''PITCH NRFI %'' n) (inning_col n ''runs_allowed'') (columns pdf) ph @
    batting_loop_updates n (columns bdf) oh (\<not> is_home p) @
    nrfi_update (inning_key ''BAT NRFI %'' n) (inning_col n ''runs_scored'') (columns bdf) oh @
    today_updates n report_date pdf bdf g p name"
  have split: "history_updates n report_date pdf bdf g p name full @
      today_updates n report_date pdf bdf g p name =
      first_keys @ default_updates n (map fst first_keys) @ after"
    by (simp add: history_updates_def Let_def first_keys_def after_def ph_def oh_def)
  have "''OPP K/GM'' \<notin> set (map fst first_keys)"
    by (simp add: first_keys_def initial_updates_def inning_key_def)
  then have mem: "(''OPP K/GM'', Num 0) \<in> set (default_updates n (map fst first_keys))"
    using opp_k_gm_potential [of n]
    by (simp add: default_updates_def image_iff default_value_opp_k_gm)
  have uniq: "\<forall>v'. (''OPP K/GM'', v') \<in> set (default_updates n (map fst first_keys)) \<longrightarrow>
      v' = Num 0"
    using default_updates_value default_value_opp_k_gm by metis
  have "''OPP K/GM'' \<notin> fst ` set after"
    using plain_key_not_inning [of "''OPP K/GM''"] plain_keys_disjoint other_plain_mem(1)
    by (auto simp: after_def image_Un segment_keys venue_updates_key_set)
  with mem uniq show ?thesis
    unfolding analyze_entry_updates [OF assms(1)] split
    by (intro apply_updates_segment)
qed

lemma nunique_games_zero: "nunique_games h = 0 \<longleftrightarrow> h = []"
  by (simp add: nunique_games_def)

lemma pitcher_catalog_all_value_keys:
  "concat (map value_keys (get_pitcher_metrics_for_inning n)) = pitcher_loop_keys"
  by (simp add: get_pitcher_metrics_for_inning_def mk_metric_def value_keys_def
      pitcher_loop_keys_def)

lemma batting_catalog_all_value_keys:
  "concat (map value_keys (get_batting_metrics_for_inning n)) = ''OPP K/GM'' # batting_loop_keys"
  by (simp add: get_batting_metrics_for_inning_def mk_metric_def value_keys_def
      batting_loop_keys_def)

lemma pitcher_value_key_mem:
  assumes "m \<in> set (get_pitcher_metrics_for_inning n)" and "k \<in> set (value_keys m)"
  shows "k \<in> set pitcher_loop_keys"
proof -
  from assms have "k \<in> set (concat (map value_keys (get_pitcher_metrics_for_inning n)))"
    by auto
  then show ?thesis
    by (simp only: pitcher_catalog_all_value_keys)
qed

lemma batting_value_key_mem:
  assumes "m \<in> set (get_batting_metrics_for_inning n)" and "k \<in> set (value_keys m)"
  shows "k \<in> set batting_loop_keys \<or> k = ''OPP K/GM''"
proof -
  from assms have "k \<in> set (concat (map value_keys (get_batting_metrics_for_inning n)))"
    by auto
  then show ?thesis
    by (simp only: batting_catalog_all_value_keys) auto
qed

lemma pitcher_loop_updates_empty:
  "(k, v) \<in> set (pitcher_loop_updates n cols [] home) \<Longrightarrow> v = Num 0"
  by (auto simp: pitcher_loop_updates_def dest: pitcher_metric_update_empty)

lemma batting_loop_updates_empty:
  "(k, v) \<in> set (batting_loop_updates n cols [] home) \<Longrightarrow> v = Num 0"
  by (auto simp: batting_loop_updates_def dest: batting_metric_update_empty)

lemma last_game_updates_none:
  "(k, v) \<in> set (last_game_updates cols None metrics) \<Longrightarrow> v = Str ''N/A''"
  by (auto simp: last_game_updates_def dest: last_game_update_none)

lemma last_game_updates_none_mem:
  "m \<in> set metrics \<Longrightarrow> last_game_key m = Some k \<Longrightarrow>
   (k, Str ''N/A'') \<in> set (last_game_updates cols None metrics)"
  by (force simp: last_game_updates_def last_game_update_def)

lemma key_has_value:
  assumes "k \<in> fst ` set ups" and "\<forall>k' v'. (k', v') \<in> set ups \<longrightarrow> v' = v"
  shows "(k, v) \<in> set ups \<and> (\<forall>v'. (k, v') \<in> set ups \<longrightarrow> v' = v)"
  using assms by force

subsection \<open>An entity without history\<close>

lemma pitcher_without_history_loop:
  assumes ok: "analyze_entry n report_date pdf bdf g p name full = Inr entry"
    and empty: "entity_history report_date pdf name = []"
    and m: "m \<in> set (get_pitcher_metrics_for_inning n)" and k: "k \<in> set (value_keys m)"
  shows "entry k = Some (Num 0)"
proof -
  from pitcher_value_key_mem [OF m k]
  have mem: "k \<in> fst ` set (pitcher_loop_updates n (columns pdf) [] (is_home p))"
    by (simp only: pitcher_loop_updates_keys)
  have val: "\<forall>k' v'. (k', v') \<in> set (pitcher_loop_updates n (columns pdf) [] (is_home p)) \<longrightarrow>
      v' = Num 0"
    by (blast dest: pitcher_loop_updates_empty)
  from key_has_value [OF mem val]
  have *: "(k, Num 0) \<in> set (pitcher_loop_updates n (columns pdf) [] (is_home p))"
    and **: "\<forall>v'. (k, v') \<in> set (pitcher_loop_updates n (columns pdf) [] (is_home p)) \<longrightarrow>
         v' = Num 0"
    by blast+
  show ?thesis
  proof (rule entry_pitcher_loop [OF ok])
    show "(k, Num 0) \<in> set (pitcher_loop_updates n (columns pdf) (entity_history report_date pdf name) (is_home p))"
      unfolding empty by (rule *)
    show "\<forall>v'. (k, v') \<in> set (pitcher_loop_updates n (columns pdf) (entity_history report_date pdf name) (is_home p)) \<longrightarrow>
        v' = Num 0"
      unfolding empty by (rule **)
  qed
qed

lemma pitcher_without_history_last_game:
  assumes ok: "analyze_entry n report_date pdf bdf g p name full = Inr entry"
    and empty: "entity_history report_date pdf name = []"
    and m: "m \<in> set (get_pitcher_metrics_for_inning n)" and k: "last_game_key m = Some k"
  shows "entry k = Some (Str ''N/A'')"
proof (rule entry_pitcher_last_game [OF ok])
  show "(k, Str ''N/A'') \<in> set (last_game_updates (columns pdf)
      (latest_outing (entity_history report_date pdf name)) (get_pitcher_metrics_for_inning n))"
    unfolding empty latest_outing.simps by (rule last_game_updates_none_mem [OF m k])
  show "\<forall>v'. (k, v') \<in> set (last_game_updates (columns pdf)
      (latest_outing (entity_history report_date pdf name)) (get_pitcher_metrics_for_inning n)) \<longrightarrow>
      v' = Str ''N/A''"
    unfolding empty latest_outing.simps using last_game_updates_none by blast
qed

lemma nrfi_update_Nil: "nrfi_update key c cols [] = [(key, Num 0)]"
  by (simp add: nrfi_update_def zero_games_pct_Nil)

lemma pitcher_without_history_nrfi:
  assumes ok: "analyze_entry n report_date pdf bdf g p name full = Inr entry"
    and empty: "entity_history report_date pdf name = []"
  shows "entry (inning_key ''PITCH NRFI %'' n) = Some (Num 0)"
  by (rule entry_pitcher_nrfi [OF ok]) (simp_all only: empty nrfi_update_Nil, simp_all)

lemma venue_updates_pitcher_Nil:
  "(inning_key ''PITCHER VENUE NRFI %'' n, Num 0) \<in> set (venue_updates n [] oh home)"
  "(inning_key ''PITCHER VENUE NRHI %'' n, Num 0) \<in> set (venue_updates n [] oh home)"
  "(''VENUE PITCH K RATE %'', Num 0) \<in> set (venue_updates n [] oh home)"
  by (simp_all add: venue_updates_def Let_def venue_select_filter zero_games_pct_Nil
      k_games_pct_Nil)

lemma venue_updates_opponent_Nil:
  "(inning_key ''OPPONENT VENUE NRFI %'' n, Num 0) \<in> set (venue_updates n ph [] home)"
  "(inning_key ''BATTER VENUE NRHI %'' n, Num 0) \<in> set (venue_updates n ph [] home)"
  "(''VENUE OPP K RATE %'', Num 0) \<in> set (venue_updates n ph [] home)"
  by (simp_all add: venue_updates_def Let_def venue_select_filter zero_games_pct_Nil
      k_games_pct_Nil)

lemma pitcher_without_history_venue:
  assumes ok: "analyze_entry n report_date pdf bdf g p name full = Inr entry"
    and empty: "entity_history report_date pdf name = []"
  shows "entry (inning_key ''PITCHER VENUE NRFI %'' n) = Some (Num 0)"
    and "entry (inning_key ''PITCHER VENUE NRHI %'' n) = Some (Num 0)"
    and "entry ''VENUE PITCH K RATE %'' = Some (Num 0)"
  by (rule entry_venue_value [OF ok], simp only: empty venue_updates_pitcher_Nil)+

lemma opponent_without_history_loop:
  assumes ok: "analyze_entry n report_date pdf bdf g p name full = Inr entry"
    and empty: "entity_history report_date bdf (opponent_raw p) = []"
    and m: "m \<in> set (get_batting_metrics_for_inning n)" and k: "k \<in> set (value_keys m)"
  shows "entry k = Some (Num 0)"
proof (cases "k = ''OPP K/GM''")
  case True
  with entry_opp_k_gm [OF ok] show ?thesis
    by simp
next
  case False
  with batting_value_key_mem [OF m k] have "k \<in> set batting_loop_keys"
    by blast
  then have mem: "k \<in> fst ` set (batting_loop_updates n (columns bdf) [] (\<not> is_home p))"
    by (simp only: batting_loop_updates_keys)
  have val: "\<forall>k' v'. (k', v') \<in> set (batting_loop_updates n (columns bdf) [] (\<not> is_home p)) \<longrightarrow>
      v' = Num 0"
    by (blast dest: batting_loop_updates_empty)
  from key_has_value [OF mem val]
  have *: "(k, Num 0) \<in> set (batting_loop_updates n (columns bdf) [] (\<not> is_home p))"
    and **: "\<forall>v'. (k, v') \<in> set (batting_loop_updates n (columns bdf) [] (\<not> is_home p)) \<longrightarrow>
         v' = Num 0"
    by blast+
  show ?thesis
  proof (rule entry_batting_loop [OF ok])
    show "(k, Num 0) \<in> set (batting_loop_updates n (columns bdf) (entity_history report_date bdf (opponent_raw p)) (\<not> is_home p))"
      unfolding empty by (rule *)
    show "\<forall>v'. (k, v') \<in> set (batting_loop_updates n (columns bdf) (entity_history report_date bdf (opponent_raw p)) (\<not> is_home p)) \<longrightarrow>
        v' = Num 0"
      unfolding empty by (rule **)
  qed
qed

lemma opponent_without_history_last_game:
  assumes ok: "analyze_entry n report_date pdf bdf g p name full = Inr entry"
    and empty: "entity_history report_date bdf (opponent_raw p) = []"
    and m: "m \<in> set (get_batting_metrics_for_inning n)" and k: "last_game_key m = Some k"
  shows "entry k = Some (Str ''N/A'')"
proof (rule entry_opponent_last_game [OF ok])
  show "(k, Str ''N/A'') \<in> set (last_game_updates (columns bdf)
      (latest_outing (entity_history report_date bdf (opponent_raw p)))
      (get_batting_metrics_for_inning n))"
    unfolding empty latest_outing.simps by (rule last_game_updates_none_mem [OF m k])
  show "\<forall>v'. (k, v') \<in> set (last_game_updates (columns bdf)
      (latest_outing (entity_history report_date bdf (opponent_raw p)))
      (get_batting_metrics_for_inning n)) \<longrightarrow> v' = Str ''N/A''"
    unfolding empty latest_outing.simps using last_game_updates_none by blast
qed

lemma opponent_without_history_nrfi:
  assumes ok: "analyze_entry n report_date pdf bdf g p name full = Inr entry"
    and empty: "entity_history report_date bdf (opponent_raw p) = []"
  shows "entry (inning_key ''BAT NRFI %'' n) = Some (Num 0)"
  by (rule entry_opponent_nrfi [OF ok]) (simp_all only: empty nrfi_update_Nil, simp_all)

lemma opponent_without_history_venue:
  assumes ok: "analyze_entry n report_date pdf bdf g p name full = Inr entry"
    and empty: "entity_history report_date bdf (opponent_raw p) = []"
  shows "entry (inning_key ''OPPONENT VENUE NRFI %'' n) = Some (Num 0)"
    and "entry (inning_key ''BATTER VENUE NRHI %'' n) = Some (Num 0)"
    and "entry ''VENUE OPP K RATE %'' = Some (Num 0)"
  by (rule entry_venue_value [OF ok], simp only: empty venue_updates_opponent_Nil)+

lemma batting_rate_metric:
  assumes "m \<in> set (get_batting_metrics_for_inning n)"
    and "report_key_rate m = Some k" and "total_col m = Some tc"
  shows "k = ''BAT HIT AVG'' \<and> tc = inning_col n ''batters_to_plate''"
  using assms by (auto simp: get_batting_metrics_for_inning_def mk_metric_def)

lemma bat_hit_avg_metric:
  assumes "m \<in> set (get_batting_metrics_for_inning n)"
    and "''BAT HIT AVG'' \<in> set (value_keys m)"
  shows "col_name m = inning_col n ''hits_batting'' \<and>
         report_key_avg m = Some ''BAT HIT AVG #'' \<and>
         report_key_rate m = Some ''BAT HIT AVG'' \<and>
         report_key_per_game_pct m = None \<and>
         total_col m = Some (inning_col n ''batters_to_plate'')"
  using assms
  by (auto simp: get_batting_metrics_for_inning_def mk_metric_def value_keys_def)

lemma bat_hit_avg_update:
  assumes "(''BAT HIT AVG'', v) \<in> set (batting_loop_updates n cols h home)"
  shows "v = Num 0 \<or>
         v = Num (rate_pct (col_sum (inning_col n ''hits_batting'') h)
                    (col_sum (inning_col n ''batters_to_plate'') h))"
proof -
  from assms obtain m where m: "m \<in> set (get_batting_metrics_for_inning n)"
    and mem: "(''BAT HIT AVG'', v) \<in> set (batting_metric_update n cols h home m)"
    by (auto simp: batting_loop_updates_def)
  from mem have "''BAT HIT AVG'' \<in> fst ` set (batting_metric_update n cols h home m)"
    by (metis fst_conv image_eqI)
  then have "''BAT HIT AVG'' \<in> set (value_keys m)"
    by (simp add: batting_metric_update_keys split: if_splits)
  from bat_hit_avg_metric [OF m this] mem show ?thesis
    by (auto simp: batting_metric_update_def Let_def write_slot_def rate_update_def
        split: if_splits)
qed

lemma rate_pct_nonpositive: "total_for_rate \<le> 0 \<Longrightarrow> rate_pct total_sum total_for_rate = 0"
  by (simp add: rate_pct_def)

lemma zero_denominator_rate:
  assumes ok: "analyze_entry n report_date pdf bdf g p name full = Inr entry"
    and m: "m \<in> set (get_batting_metrics_for_inning n)"
    and k: "report_key_rate m = Some k" and tc: "total_col m = Some tc"
    and zero: "col_sum tc (entity_history report_date bdf (opponent_raw p)) \<le> 0"
  shows "entry k = Some (Num 0)"
proof -
  define oh where "oh = entity_history report_date bdf (opponent_raw p)"
  from batting_rate_metric [OF m k tc]
  have keq: "k = ''BAT HIT AVG''" and tceq: "tc = inning_col n ''batters_to_plate''"
    by simp_all
  have "''BAT HIT AVG'' \<in> set batting_loop_keys"
    by (simp add: batting_loop_keys_def)
  then have "''BAT HIT AVG'' \<in> fst ` set (batting_loop_updates n (columns bdf) oh (\<not> is_home p))"
    by (simp only: batting_loop_updates_keys)
  then obtain v where v: "(''BAT HIT AVG'', v) \<in>
      set (batting_loop_updates n (columns bdf) oh (\<not> is_home p))"
    by force
  have zero': "col_sum (inning_col n ''batters_to_plate'') oh \<le> 0"
    using zero by (simp only: oh_def tceq)
  have **: "\<forall>v'. (''BAT HIT AVG'', v') \<in>
        set (batting_loop_updates n (columns bdf) oh (\<not> is_home p)) \<longrightarrow> v' = Num 0"
  proof (intro allI impI)
    fix v'
    assume "(''BAT HIT AVG'', v') \<in> set (batting_loop_updates n (columns bdf) oh (\<not> is_home p))"
    from bat_hit_avg_update [OF this] show "v' = Num 0"
      using rate_pct_nonpositive [OF zero'] by auto
  qed
  with v have *: "(''BAT HIT AVG'', Num 0) \<in>
        set (batting_loop_updates n (columns bdf) oh (\<not> is_home p))"
    by blast
  show ?thesis
    unfolding keq
  proof (rule entry_batting_loop [OF ok])
    show "(''BAT HIT AVG'', Num 0) \<in> set (batting_loop_updates n (columns bdf)
        (entity_history report_date bdf (opponent_raw p)) (\<not> is_home p))"
      using * by (simp only: oh_def)
    show "\<forall>v'. (''BAT HIT AVG'', v') \<in> set (batting_loop_updates n (columns bdf)
        (entity_history report_date bdf (opponent_raw p)) (\<not> is_home p)) \<longrightarrow> v' = Num 0"
      using ** by (simp only: oh_def)
  qed
qed

lemma runs_allowed_metric_mem:
  "mk_metric (inning_col n ''runs_allowed'') (Some ''PITCH RUNS ALLOWED/GM'') None
     (Some ''PITCH RUNS ALLOWED PER GAME %'') None
     (Some (inning_key ''TODAY PITCHER RUNS ALLOWED'' n))
     (Some (inning_key ''LAST GAME PITCHER RUNS ALLOWED'' n))
   \<in> set (get_pitcher_metrics_for_inning n)"
  by (simp add: get_pitcher_metrics_for_inning_def)

lemma hits_batting_metric_mem:
  "mk_metric (inning_col n ''hits_batting'') (Some ''BAT HIT AVG #'') (Some ''BAT HIT AVG'')
     None (Some (inning_col n ''batters_to_plate''))
     (Some (inning_key ''TODAY OPPONENT HITS'' n))
     (Some (inning_key ''LAST GAME OPPONENT HITS BATTING'' n))
   \<in> set (get_batting_metrics_for_inning n)"
  by (simp add: get_batting_metrics_for_inning_def)

lemma example_histories:
  "entity_history 10 example_pitcher_df ''Rookie, New'' = []"
  "entity_history 10 example_batting_df ''SEA'' = []"
  "entity_history 10 example_batting_df ''NYY'' = [example_fact 2 102 ''NYY'' False []]"
  by (simp_all add: entity_history_def past_data_def example_pitcher_df_def
      example_batting_df_def example_fact_def)

text \<open>
  C2. In a report row that \<^verbatim>\<open>analyze_games\<close> returns: when the pitcher has no game before the
  report date, every average, rate and percentage key of the pitcher catalog, the pitcher's
  NRFI percentage and the three venue percentages of the pitcher hold 0, and every last game
  key of the pitcher catalog holds N/A; the same for the opposing team and the batting
  catalog; and a rate of the batting catalog whose denominator column sums to zero holds 0.
\<close>

theorem zero_history_defaults:
  assumes "analyze_entry n report_date pdf bdf g p name full = Inr entry"
  shows
    "(nunique_games (entity_history report_date pdf name) = 0 \<longrightarrow>
        (\<forall>m \<in> set (get_pitcher_metrics_for_inning n).
           (\<forall>k \<in> set (value_keys m). entry k = Some (Num 0)) \<and>
           (\<forall>k. last_game_key m = Some k \<longrightarrow> entry k = Some (Str ''N/A''))) \<and>
        entry (inning_key ''PITCH NRFI %'' n) = Some (Num 0) \<and>
        entry (inning_key ''PITCHER VENUE NRFI %'' n) = Some (Num 0) \<and>
        entry (inning_key ''PITCHER VENUE NRHI %'' n) = Some (Num 0) \<and>
        entry ''VENUE PITCH K RATE %'' = Some (Num 0)) \<and>
     (nunique_games (entity_history report_date bdf (opponent_raw p)) = 0 \<longrightarrow>
        (\<forall>m \<in> set (get_batting_metrics_for_inning n).
           (\<forall>k \<in> set (value_keys m). entry k = Some (Num 0)) \<and>
           (\<forall>k. last_game_key m = Some k \<longrightarrow> entry k = Some (Str ''N/A''))) \<and>
        entry (inning_key ''BAT NRFI %'' n) = Some (Num 0) \<and>
        entry (inning_key ''OPPONENT VENUE NRFI %'' n) = Some (Num 0) \<and>
        entry (inning_key ''BATTER VENUE NRHI %'' n) = Some (Num 0) \<and>
        entry ''VENUE OPP K RATE %'' = Some (Num 0)) \<and>
     (\<forall>m \<in> set (get_batting_metrics_for_inning n). \<forall>k tc.
        report_key_rate m = Some k \<and> total_col m = Some tc \<and>
        col_sum tc (entity_history report_date bdf (opponent_raw p)) \<le> 0 \<longrightarrow>
        entry k = Some (Num 0))"
proof (intro conjI impI ballI allI)
  fix m k
  assume "nunique_games (entity_history report_date pdf name) = 0"
  then have empty: "entity_history report_date pdf name = []"
    by (simp only: nunique_games_zero)
  note ok = assms
  show "entry (inning_key ''PITCH NRFI %'' n) = Some (Num 0)"
    by (rule pitcher_without_history_nrfi [OF ok empty])
  show "entry (inning_key ''PITCHER VENUE NRFI %'' n) = Some (Num 0)"
    by (rule pitcher_without_history_venue [OF ok empty])
  show "entry (inning_key ''PITCHER VENUE NRHI %'' n) = Some (Num 0)"
    by (rule pitcher_without_history_venue [OF ok empty])
  show "entry ''VENUE PITCH K RATE %'' = Some (Num 0)"
    by (rule pitcher_without_history_venue [OF ok empty])
  {
    assume "m \<in> set (get_pitcher_metrics_for_inning n)" "k \<in> set (value_keys m)"
    then show "entry k = Some (Num 0)"
      by (rule pitcher_without_history_loop [OF ok empty])
  }
  {
    assume "m \<in> set (get_pitcher_metrics_for_inning n)" "last_game_key m = Some k"
    then show "entry k = Some (Str ''N/A'')"
      by (rule pitcher_without_history_last_game [OF ok empty])
  }
next
  fix m k
  assume "nunique_games (entity_history report_date bdf (opponent_raw p)) = 0"
  then have empty: "entity_history report_date bdf (opponent_raw p) = []"
    by (simp only: nunique_games_zero)
  note ok = assms
  show "entry (inning_key ''BAT NRFI %'' n) = Some (Num 0)"
    by (rule opponent_without_history_nrfi [OF ok empty])
  show "entry (inning_key ''OPPONENT VENUE NRFI %'' n) = Some (Num 0)"
    by (rule opponent_without_history_venue [OF ok empty])
  show "entry (inning_key ''BATTER VENUE NRHI %'' n) = Some (Num 0)"
    by (rule opponent_without_history_venue [OF ok empty])
  show "entry ''VENUE OPP K RATE %'' = Some (Num 0)"
    by (rule opponent_without_history_venue [OF ok empty])
  {
    assume "m \<in> set (get_batting_metrics_for_inning n)" "k \<in> set (value_keys m)"
    then show "entry k = Some (Num 0)"
      by (rule opponent_without_history_loop [OF ok empty])
  }
  {
    assume "m \<in> set (get_batting_metrics_for_inning n)" "last_game_key m = Some k"
    then show "entry k = Some (Str ''N/A'')"
      by (rule opponent_without_history_last_game [OF ok empty])
  }
next
  fix m k tc
  assume "m \<in> set (get_batting_metrics_for_inning n)"
    and "report_key_rate m = Some k \<and> total_col m = Some tc \<and>
         col_sum tc (entity_history report_date bdf (opponent_raw p)) \<le> 0"
  then show "entry k = Some (Num 0)"
    using zero_denominator_rate [OF assms] by blast
qed

theorem zero_history_defaults_witness:
  "(\<exists>entry.
      analyze_entry 1 10 example_pitcher_df example_batting_df example_game
        example_debut_pitcher ''Rookie, New'' ''New Rookie'' = Inr entry \<and>
      nunique_games (entity_history 10 example_pitcher_df ''Rookie, New'') = 0 \<and>
      nunique_games (entity_history 10 example_batting_df (opponent_raw example_debut_pitcher)) = 0 \<and>
      entry ''PITCH RUNS ALLOWED/GM'' = Some (Num 0) \<and>
      entry ''PITCH RUNS ALLOWED PER GAME %'' = Some (Num 0) \<and>
      entry (inning_key ''LAST GAME PITCHER RUNS ALLOWED'' 1) = Some (Str ''N/A'') \<and>
      entry (inning_key ''PITCH NRFI %'' 1) = Some (Num 0) \<and>
      entry ''BAT HIT AVG #'' = Some (Num 0) \<and>
      entry ''BAT HIT AVG'' = Some (Num 0) \<and>
      entry (inning_key ''LAST GAME OPPONENT HITS BATTING'' 1) = Some (Str ''N/A'') \<and>
      entry (inning_key ''BAT NRFI %'' 1) = Some (Num 0)) \<and>
   (\<exists>entry.
      analyze_entry 1 10 example_pitcher_df example_batting_df example_game
        example_home_pitcher ''Rookie, New'' ''New Rookie'' = Inr entry \<and>
      entity_history 10 example_batting_df (opponent_raw example_home_pitcher) \<noteq> [] \<and>
      col_sum (inning_col 1 ''batters_to_plate'')
        (entity_history 10 example_batting_df (opponent_raw example_home_pitcher)) \<le> 0 \<and>
      entry ''BAT HIT AVG'' = Some (Num 0))"
proof (intro conjI)
  from example_analyze_ok(1) obtain entry
    where ok: "analyze_entry 1 10 example_pitcher_df example_batting_df example_game
        example_debut_pitcher ''Rookie, New'' ''New Rookie'' = Inr entry"
    by blast
  have p0: "nunique_games (entity_history 10 example_pitcher_df ''Rookie, New'') = 0"
    by (simp add: example_histories nunique_games_Nil)
  have o0: "nunique_games
      (entity_history 10 example_batting_df (opponent_raw example_debut_pitcher)) = 0"
    by (simp add: example_debut_pitcher_def example_histories nunique_games_Nil)
  note inst = zero_history_defaults [OF ok]
  note pitcher = inst [THEN conjunct1, rule_format, OF p0]
  note opponent = inst [THEN conjunct2, THEN conjunct1, rule_format, OF o0]
  note pm = pitcher [THEN conjunct1, rule_format, OF runs_allowed_metric_mem]
  note om = opponent [THEN conjunct1, rule_format, OF hits_batting_metric_mem]
  have "entry ''PITCH RUNS ALLOWED/GM'' = Some (Num 0)"
    "entry ''PITCH RUNS ALLOWED PER GAME %'' = Some (Num 0)"
    by (rule pm [THEN conjunct1, rule_format], simp add: value_keys_def mk_metric_def)+
  moreover have "entry (inning_key ''LAST GAME PITCHER RUNS ALLOWED'' 1) = Some (Str ''N/A'')"
    by (rule pm [THEN conjunct2, rule_format]) (simp add: mk_metric_def)
  moreover have "entry (inning_key ''PITCH NRFI %'' 1) = Some (Num 0)"
    by (rule pitcher [THEN conjunct2, THEN conjunct1])
  moreover have "entry ''BAT HIT AVG #'' = Some (Num 0)" "entry ''BAT HIT AVG'' = Some (Num 0)"
    by (rule om [THEN conjunct1, rule_format], simp add: value_keys_def mk_metric_def)+
  moreover have "entry (inning_key ''LAST GAME OPPONENT HITS BATTING'' 1) = Some (Str ''N/A'')"
    by (rule om [THEN conjunct2, rule_format]) (simp add: mk_metric_def)
  moreover have "entry (inning_key ''BAT NRFI %'' 1) = Some (Num 0)"
    by (rule opponent [THEN conjunct2, THEN conjunct1])
  ultimately show "\<exists>entry.
      analyze_entry 1 10 example_pitcher_df example_batting_df example_game
        example_debut_pitcher ''Rookie, New'' ''New Rookie'' = Inr entry \<and>
      nunique_games (entity_history 10 example_pitcher_df ''Rookie, New'') = 0 \<and>
      nunique_games (entity_history 10 example_batting_df (opponent_raw example_debut_pitcher)) = 0 \<and>
      entry ''PITCH RUNS ALLOWED/GM'' = Some (Num 0) \<and>
      entry ''PITCH RUNS ALLOWED PER GAME %'' = Some (Num 0) \<and>
      entry (inning_key ''LAST GAME PITCHER RUNS ALLOWED'' 1) = Some (Str ''N/A'') \<and>
      entry (inning_key ''PITCH NRFI %'' 1) = Some (Num 0) \<and>
      entry ''BAT HIT AVG #'' = Some (Num 0) \<and>
      entry ''BAT HIT AVG'' = Some (Num 0) \<and>
      entry (inning_key ''LAST GAME OPPONENT HITS BATTING'' 1) = Some (Str ''N/A'') \<and>
      entry (inning_key ''BAT NRFI %'' 1) = Some (Num 0)"
    using ok p0 o0 by blast
next
  from example_analyze_ok(1) obtain entry
    where ok: "analyze_entry 1 10 example_pitcher_df example_batting_df example_game
        example_home_pitcher ''Rookie, New'' ''New Rookie'' = Inr entry"
    by blast
  have h: "entity_history 10 example_batting_df (opponent_raw example_home_pitcher) =
      [example_fact 2 102 ''NYY'' False []]"
    by (simp add: example_home_pitcher_def example_histories)
  have ne: "entity_history 10 example_batting_df (opponent_raw example_home_pitcher) \<noteq> []"
    by (simp add: h)
  have z: "col_sum (inning_col 1 ''batters_to_plate'')
      (entity_history 10 example_batting_df (opponent_raw example_home_pitcher)) \<le> 0"
    by (simp add: h col_sum_def example_fact_def)
  note rate = zero_history_defaults [OF ok, THEN conjunct2, THEN conjunct2, rule_format,
      OF hits_batting_metric_mem, of "''BAT HIT AVG''" "inning_col 1 ''batters_to_plate''"]
  have "entry ''BAT HIT AVG'' = Some (Num 0)"
    using z by (intro rate conjI) (simp_all add: mk_metric_def)
  with ok ne z show "\<exists>entry.
      analyze_entry 1 10 example_pitcher_df example_batting_df example_game
        example_home_pitcher ''Rookie, New'' ''New Rookie'' = Inr entry \<and>
      entity_history 10 example_batting_df (opponent_raw example_home_pitcher) \<noteq> [] \<and>
      col_sum (inning_col 1 ''batters_to_plate'')
        (entity_history 10 example_batting_df (opponent_raw example_home_pitcher)) \<le> 0 \<and>
      entry ''BAT HIT AVG'' = Some (Num 0)"
    by blast
qed

end
